theory Spec2Isabelle
  imports Main "HOL-Library.Char_ord" "HOL-Library.List_Lexorder"
begin

section \<open>Data model of the sync engine\<close>

text \<open>
  The Go types of \<^verbatim>\<open>hivev1\<close> that \<^verbatim>\<open>syncset_controller.go\<close> manipulates.  Go's
  string-typed enumerations (\<^verbatim>\<open>ConditionStatus\<close>, \<^verbatim>\<open>SyncConditionType\<close>,
  \<^verbatim>\<open>SyncSetResourceApplyMode\<close>, ...) stay strings, so that every value the Go type
  admits is a value of the model.  A \<^verbatim>\<open>[]byte\<close> is a \<^typ>\<open>string\<close>.  A
  \<^verbatim>\<open>metav1.Time\<close> is an integer number of nanoseconds; \<^verbatim>\<open>time.Since t\<close> read at
  the instant \<open>now\<close> is \<open>now - t\<close> (Go's duration saturates far beyond two hours, which
  does not change a comparison with \<^verbatim>\<open>reapplyInterval\<close>).  One pass is modelled at one
  instant \<open>now\<close>.
\<close>

type_synonym bytes = string
type_synonym Time = int

datatype error = NotFoundError string | OtherError string

fun IsNotFound :: "error \<Rightarrow> bool" where
  "IsNotFound (NotFoundError m) = True"
| "IsNotFound (OtherError m) = False"

fun errorText :: "error \<Rightarrow> string" where
  "errorText (NotFoundError m) = m"
| "errorText (OtherError m) = m"

definition ConditionTrue :: string where "ConditionTrue = ''True''"
definition ConditionFalse :: string where "ConditionFalse = ''False''"
definition ConditionUnknown :: string where "ConditionUnknown = ''Unknown''"

definition ApplySuccessSyncCondition :: string where
  "ApplySuccessSyncCondition = ''ApplySuccess''"
definition ApplyFailureSyncCondition :: string where
  "ApplyFailureSyncCondition = ''ApplyFailure''"
definition DeletionFailedSyncCondition :: string where
  "DeletionFailedSyncCondition = ''DeletionFailed''"
definition UnknownObjectSyncCondition :: string where
  "UnknownObjectSyncCondition = ''UnknownObject''"

record SyncCondition =
  Type :: string
  Status :: string
  Reason :: string
  Message :: string
  LastProbeTime :: Time
  LastTransitionTime :: Time

record SyncStatus =
  APIVersion :: string
  Kind :: string
  Resource :: string
  Name :: string
  Namespace :: string
  Hash :: string
  Conditions :: "SyncCondition list"

text \<open>
  A Go slice is nil or not, and \<^verbatim>\<open>reflect.DeepEqual\<close> tells the nil slice from the
  empty one.  The model keeps the nil-ness of the slices of the status that the controller
  can leave without elements by its own doing.  \<^verbatim>\<open>Resources\<close> is replaced in every
  pass by a slice that is born empty (line 407) or is nil (line 611):
  \<open>ssosResourcesNil\<close> holds when it is the nil slice, and then \<open>ssosResources\<close> is
  empty.  The two status lists of the cluster deployment (below) are nil until the first
  entry is appended and stay non-nil when their entries are removed.  The patch statuses
  and the condition lists are left as they were read or get an element appended or
  replaced, so a list of them that the controller has touched has elements, and they stay
  plain lists.
\<close>

record SyncSetObjectStatus =
  ssosName :: string
  ssosResources :: "SyncStatus list"
  ssosResourcesNil :: bool
  ssosPatches :: "SyncStatus list"
  ssosConditions :: "SyncCondition list"

text \<open>The constants of \<^verbatim>\<open>syncset_controller.go\<close>, lines 51 to 60.\<close>

definition unknownObjectFoundReason :: string where
  "unknownObjectFoundReason = ''UnknownObjectFound''"
definition unknownObjectNotFoundReason :: string where
  "unknownObjectNotFoundReason = ''UnknownObjectNotFound''"
definition applySucceededReason :: string where
  "applySucceededReason = ''ApplySucceeded''"
definition applyFailedReason :: string where
  "applyFailedReason = ''ApplyFailed''"
definition deletionFailedReason :: string where
  "deletionFailedReason = ''DeletionFailed''"

definition hour :: int where
  "hour = 3600 * 1000000000"

definition reapplyInterval :: int where
  "reapplyInterval = 2 * hour"

section \<open>Condition utilities\<close>

text \<open>
  Modelled from the spec: \<^verbatim>\<open>controllerutils.FindSyncCondition\<close>,
  \<^verbatim>\<open>controllerutils.SetSyncCondition\<close> and the three
  \<^verbatim>\<open>UpdateConditionCheck\<close> policies live in \<^verbatim>\<open>pkg/controller/utils\<close>, which is
  not among the sources.  The spec describes them as "append/update typed conditions with
  update-policy rules", the condition list as "a small ordered sequence keyed by Type",
  the policies as "never / always / only-on-reason-or-message-change" that "determine
  whether LastProbeTime/LastTransitionTime advance", and says "transition time updates
  only on status change".  So: a condition of a type that is absent is appended; a present
  one is rewritten when its status changes or when the policy asks for it, and is left
  alone otherwise.  The functions return the new list; the list they are given is a value
  and stays as it was.
\<close>

datatype UpdateConditionCheck =
  UpdateConditionAlways | UpdateConditionNever | UpdateConditionIfReasonOrMessageChange

fun updateConditionCheck ::
  "UpdateConditionCheck \<Rightarrow> string \<Rightarrow> string \<Rightarrow> string \<Rightarrow> string \<Rightarrow> bool" where
  "updateConditionCheck UpdateConditionAlways oldReason oldMessage newReason newMessage = True"
| "updateConditionCheck UpdateConditionNever oldReason oldMessage newReason newMessage = False"
| "updateConditionCheck UpdateConditionIfReasonOrMessageChange oldReason oldMessage
     newReason newMessage = (oldReason \<noteq> newReason \<or> oldMessage \<noteq> newMessage)"

fun FindSyncCondition :: "SyncCondition list \<Rightarrow> string \<Rightarrow> SyncCondition option" where
  "FindSyncCondition [] t = None"
| "FindSyncCondition (c # cs) t = (if Type c = t then Some c else FindSyncCondition cs t)"

definition shouldUpdateCondition ::
  "SyncCondition \<Rightarrow> string \<Rightarrow> string \<Rightarrow> string \<Rightarrow> UpdateConditionCheck \<Rightarrow> bool" where
  "shouldUpdateCondition c status reason message chk =
     (Status c \<noteq> status \<or> updateConditionCheck chk (Reason c) (Message c) reason message)"

definition updateCondition ::
  "Time \<Rightarrow> SyncCondition \<Rightarrow> string \<Rightarrow> string \<Rightarrow> string \<Rightarrow> UpdateConditionCheck
     \<Rightarrow> SyncCondition" where
  "updateCondition now c status reason message chk =
     (if shouldUpdateCondition c status reason message chk
      then c\<lparr>Status := status, Reason := reason, Message := message, LastProbeTime := now,
             LastTransitionTime :=
               (if Status c \<noteq> status then now else LastTransitionTime c)\<rparr>
      else c)"

fun SetSyncCondition ::
  "Time \<Rightarrow> SyncCondition list \<Rightarrow> string \<Rightarrow> string \<Rightarrow> string \<Rightarrow> string
     \<Rightarrow> UpdateConditionCheck \<Rightarrow> SyncCondition list" where
  "SetSyncCondition now [] t status reason message chk =
     [\<lparr>Type = t, Status = status, Reason = reason, Message = message,
       LastProbeTime = now, LastTransitionTime = now\<rparr>]"
| "SetSyncCondition now (c # cs) t status reason message chk =
     (if Type c = t then updateCondition now c status reason message chk # cs
      else c # SetSyncCondition now cs t status reason message chk)"

section \<open>Conditions written by the sync engine\<close>

text \<open>
  \<^verbatim>\<open>setApplySyncConditions\<close> (lines 727 to 773): the outcome \<open>err\<close> of the apply
  or patch call decides reason, message, the two statuses and the update policy; the
  three conditions are then set in the order ApplySuccess, ApplyFailure, DeletionFailed.
\<close>

definition setApplySyncConditions ::
  "Time \<Rightarrow> SyncCondition list \<Rightarrow> error option \<Rightarrow> SyncCondition list" where
  "setApplySyncConditions now resourceSyncConditions err =
     (let (reason, message, successStatus, failureStatus, chk) =
        (case err of
           None \<Rightarrow> (applySucceededReason, ''Apply successful'', ConditionTrue, ConditionFalse,
                    UpdateConditionAlways)
         | Some e \<Rightarrow> (applyFailedReason, ''Apply failed'', ConditionFalse, ConditionTrue,
                    UpdateConditionIfReasonOrMessageChange));
        c1 = SetSyncCondition now resourceSyncConditions ApplySuccessSyncCondition
               successStatus reason message chk;
        c2 = SetSyncCondition now c1 ApplyFailureSyncCondition failureStatus reason message chk;
        c3 = SetSyncCondition now c2 DeletionFailedSyncCondition ConditionFalse reason message chk
      in c3)"

text \<open>\<^verbatim>\<open>setDeletionFailedSyncCondition\<close> (lines 775 to 786).\<close>

definition setDeletionFailedSyncCondition ::
  "Time \<Rightarrow> SyncCondition list \<Rightarrow> error option \<Rightarrow> SyncCondition list" where
  "setDeletionFailedSyncCondition now resourceSyncConditions err =
     (case err of
        None \<Rightarrow> resourceSyncConditions
      | Some e \<Rightarrow>
          SetSyncCondition now resourceSyncConditions DeletionFailedSyncCondition ConditionTrue
            deletionFailedReason (''Failed to delete resource: '' @ errorText e)
            UpdateConditionAlways)"

text \<open>The status and the message that a lookup by type reads off a condition list.\<close>

definition conditionStatus :: "SyncCondition list \<Rightarrow> string \<Rightarrow> string option" where
  "conditionStatus cs t = map_option Status (FindSyncCondition cs t)"


text \<open>
  \<^verbatim>\<open>setUnknownObjectSyncCondition\<close> (lines 708 to 725).  \<^verbatim>\<open>%v\<close> prints the index in
  decimal and the error as its text.
\<close>

fun showNat :: "nat \<Rightarrow> string" where
  "showNat n =
     (if n < 10 then [char_of (48 + n)] else showNat (n div 10) @ [char_of (48 + n mod 10)])"

declare showNat.simps [simp del]

definition setUnknownObjectSyncCondition ::
  "Time \<Rightarrow> SyncCondition list \<Rightarrow> error option \<Rightarrow> nat \<Rightarrow> SyncCondition list" where
  "setUnknownObjectSyncCondition now syncSetConditions err index =
     (let (status, reason, message) =
        (case err of
           None \<Rightarrow> (ConditionFalse, unknownObjectNotFoundReason,
                    ''Info available for all SyncSet resources'')
         | Some e \<Rightarrow> (ConditionTrue, unknownObjectFoundReason,
                    ''Unable to gather Info for SyncSet resource at index '' @ showNat index
                      @ '' in resources: '' @ errorText e))
      in SetSyncCondition now syncSetConditions UnknownObjectSyncCondition status reason message
           UpdateConditionNever)"

section \<open>The external collaborators\<close>

text \<open>
  The \<^verbatim>\<open>Applier\<close> interface (lines 62 to 67) and the dynamic client are the remote
  cluster.  Each is a record of functions giving the outcome of a call from its arguments;
  the calls a pass makes are returned in a log, in the order they are made.  The
  \<^verbatim>\<open>ApplyResult\<close> of a successful \<^verbatim>\<open>Apply\<close> only reaches a log line and is left out.
\<close>

record ResourceInfo =
  infoName :: string
  infoNamespace :: string
  infoAPIVersion :: string
  infoKind :: string
  infoResource :: string

record Applier =
  Apply :: "bytes \<Rightarrow> error option"
  Info :: "bytes \<Rightarrow> error + ResourceInfo"
  Patch :: "string \<times> string \<Rightarrow> string \<Rightarrow> string \<Rightarrow> bytes \<Rightarrow> string \<Rightarrow> error option"

text \<open>
  A group-version-resource is the triple (group, version, resource); the dynamic client
  is called as \<^verbatim>\<open>Resource(gvr).Namespace(ns).Delete(name)\<close>.
\<close>

type_synonym GroupVersionResource = "string \<times> string \<times> string"

record DynamicClient =
  Delete :: "GroupVersionResource \<Rightarrow> string \<Rightarrow> string \<Rightarrow> error option"

text \<open>
  The bundles.  \<^verbatim>\<open>SyncSet\<close> and \<^verbatim>\<open>SelectorSyncSet\<close> share their object metadata
  and the payload of their spec; a SyncSet names its cluster deployments, a
  SelectorSyncSet selects them by label.  A \<^verbatim>\<open>runtime.RawExtension\<close> is its
  \<^verbatim>\<open>Raw\<close> bytes.  A label selector is kept as its two parts, the required labels and
  the match expressions (key, operator, values).
\<close>

record SyncObjectPatch =
  pAPIVersion :: string
  pKind :: string
  pName :: string
  pNamespace :: string
  pPatch :: string
  pPatchType :: string
  pApplyMode :: string

record SyncSetCommon =
  metaName :: string
  metaNamespace :: string
  metaDeletionTimestamp :: "Time option"
  metaFinalizers :: "string list"
  specResources :: "bytes list"
  specPatches :: "SyncObjectPatch list"
  specResourceApplyMode :: string
  specResourceDeletionPolicy :: string

record SyncSet = SyncSetCommon +
  ClusterDeploymentRefs :: "string list"

type_synonym LabelSelector = "(string \<times> string) list \<times> (string \<times> string \<times> string list) list"

record SelectorSyncSet = SyncSetCommon +
  ClusterDeploymentSelector :: LabelSelector

text \<open>
  The cluster deployment, with the fields the two controllers read: metadata, the
  install config (an opaque document), the name of the AWS credentials secret when there
  is one, and the status that the sync engine compares and writes as a whole.
\<close>

record ClusterDeploymentStatus =
  Installed :: bool
  AdminKubeconfigSecret :: string
  SyncSetStatus :: "SyncSetObjectStatus list"
  SyncSetStatusNil :: bool
  SelectorSyncSetStatus :: "SyncSetObjectStatus list"
  SelectorSyncSetStatusNil :: bool

record ClusterDeployment =
  cdName :: string
  cdNamespace :: string
  cdLabels :: "(string \<times> string) list"
  cdDeletionTimestamp :: "Time option"
  cdFinalizers :: "string list"
  cdConfig :: string
  cdAWSCredentials :: "string option"
  cdStatus :: ClusterDeploymentStatus

text \<open>The calls that leave the sync controller: to the Applier (the info probe, apply
  with the index of the resource in its bundle, patch), to the dynamic client of the
  managed cluster (delete) and to the platform (updates of bundles and of the status of
  the cluster deployment).\<close>

datatype Call =
  InfoCall bytes
| ApplyCall nat bytes
| PatchCall "string \<times> string" string string bytes string
| DeleteCall GroupVersionResource string string
| UpdateSyncSetCall SyncSet
| UpdateSelectorSyncSetCall SelectorSyncSet
| StatusUpdateCall ClusterDeployment

text \<open>
  \<^verbatim>\<open>schema.ParseGroupVersion\<close> of the Kubernetes library, which the controller calls on
  a recorded apiVersion: the empty string and "/" give the empty group and version, a
  string without "/" is a version of the empty group, a string with one "/" splits there,
  and a string with more than one "/" is an error.
\<close>

definition ParseGroupVersion :: "string \<Rightarrow> error + string \<times> string" where
  "ParseGroupVersion gv =
     (if gv = [] \<or> gv = ''/'' then Inr ([], [])
      else if count_list gv (CHR ''/'') = 0 then Inr ([], gv)
      else if count_list gv (CHR ''/'') = 1
        then Inr (takeWhile (\<lambda>c. c \<noteq> CHR ''/'') gv, tl (dropWhile (\<lambda>c. c \<noteq> CHR ''/'') gv))
      else Inl (OtherError (''unexpected GroupVersion string: '' @ gv)))"

section \<open>Applying the resources of a bundle\<close>

text \<open>
  Modelled from the spec: the two values of \<^verbatim>\<open>hivev1.SyncSetResourceApplyMode\<close> are
  declared in \<^verbatim>\<open>pkg/apis\<close>, which is not among the sources; the spec names them
  upsert and sync.
\<close>

definition UpsertResourceApplyMode :: string where
  "UpsertResourceApplyMode = ''upsert''"
definition SyncResourceApplyMode :: string where
  "SyncResourceApplyMode = ''sync''"

text \<open>The first loop of \<^verbatim>\<open>applySyncSetResources\<close> (lines 395 to 404): the info probes,
  stopping at the first failure with its index.\<close>

fun gatherInfos :: "Applier \<Rightarrow> nat \<Rightarrow> bytes list \<Rightarrow> nat \<times> error + ResourceInfo list" where
  "gatherInfos h i [] = Inr []"
| "gatherInfos h i (raw # rest) =
     (case Info h raw of
        Inl err \<Rightarrow> Inl (i, err)
      | Inr info \<Rightarrow>
          (case gatherInfos h (Suc i) rest of
             Inl bad \<Rightarrow> Inl bad
           | Inr infos \<Rightarrow> Inr (info # infos)))"

text \<open>The calls of that loop: one probe per resource, up to and including the first that
  fails.\<close>

fun infoCalls :: "Applier \<Rightarrow> bytes list \<Rightarrow> Call list" where
  "infoCalls h [] = []"
| "infoCalls h (raw # rest) =
     InfoCall raw # (case Info h raw of Inl err \<Rightarrow> [] | Inr info \<Rightarrow> infoCalls h rest)"

text \<open>
  The inner loop over the recorded statuses (lines 426 to 458).  It stops at the first
  entry with the name, namespace, apiVersion and kind of the resource, and returns the
  conditions of that entry and the three flags \<^verbatim>\<open>found\<close>, \<^verbatim>\<open>different\<close> and
  \<^verbatim>\<open>shouldReApply\<close>.
\<close>

definition failedLastTime :: "SyncCondition list \<Rightarrow> bool" where
  "failedLastTime cs =
     (case FindSyncCondition cs ApplyFailureSyncCondition of
        None \<Rightarrow> False
      | Some failureCondition \<Rightarrow> Status failureCondition = ConditionTrue)"

definition reapplyDue :: "Time \<Rightarrow> SyncCondition list \<Rightarrow> bool" where
  "reapplyDue now cs =
     (case FindSyncCondition cs ApplySuccessSyncCondition of
        None \<Rightarrow> False
      | Some applySuccessCondition \<Rightarrow> now - LastProbeTime applySuccessCondition > reapplyInterval)"

fun resourceLookup ::
  "Time \<Rightarrow> SyncStatus list \<Rightarrow> SyncStatus \<Rightarrow> SyncCondition list \<times> bool \<times> bool \<times> bool" where
  "resourceLookup now [] resourceSyncStatus = ([], False, False, False)"
| "resourceLookup now (rss # rest) resourceSyncStatus =
     (if Name rss = Name resourceSyncStatus \<and> Namespace rss = Namespace resourceSyncStatus
         \<and> APIVersion rss = APIVersion resourceSyncStatus \<and> Kind rss = Kind resourceSyncStatus
      then
        (if Hash rss \<noteq> Hash resourceSyncStatus then (Conditions rss, True, True, False)
         else if failedLastTime (Conditions rss) then (Conditions rss, True, False, True)
         else (Conditions rss, True, False, reapplyDue now (Conditions rss)))
      else resourceLookup now rest resourceSyncStatus)"

definition newResourceSyncStatus :: "(bytes \<Rightarrow> string) \<Rightarrow> bytes \<Rightarrow> ResourceInfo \<Rightarrow> SyncStatus" where
  "newResourceSyncStatus hash raw info =
     \<lparr>APIVersion = infoAPIVersion info, Kind = infoKind info, Resource = infoResource info,
      Name = infoName info, Namespace = infoNamespace info, Hash = hash raw, Conditions = []\<rparr>"

text \<open>
  The second loop (lines 410 to 481) over the resources and their infos, from index \<open>i\<close>.
  It returns \<^verbatim>\<open>syncStatusList\<close>, the calls of \<^verbatim>\<open>Apply\<close> with the index of the
  resource, and \<^verbatim>\<open>applyErr\<close>; an apply error ends the loop after the status of the
  failed resource is appended.
\<close>

fun applyResourcesLoop ::
  "(bytes \<Rightarrow> string) \<Rightarrow> Applier \<Rightarrow> Time \<Rightarrow> SyncStatus list \<Rightarrow> nat \<Rightarrow> (bytes \<times> ResourceInfo) list
     \<Rightarrow> SyncStatus list \<times> Call list \<times> error option" where
  "applyResourcesLoop hash h now existing i [] = ([], [], None)"
| "applyResourcesLoop hash h now existing i ((raw, info) # rest) =
     (let resourceSyncStatus = newResourceSyncStatus hash raw info;
          (resourceSyncConditions, found, different, shouldReApply) =
             resourceLookup now existing resourceSyncStatus
      in if \<not> found \<or> different \<or> shouldReApply then
           (let applyErr = Apply h raw;
                applied = resourceSyncStatus
                  \<lparr>Conditions := setApplySyncConditions now resourceSyncConditions applyErr\<rparr>
            in case applyErr of
                 Some e \<Rightarrow> ([applied], [ApplyCall i raw], Some e)
               | None \<Rightarrow>
                   (let (syncStatusList, calls, err) =
                          applyResourcesLoop hash h now existing (Suc i) rest
                    in (applied # syncStatusList, ApplyCall i raw # calls, err)))
         else
           (let (syncStatusList, calls, err) =
                  applyResourcesLoop hash h now existing (Suc i) rest
            in (resourceSyncStatus\<lparr>Conditions := resourceSyncConditions\<rparr> # syncStatusList,
                calls, err)))"

text \<open>
  \<^verbatim>\<open>reconcileDeletedSyncSetResources\<close> (lines 571 to 628).  The candidates are
  collected with their indices in \<^verbatim>\<open>existingStatusList\<close>.  The delete loop writes the
  DeletionFailed condition into \<^verbatim>\<open>existingStatusList[index]\<close>, the caller's array, so
  the model returns that array next to the returned list, the delete calls and the error.
\<close>

fun foundInNew :: "SyncStatus \<Rightarrow> SyncStatus list \<Rightarrow> bool" where
  "foundInNew existingStatus [] = False"
| "foundInNew existingStatus (newStatus # rest) =
     (if Name existingStatus = Name newStatus \<and> Namespace existingStatus = Namespace newStatus
         \<and> APIVersion existingStatus = APIVersion newStatus
         \<and> Kind existingStatus = Kind newStatus
      then True else foundInNew existingStatus rest)"

fun deletionCandidates ::
  "nat \<Rightarrow> SyncStatus list \<Rightarrow> SyncStatus list \<Rightarrow> (SyncStatus \<times> nat) list" where
  "deletionCandidates i [] newStatusList = []"
| "deletionCandidates i (existingStatus # rest) newStatusList =
     (if \<not> foundInNew existingStatus newStatusList
      then (existingStatus, i) # deletionCandidates (Suc i) rest newStatusList
      else deletionCandidates (Suc i) rest newStatusList)"

fun deleteLoop ::
  "Time \<Rightarrow> DynamicClient \<Rightarrow> (SyncStatus \<times> nat) list \<Rightarrow> SyncStatus list
     \<Rightarrow> SyncStatus list \<times> Call list \<times> error option" where
  "deleteLoop now dynamicClient [] existingStatusList = (existingStatusList, [], None)"
| "deleteLoop now dynamicClient ((deletedStatus, index) # rest) existingStatusList =
     (case ParseGroupVersion (APIVersion deletedStatus) of
        Inl err \<Rightarrow> (existingStatusList, [], Some err)
      | Inr (g, v) \<Rightarrow>
          (let gvr = (g, v, Resource deletedStatus);
               err = Delete dynamicClient gvr (Namespace deletedStatus) (Name deletedStatus);
               marked =
                 (case err of
                    None \<Rightarrow> existingStatusList
                  | Some e \<Rightarrow>
                      if \<not> IsNotFound e then
                        existingStatusList[index := (existingStatusList ! index)
                          \<lparr>Conditions := setDeletionFailedSyncCondition now
                             (Conditions (existingStatusList ! index)) (Some e)\<rparr>]
                      else existingStatusList);
               (final, calls, loopErr) = deleteLoop now dynamicClient rest marked
           in (final, DeleteCall gvr (Namespace deletedStatus) (Name deletedStatus) # calls,
               loopErr)))"

text \<open>The result is (returned list, \<^verbatim>\<open>existingStatusList\<close> after the pass, delete
  calls, error); a returned \<^verbatim>\<open>nil\<close> list is the empty list, returned with an
  error, and the caller records that it is nil.\<close>

definition reconcileDeletedSyncSetResources ::
  "Time \<Rightarrow> string \<Rightarrow> DynamicClient \<Rightarrow> SyncStatus list \<Rightarrow> SyncStatus list \<Rightarrow> error option
     \<Rightarrow> SyncStatus list \<times> SyncStatus list \<times> Call list \<times> error option" where
  "reconcileDeletedSyncSetResources now applyMode dynamicClient existingStatusList newStatusList
     err =
     (if applyMode = [] \<or> applyMode = UpsertResourceApplyMode
      then (newStatusList, existingStatusList, [], None)
      else
        (let deleted = deletionCandidates 0 existingStatusList newStatusList in
         if err \<noteq> None
         then (newStatusList @ map fst deleted, existingStatusList, [], None)
         else
           (case deleteLoop now dynamicClient deleted existingStatusList of
              (final, calls, Some e) \<Rightarrow> ([], final, calls, Some e)
            | (final, calls, None) \<Rightarrow> (newStatusList, final, calls, None))))"

text \<open>
  \<^verbatim>\<open>applySyncSetResources\<close> (lines 393 to 500).  The result is the bundle status as
  the caller sees it afterwards, the calls made, and the returned error.  The list that
  the deletion pass returns is assigned to \<^verbatim>\<open>syncSetStatus.Resources\<close> also when that
  pass fails, and then it is nil; otherwise it is \<^verbatim>\<open>syncStatusList\<close>, born as the
  empty slice of line 407, or that slice with the candidates appended, and is not nil.
\<close>

definition applySyncSetResources ::
  "(bytes \<Rightarrow> string) \<Rightarrow> Time \<Rightarrow> string \<Rightarrow> bytes list \<Rightarrow> DynamicClient \<Rightarrow> Applier
     \<Rightarrow> SyncSetObjectStatus \<Rightarrow> SyncSetObjectStatus \<times> Call list \<times> error option" where
  "applySyncSetResources hash now applyMode ssResources dynamicClient h syncSetStatus =
     (case gatherInfos h 0 ssResources of
        Inl (i, err) \<Rightarrow>
          (syncSetStatus\<lparr>ssosConditions :=
             setUnknownObjectSyncCondition now (ssosConditions syncSetStatus) (Some err) i\<rparr>,
           infoCalls h ssResources, Some err)
      | Inr infos \<Rightarrow>
          (let st = syncSetStatus\<lparr>ssosConditions :=
                 setUnknownObjectSyncCondition now (ssosConditions syncSetStatus) None 0\<rparr>;
               (syncStatusList, applyCalls, applyErr) =
                 applyResourcesLoop hash h now (ssosResources st) 0 (zip ssResources infos);
               (resources, existing, deleteCalls, delErr) =
                 reconcileDeletedSyncSetResources now applyMode dynamicClient (ssosResources st)
                   syncStatusList applyErr;
               st' = st\<lparr>ssosResources := resources, ssosResourcesNil := (delErr \<noteq> None)\<rparr>;
               calls = infoCalls h ssResources @ applyCalls @ deleteCalls
           in case delErr of
                Some e \<Rightarrow> (st', calls, Some e)
              | None \<Rightarrow> (st', calls, applyErr)))"

section \<open>Applying the patches of a bundle\<close>

text \<open>
  Modelled from the spec: the value of \<^verbatim>\<open>hivev1.ApplyOncePatchApplyMode\<close> is declared
  in \<^verbatim>\<open>pkg/apis\<close>, which is not among the sources; the spec names the two patch
  apply modes always and once.
\<close>

definition ApplyOncePatchApplyMode :: string where
  "ApplyOncePatchApplyMode = ''once''"

text \<open>
  The inner loop of \<^verbatim>\<open>applySyncSetPatches\<close> over the recorded patch statuses (lines
  521 to 552): the first entry with the name, namespace and kind of the patch decides.
\<close>

fun patchLookup ::
  "Time \<Rightarrow> string \<Rightarrow> SyncStatus list \<Rightarrow> SyncStatus
     \<Rightarrow> SyncCondition list \<times> bool \<times> bool \<times> bool" where
  "patchLookup now applyMode [] patchSyncStatus = ([], False, False, False)"
| "patchLookup now applyMode (pss # rest) patchSyncStatus =
     (if Name pss = Name patchSyncStatus \<and> Namespace pss = Namespace patchSyncStatus
         \<and> Kind pss = Kind patchSyncStatus
      then
        (if Hash pss \<noteq> Hash patchSyncStatus then (Conditions pss, True, True, False)
         else if failedLastTime (Conditions pss) then (Conditions pss, True, False, True)
         else (Conditions pss, True, False,
               applyMode \<noteq> ApplyOncePatchApplyMode \<and> reapplyDue now (Conditions pss)))
      else patchLookup now applyMode rest patchSyncStatus)"

text \<open>\<^verbatim>\<open>appendOrUpdateSyncStatus\<close> (lines 656 to 664).\<close>

fun appendOrUpdateSyncStatus :: "SyncStatus list \<Rightarrow> SyncStatus \<Rightarrow> SyncStatus list" where
  "appendOrUpdateSyncStatus [] syncStatus = [syncStatus]"
| "appendOrUpdateSyncStatus (ss # rest) syncStatus =
     (if Name ss = Name syncStatus \<and> Namespace ss = Namespace syncStatus
         \<and> Kind ss = Kind syncStatus
      then syncStatus # rest
      else ss # appendOrUpdateSyncStatus rest syncStatus)"

text \<open>The status that the loop builds for a patch (lines 507 to 513); the plural
  \<^verbatim>\<open>Resource\<close> stays empty.\<close>

definition newPatchSyncStatus :: "(bytes \<Rightarrow> string) \<Rightarrow> SyncObjectPatch \<Rightarrow> SyncStatus" where
  "newPatchSyncStatus hash ssPatch =
     \<lparr>APIVersion = pAPIVersion ssPatch, Kind = pKind ssPatch, Resource = [],
      Name = pName ssPatch, Namespace = pNamespace ssPatch, Hash = hash (pPatch ssPatch),
      Conditions = []\<rparr>"

definition patchCall :: "SyncObjectPatch \<Rightarrow> Call" where
  "patchCall ssPatch =
     PatchCall (pNamespace ssPatch, pName ssPatch) (pKind ssPatch) (pAPIVersion ssPatch)
       (pPatch ssPatch) (pPatchType ssPatch)"

text \<open>
  The loop of \<^verbatim>\<open>applySyncSetPatches\<close> (lines 506 to 568) over the patches, threading
  \<^verbatim>\<open>syncSetStatus.Patches\<close>, which every applied patch updates at once.  The result
  is that list, the patch calls, and the returned error.
\<close>

fun applyPatchesLoop ::
  "(bytes \<Rightarrow> string) \<Rightarrow> Applier \<Rightarrow> Time \<Rightarrow> SyncObjectPatch list \<Rightarrow> SyncStatus list
     \<Rightarrow> SyncStatus list \<times> Call list \<times> error option" where
  "applyPatchesLoop hash h now [] patches = (patches, [], None)"
| "applyPatchesLoop hash h now (ssPatch # rest) patches =
     (let patchSyncStatus = newPatchSyncStatus hash ssPatch;
          (patchSyncConditions, found, different, shouldReApply) =
             patchLookup now (pApplyMode ssPatch) patches patchSyncStatus
      in if \<not> found \<or> different \<or> shouldReApply then
           (let err = Patch h (pNamespace ssPatch, pName ssPatch) (pKind ssPatch)
                        (pAPIVersion ssPatch) (pPatch ssPatch) (pPatchType ssPatch);
                patches' = appendOrUpdateSyncStatus patches
                  (patchSyncStatus
                    \<lparr>Conditions := setApplySyncConditions now patchSyncConditions err\<rparr>)
            in case err of
                 Some e \<Rightarrow> (patches', [patchCall ssPatch], Some e)
               | None \<Rightarrow>
                   (let (final, calls, loopErr) = applyPatchesLoop hash h now rest patches'
                    in (final, patchCall ssPatch # calls, loopErr)))
         else applyPatchesLoop hash h now rest patches)"

definition applySyncSetPatches ::
  "(bytes \<Rightarrow> string) \<Rightarrow> Time \<Rightarrow> SyncObjectPatch list \<Rightarrow> Applier \<Rightarrow> SyncSetObjectStatus
     \<Rightarrow> SyncSetObjectStatus \<times> Call list \<times> error option" where
  "applySyncSetPatches hash now ssPatches h syncSetStatus =
     (case applyPatchesLoop hash h now ssPatches (ssosPatches syncSetStatus) of
        (patches, calls, err) \<Rightarrow> (syncSetStatus\<lparr>ssosPatches := patches\<rparr>, calls, err))"

section \<open>The claims in the words of the specification\<close>

text \<open>
  The definitions of this section follow the wording of the specification, not the code;
  the theorems compare them with the functions translated from the source.

  A recorded status matches a resource by the four-tuple (apiVersion, kind, namespace,
  name).  The resource is to be reapplied when no recorded status matches, or the hash of
  the first match differs, or that match has ApplyFailure with status True, or it has an
  ApplySuccess condition probed more than the reapply interval ago.
\<close>

definition matchesResource :: "ResourceInfo \<Rightarrow> SyncStatus \<Rightarrow> bool" where
  "matchesResource info e =
     (APIVersion e = infoAPIVersion info \<and> Kind e = infoKind info
      \<and> Namespace e = infoNamespace info \<and> Name e = infoName info)"

definition specReapplyResource ::
  "(bytes \<Rightarrow> string) \<Rightarrow> Time \<Rightarrow> SyncStatus list \<Rightarrow> bytes \<Rightarrow> ResourceInfo \<Rightarrow> bool" where
  "specReapplyResource hash now prior raw info =
     (case find (matchesResource info) prior of
        None \<Rightarrow> True
      | Some e \<Rightarrow>
          Hash e \<noteq> hash raw
          \<or> conditionStatus (Conditions e) ApplyFailureSyncCondition = Some ConditionTrue
          \<or> (case FindSyncCondition (Conditions e) ApplySuccessSyncCondition of
                None \<Rightarrow> False
              | Some c \<Rightarrow> now - LastProbeTime c > reapplyInterval))"

text \<open>The calls made by \<^const>\<open>applySyncSetResources\<close>.\<close>

definition applyCalls ::
  "(bytes \<Rightarrow> string) \<Rightarrow> Time \<Rightarrow> string \<Rightarrow> bytes list \<Rightarrow> DynamicClient \<Rightarrow> Applier
     \<Rightarrow> SyncSetObjectStatus \<Rightarrow> Call list" where
  "applyCalls hash now applyMode ssResources dynamicClient h syncSetStatus =
     fst (snd (applySyncSetResources hash now applyMode ssResources dynamicClient h syncSetStatus))"

text \<open>
  The deletion candidates are the recorded statuses with no four-tuple match in the new
  list.  Deleting them in order stops at the first one whose recorded apiVersion does not
  parse.
\<close>

definition sameResource :: "SyncStatus \<Rightarrow> SyncStatus \<Rightarrow> bool" where
  "sameResource a b =
     (APIVersion a = APIVersion b \<and> Kind a = Kind b \<and> Namespace a = Namespace b
      \<and> Name a = Name b)"

definition staleCandidates :: "SyncStatus list \<Rightarrow> SyncStatus list \<Rightarrow> SyncStatus list" where
  "staleCandidates prior newStatusList =
     filter (\<lambda>e. \<not> list_ex (sameResource e) newStatusList) prior"

fun deletesUntilUnparsable :: "SyncStatus list \<Rightarrow> Call list" where
  "deletesUntilUnparsable [] = []"
| "deletesUntilUnparsable (d # ds) =
     (case ParseGroupVersion (APIVersion d) of
        Inl e \<Rightarrow> []
      | Inr (g, v) \<Rightarrow>
          DeleteCall (g, v, Resource d) (Namespace d) (Name d) # deletesUntilUnparsable ds)"

fun firstParseError :: "SyncStatus list \<Rightarrow> error option" where
  "firstParseError [] = None"
| "firstParseError (d # ds) =
     (case ParseGroupVersion (APIVersion d) of
        Inl e \<Rightarrow> Some e
      | Inr gv \<Rightarrow> firstParseError ds)"

text \<open>The three results of \<^const>\<open>reconcileDeletedSyncSetResources\<close> that its caller
  sees, and the recorded statuses as the pass leaves them.\<close>

definition existingAfter ::
  "Time \<Rightarrow> string \<Rightarrow> DynamicClient \<Rightarrow> SyncStatus list \<Rightarrow> SyncStatus list \<Rightarrow> error option
     \<Rightarrow> SyncStatus list" where
  "existingAfter now applyMode dynamicClient existingStatusList newStatusList err =
     fst (snd (reconcileDeletedSyncSetResources now applyMode dynamicClient existingStatusList
            newStatusList err))"

definition returnedList ::
  "Time \<Rightarrow> string \<Rightarrow> DynamicClient \<Rightarrow> SyncStatus list \<Rightarrow> SyncStatus list \<Rightarrow> error option
     \<Rightarrow> SyncStatus list" where
  "returnedList now applyMode dynamicClient existingStatusList newStatusList err =
     fst (reconcileDeletedSyncSetResources now applyMode dynamicClient existingStatusList
            newStatusList err)"

definition deleteCalls ::
  "Time \<Rightarrow> string \<Rightarrow> DynamicClient \<Rightarrow> SyncStatus list \<Rightarrow> SyncStatus list \<Rightarrow> error option
     \<Rightarrow> Call list" where
  "deleteCalls now applyMode dynamicClient existingStatusList newStatusList err =
     fst (snd (snd (reconcileDeletedSyncSetResources now applyMode dynamicClient
            existingStatusList newStatusList err)))"

definition returnedError ::
  "Time \<Rightarrow> string \<Rightarrow> DynamicClient \<Rightarrow> SyncStatus list \<Rightarrow> SyncStatus list \<Rightarrow> error option
     \<Rightarrow> error option" where
  "returnedError now applyMode dynamicClient existingStatusList newStatusList err =
     snd (snd (snd (reconcileDeletedSyncSetResources now applyMode dynamicClient
            existingStatusList newStatusList err)))"

text \<open>A delete counts as a success when the dynamic client returns no error or a NotFound
  error.\<close>

definition deleteAccepted :: "DynamicClient \<Rightarrow> Call \<Rightarrow> bool" where
  "deleteAccepted dynamicClient call =
     (case call of
        DeleteCall gvr namespace name \<Rightarrow>
          (case Delete dynamicClient gvr namespace name of
             None \<Rightarrow> True
           | Some e \<Rightarrow> IsNotFound e)
      | other \<Rightarrow> True)"

section \<open>Concrete collaborators for the examples\<close>

text \<open>
  The hash is a field of the reconciler, which the examples fill with a tagging function.
  The example applier reads every resource as a ConfigMap named by its bytes.
\<close>

definition testHash :: "bytes \<Rightarrow> string" where
  "testHash raw = ''md5:'' @ raw"

definition configMapInfo :: "bytes \<Rightarrow> error + ResourceInfo" where
  "configMapInfo raw =
     Inr \<lparr>infoName = raw, infoNamespace = ''default'', infoAPIVersion = ''v1'',
          infoKind = ''ConfigMap'', infoResource = ''configmaps''\<rparr>"

definition failingApplier :: Applier where
  "failingApplier =
     \<lparr>Apply = (\<lambda>raw. Some (OtherError ''connection refused'')),
      Info = configMapInfo,
      Patch = (\<lambda>name kind apiVersion patch patchType. Some (OtherError ''connection refused''))\<rparr>"

definition workingApplier :: Applier where
  "workingApplier =
     \<lparr>Apply = (\<lambda>raw. None), Info = configMapInfo,
      Patch = (\<lambda>name kind apiVersion patch patchType. None)\<rparr>"

definition failingClient :: DynamicClient where
  "failingClient = \<lparr>Delete = (\<lambda>gvr namespace name. Some (OtherError ''forbidden''))\<rparr>"

definition goneClient :: DynamicClient where
  "goneClient = \<lparr>Delete = (\<lambda>gvr namespace name. Some (NotFoundError ''gone''))\<rparr>"

definition workingClient :: DynamicClient where
  "workingClient = \<lparr>Delete = (\<lambda>gvr namespace name. None)\<rparr>"

definition emptyStatus :: "string \<Rightarrow> SyncSetObjectStatus" where
  "emptyStatus name =
     \<lparr>ssosName = name, ssosResources = [], ssosResourcesNil = True, ssosPatches = [],
      ssosConditions = []\<rparr>"

definition recordedConfigMap :: "string \<Rightarrow> string \<Rightarrow> SyncStatus" where
  "recordedConfigMap apiVersion name =
     \<lparr>APIVersion = apiVersion, Kind = ''ConfigMap'', Resource = ''configmaps'', Name = name,
      Namespace = ''default'', Hash = testHash name, Conditions = []\<rparr>"

section \<open>The patch claims in the words of the specification\<close>

text \<open>
  A recorded patch status matches a patch by (name, namespace, kind).  The patch is to be
  reapplied when no recorded status matches, or the hash of its body differs from the
  hash of the first match, or that match has ApplyFailure with status True, or the apply
  mode of the patch is not once and the match has an ApplySuccess condition probed more
  than the reapply interval ago.  The recorded statuses are those of the bundle at the
  moment the patch is reached: a patch applied earlier in the same pass is recorded
  already.  The status of a patch carries its apiVersion, kind, name and namespace and the
  hash of its body; recording it replaces the first status that matches the patch, or
  adds it at the end when none does.
\<close>

definition matchesPatch :: "SyncObjectPatch \<Rightarrow> SyncStatus \<Rightarrow> bool" where
  "matchesPatch p e = (Name e = pName p \<and> Namespace e = pNamespace p \<and> Kind e = pKind p)"

definition specReapplyPatch ::
  "(bytes \<Rightarrow> string) \<Rightarrow> Time \<Rightarrow> SyncStatus list \<Rightarrow> SyncObjectPatch \<Rightarrow> bool" where
  "specReapplyPatch hash now recorded p =
     (case find (matchesPatch p) recorded of
        None \<Rightarrow> True
      | Some e \<Rightarrow>
          hash (pPatch p) \<noteq> Hash e
          \<or> conditionStatus (Conditions e) ApplyFailureSyncCondition = Some ConditionTrue
          \<or> (pApplyMode p \<noteq> ApplyOncePatchApplyMode
              \<and> (case FindSyncCondition (Conditions e) ApplySuccessSyncCondition of
                     None \<Rightarrow> False
                   | Some c \<Rightarrow> now - LastProbeTime c > reapplyInterval)))"

definition matchedConditions :: "SyncStatus list \<Rightarrow> SyncObjectPatch \<Rightarrow> SyncCondition list" where
  "matchedConditions recorded p =
     (case find (matchesPatch p) recorded of None \<Rightarrow> [] | Some e \<Rightarrow> Conditions e)"

definition patchOutcome :: "Applier \<Rightarrow> SyncObjectPatch \<Rightarrow> error option" where
  "patchOutcome h p =
     Patch h (pNamespace p, pName p) (pKind p) (pAPIVersion p) (pPatch p) (pPatchType p)"

definition patchStatus ::
  "(bytes \<Rightarrow> string) \<Rightarrow> SyncObjectPatch \<Rightarrow> SyncCondition list \<Rightarrow> SyncStatus" where
  "patchStatus hash p conditions =
     \<lparr>APIVersion = pAPIVersion p, Kind = pKind p, Resource = [], Name = pName p,
      Namespace = pNamespace p, Hash = hash (pPatch p), Conditions = conditions\<rparr>"

definition recordPatch ::
  "(bytes \<Rightarrow> string) \<Rightarrow> Applier \<Rightarrow> Time \<Rightarrow> SyncStatus list \<Rightarrow> SyncObjectPatch \<Rightarrow> SyncStatus list" where
  "recordPatch hash h now recorded p =
     (let status = patchStatus hash p
            (setApplySyncConditions now (matchedConditions recorded p) (patchOutcome h p))
      in if list_ex (matchesPatch p) recorded
         then takeWhile (\<lambda>e. \<not> matchesPatch p e) recorded
              @ status # tl (dropWhile (\<lambda>e. \<not> matchesPatch p e) recorded)
         else recorded @ [status])"

section \<open>Finalizers and status lists\<close>

text \<open>
  Modelled from the spec: \<^verbatim>\<open>controllerutils.HasFinalizer\<close>, \<^verbatim>\<open>AddFinalizer\<close> and
  \<^verbatim>\<open>DeleteFinalizer\<close> live in \<^verbatim>\<open>pkg/controller/utils\<close>, which is not among the
  sources, and so do the finalizer names and the orphan deletion policy of
  \<^verbatim>\<open>pkg/apis\<close>.  The spec describes the utilities as "add/remove/test named finalizer
  strings on objects", "a set-valued attribute with idempotent add/remove/test", and
  gives the reserved names.  The functions below are the copies of the same three
  utilities that the lifecycle controller declares itself (its lines 405 to 427), taken
  on the finalizer list of the object: the test is a linear search, add and delete go
  through a string set whose \<^verbatim>\<open>List()\<close> is sorted.
\<close>

definition FinalizerSyncSetCleanup :: string where
  "FinalizerSyncSetCleanup = ''hive.openshift.io/syncset-cleanup''"

definition FinalizerDeprovision :: string where
  "FinalizerDeprovision = ''hive.openshift.io/deprovision''"

definition OrphanResourceDeletionPolicy :: string where
  "OrphanResourceDeletionPolicy = ''orphan''"

fun HasFinalizer :: "string list \<Rightarrow> string \<Rightarrow> bool" where
  "HasFinalizer [] finalizer = False"
| "HasFinalizer (f # fs) finalizer = (if f = finalizer then True else HasFinalizer fs finalizer)"

definition AddFinalizer :: "string list \<Rightarrow> string \<Rightarrow> string list" where
  "AddFinalizer finalizers finalizer = sorted_list_of_set (insert finalizer (set finalizers))"

definition DeleteFinalizer :: "string list \<Rightarrow> string \<Rightarrow> string list" where
  "DeleteFinalizer finalizers finalizer = sorted_list_of_set (set finalizers - {finalizer})"

text \<open>\<^verbatim>\<open>appendOrUpdateSyncSetObjectStatus\<close>, \<^verbatim>\<open>findSyncSetStatus\<close> and
  \<^verbatim>\<open>removeSyncSetObjectStatus\<close> (lines 666 to 693).\<close>

fun appendOrUpdateSyncSetObjectStatus ::
  "SyncSetObjectStatus list \<Rightarrow> SyncSetObjectStatus \<Rightarrow> SyncSetObjectStatus list" where
  "appendOrUpdateSyncSetObjectStatus [] syncSetObjectStatus = [syncSetObjectStatus]"
| "appendOrUpdateSyncSetObjectStatus (ssos # rest) syncSetObjectStatus =
     (if ssosName ssos = ssosName syncSetObjectStatus then syncSetObjectStatus # rest
      else ssos # appendOrUpdateSyncSetObjectStatus rest syncSetObjectStatus)"

fun findSyncSetStatus :: "string \<Rightarrow> SyncSetObjectStatus list \<Rightarrow> SyncSetObjectStatus" where
  "findSyncSetStatus name [] =
     \<lparr>ssosName = name, ssosResources = [], ssosResourcesNil = True, ssosPatches = [],
      ssosConditions = []\<rparr>"
| "findSyncSetStatus name (ssos # rest) =
     (if name = ssosName ssos then ssos else findSyncSetStatus name rest)"

fun removeSyncSetObjectStatus ::
  "SyncSetObjectStatus list \<Rightarrow> string \<Rightarrow> SyncSetObjectStatus list" where
  "removeSyncSetObjectStatus [] syncSetName = []"
| "removeSyncSetObjectStatus (ssos # rest) syncSetName =
     (if ssosName ssos = syncSetName then removeSyncSetObjectStatus rest syncSetName
      else ssos # removeSyncSetObjectStatus rest syncSetName)"

section \<open>Cleanup of a deleted bundle\<close>

text \<open>
  \<^verbatim>\<open>deleteSyncSetResources\<close> (lines 630 to 654) walks the recorded resource statuses
  of the bundle.  A recorded apiVersion that does not parse ends it with the error; the
  outcome of a delete is logged and otherwise dropped, in each of its three cases.  The
  result is the delete calls and the returned error.
\<close>

fun deleteRecorded :: "DynamicClient \<Rightarrow> SyncStatus list \<Rightarrow> Call list \<times> error option" where
  "deleteRecorded dynamicClient [] = ([], None)"
| "deleteRecorded dynamicClient (resourceStatus # rest) =
     (case ParseGroupVersion (APIVersion resourceStatus) of
        Inl err \<Rightarrow> ([], Some err)
      | Inr (g, v) \<Rightarrow>
          (let gvr = (g, v, Resource resourceStatus);
               err = Delete dynamicClient gvr (Namespace resourceStatus) (Name resourceStatus);
               (calls, loopErr) =
                 (case err of
                    None \<Rightarrow> deleteRecorded dynamicClient rest
                  | Some e \<Rightarrow>
                      if \<not> IsNotFound e then deleteRecorded dynamicClient rest
                      else deleteRecorded dynamicClient rest)
           in (DeleteCall gvr (Namespace resourceStatus) (Name resourceStatus) # calls, loopErr)))"

definition deleteSyncSetResources ::
  "SyncSetObjectStatus \<Rightarrow> DynamicClient \<Rightarrow> Call list \<times> error option" where
  "deleteSyncSetResources syncSetStatus dynamicClient =
     deleteRecorded dynamicClient (ssosResources syncSetStatus)"

section \<open>Patch-type migration\<close>

text \<open>
  The keys of \<^verbatim>\<open>oldPatchTypes\<close> (lines 849 to 855) are the patch type constants of the
  Kubernetes library, which are media types.
\<close>

definition JSONPatchType :: string where
  "JSONPatchType = ''application/json-patch+json''"
definition MergePatchType :: string where
  "MergePatchType = ''application/merge-patch+json''"
definition StrategicMergePatchType :: string where
  "StrategicMergePatchType = ''application/strategic-merge-patch+json''"

definition oldPatchTypes :: "string \<Rightarrow> string option" where
  "oldPatchTypes =
     map_of [(JSONPatchType, ''json''), (MergePatchType, ''merge''),
             (StrategicMergePatchType, ''strategic'')]"

text \<open>The inner loop (lines 863 to 868): the patches after it, and the flag
  \<^verbatim>\<open>migrated\<close>.\<close>

fun migratePatches :: "SyncObjectPatch list \<Rightarrow> SyncObjectPatch list \<times> bool" where
  "migratePatches [] = ([], False)"
| "migratePatches (patch # rest) =
     (let (rest', migrated) = migratePatches rest
      in case oldPatchTypes (pPatchType patch) of
           Some newType \<Rightarrow> (patch\<lparr>pPatchType := newType\<rparr> # rest', True)
         | None \<Rightarrow> (patch # rest', migrated))"

text \<open>
  \<^verbatim>\<open>migrateSyncSetPatchTypes\<close> and \<^verbatim>\<open>migrateSelectorSyncSetPatchTypes\<close> (lines 857
  to 901) are the same text at the two bundle types, so one function over the common part
  of the two records models both; \<open>update\<close> is \<^verbatim>\<open>r.Update\<close> at that type.  The
  result is \<^verbatim>\<open>items\<close> after the in-place rewrites, the objects passed to
  \<^verbatim>\<open>r.Update\<close> in order, and the returned error.
\<close>

fun migratePatchTypes ::
  "('a SyncSetCommon_scheme \<Rightarrow> error option) \<Rightarrow> 'a SyncSetCommon_scheme list
     \<Rightarrow> 'a SyncSetCommon_scheme list \<times> 'a SyncSetCommon_scheme list \<times> error option" where
  "migratePatchTypes update [] = ([], [], None)"
| "migratePatchTypes update (syncSet # rest) =
     (if length (specPatches syncSet) = 0 then
        (let (items, updates, err) = migratePatchTypes update rest
         in (syncSet # items, updates, err))
      else
        (let (patches, migrated) = migratePatches (specPatches syncSet);
             item = syncSet\<lparr>specPatches := patches\<rparr>
         in if migrated then
              (case update item of
                 Some e \<Rightarrow> (item # rest, [item], Some e)
               | None \<Rightarrow>
                   (let (items, updates, err) = migratePatchTypes update rest
                    in (item # items, item # updates, err)))
            else
              (let (items, updates, err) = migratePatchTypes update rest
               in (item # items, updates, err))))"

section \<open>The sync reconciler\<close>

text \<open>
  \<^verbatim>\<open>ReconcileSyncSet\<close> (lines 174 to 182) with the platform client it embeds: each
  field gives the outcome of one kind of call.  \<^verbatim>\<open>rLabelSelectorAsSelector\<close> is the
  library conversion of a label selector into a predicate on labels, which can fail.
\<close>

record ReconcileSyncSet =
  rGet :: "string \<times> string \<Rightarrow> error + ClusterDeployment"
  rListSyncSets :: "string \<Rightarrow> error + SyncSet list"
  rListSelectorSyncSets :: "error + SelectorSyncSet list"
  rGetSecret :: "string \<times> string \<Rightarrow> error + (string \<times> bytes) list"
  rUpdateSyncSet :: "SyncSet \<Rightarrow> error option"
  rUpdateSelectorSyncSet :: "SelectorSyncSet \<Rightarrow> error option"
  rStatusUpdate :: "ClusterDeployment \<Rightarrow> error option"
  rLabelSelectorAsSelector :: "LabelSelector \<Rightarrow> error + ((string \<times> string) list \<Rightarrow> bool)"
  rApplierBuilder :: "bytes \<Rightarrow> Applier"
  rHash :: "bytes \<Rightarrow> string"
  rDynamicClientBuilder :: "string \<Rightarrow> error + DynamicClient"

definition adminKubeConfigKey :: string where
  "adminKubeConfigKey = ''kubeconfig''"

definition migrateSyncSetPatchTypes ::
  "ReconcileSyncSet \<Rightarrow> SyncSet list \<Rightarrow> SyncSet list \<times> Call list \<times> error option" where
  "migrateSyncSetPatchTypes r items =
     (case migratePatchTypes (rUpdateSyncSet r) items of
        (items', updates, err) \<Rightarrow> (items', map UpdateSyncSetCall updates, err))"

definition migrateSelectorSyncSetPatchTypes ::
  "ReconcileSyncSet \<Rightarrow> SelectorSyncSet list
     \<Rightarrow> SelectorSyncSet list \<times> Call list \<times> error option" where
  "migrateSelectorSyncSetPatchTypes r items =
     (case migratePatchTypes (rUpdateSelectorSyncSet r) items of
        (items', updates, err) \<Rightarrow> (items', map UpdateSelectorSyncSetCall updates, err))"

text \<open>\<^verbatim>\<open>getRelatedSyncSets\<close>, \<^verbatim>\<open>getRelatedSelectorSyncSets\<close> and
  \<^verbatim>\<open>loadSecretData\<close> (lines 788 to 843).\<close>

definition getRelatedSyncSets :: "ReconcileSyncSet \<Rightarrow> ClusterDeployment \<Rightarrow> error + SyncSet list" where
  "getRelatedSyncSets r cd =
     (case rListSyncSets r (cdNamespace cd) of
        Inl err \<Rightarrow> Inl err
      | Inr items \<Rightarrow> Inr (filter (\<lambda>syncSet. cdName cd \<in> set (ClusterDeploymentRefs syncSet)) items))"

definition getRelatedSelectorSyncSets ::
  "ReconcileSyncSet \<Rightarrow> ClusterDeployment \<Rightarrow> error + SelectorSyncSet list" where
  "getRelatedSelectorSyncSets r cd =
     (case rListSelectorSyncSets r of
        Inl err \<Rightarrow> Inl err
      | Inr items \<Rightarrow>
          Inr (filter
                 (\<lambda>selectorSyncSet.
                    case rLabelSelectorAsSelector r (ClusterDeploymentSelector selectorSyncSet) of
                      Inl err \<Rightarrow> False
                    | Inr labelSelector \<Rightarrow> labelSelector (cdLabels cd))
                 items))"

definition loadSecretData ::
  "ReconcileSyncSet \<Rightarrow> string \<Rightarrow> string \<Rightarrow> string \<Rightarrow> error + string" where
  "loadSecretData r secretName namespace dataKey =
     (case rGetSecret r (namespace, secretName) of
        Inl err \<Rightarrow> Inl err
      | Inr secretData \<Rightarrow>
          (case map_of secretData dataKey of
             None \<Rightarrow> Inl (OtherError (''secret '' @ secretName @ '' did not contain key ''
                                       @ dataKey))
           | Some retStr \<Rightarrow> Inr retStr))"

text \<open>The finalizer updates (lines 903 to 925): the object sent to \<^verbatim>\<open>r.Update\<close>.\<close>

definition withFinalizer :: "'a SyncSetCommon_scheme \<Rightarrow> 'a SyncSetCommon_scheme" where
  "withFinalizer ss = ss\<lparr>metaFinalizers := AddFinalizer (metaFinalizers ss) FinalizerSyncSetCleanup\<rparr>"

definition withoutFinalizer :: "'a SyncSetCommon_scheme \<Rightarrow> 'a SyncSetCommon_scheme" where
  "withoutFinalizer ss =
     ss\<lparr>metaFinalizers := DeleteFinalizer (metaFinalizers ss) FinalizerSyncSetCleanup\<rparr>"

text \<open>
  One turn of the loop over the SyncSets (lines 268 to 323), from the status of the
  working copy and \<^verbatim>\<open>firstSyncSetErr\<close>.  The result is the two of them afterwards,
  the calls of the turn, and the error with which \<^verbatim>\<open>Reconcile\<close> returns from inside
  the loop, if it does.  A status list to which an entry was appended, or in which one
  was replaced, is not nil; removing entries leaves a nil list nil and any other list
  non-nil.
\<close>

definition firstError :: "error option \<Rightarrow> error option \<Rightarrow> error option" where
  "firstError firstSyncSetErr err = (if firstSyncSetErr = None then err else firstSyncSetErr)"

definition reconcileSyncSet ::
  "ReconcileSyncSet \<Rightarrow> Time \<Rightarrow> bytes \<Rightarrow> DynamicClient \<Rightarrow> SyncSet \<Rightarrow> ClusterDeploymentStatus
     \<Rightarrow> error option \<Rightarrow> ClusterDeploymentStatus \<times> error option \<times> Call list \<times> error option" where
  "reconcileSyncSet r now kubeConfig dynamicClient syncSet status firstSyncSetErr =
     (if metaDeletionTimestamp syncSet \<noteq> None
         \<and> HasFinalizer (metaFinalizers syncSet) FinalizerSyncSetCleanup
      then
        (let deleteCalls =
               (if specResourceDeletionPolicy syncSet \<noteq> OrphanResourceDeletionPolicy
                then fst (deleteSyncSetResources
                            (findSyncSetStatus (metaName syncSet) (SyncSetStatus status))
                            dynamicClient)
                else []);
             status' = status\<lparr>SyncSetStatus :=
                 removeSyncSetObjectStatus (SyncSetStatus status) (metaName syncSet)\<rparr>
         in (status', firstSyncSetErr,
             deleteCalls @ [UpdateSyncSetCall (withoutFinalizer syncSet)],
             rUpdateSyncSet r (withoutFinalizer syncSet)))
      else if \<not> HasFinalizer (metaFinalizers syncSet) FinalizerSyncSetCleanup
      then (status, firstSyncSetErr, [UpdateSyncSetCall (withFinalizer syncSet)],
            rUpdateSyncSet r (withFinalizer syncSet))
      else
        (let syncSetStatus = findSyncSetStatus (metaName syncSet) (SyncSetStatus status);
             applier = rApplierBuilder r kubeConfig
         in case applySyncSetResources (rHash r) now (specResourceApplyMode syncSet)
                   (specResources syncSet) dynamicClient applier syncSetStatus of
              (applied, calls, Some err) \<Rightarrow>
                (status\<lparr>SyncSetStatus :=
                    appendOrUpdateSyncSetObjectStatus (SyncSetStatus status) applied,
                  SyncSetStatusNil := False\<rparr>,
                 firstError firstSyncSetErr (Some err), calls, None)
            | (applied, calls, None) \<Rightarrow>
                (case applySyncSetPatches (rHash r) now (specPatches syncSet)
                        (rApplierBuilder r kubeConfig) applied of
                   (patched, patchCalls, err) \<Rightarrow>
                     (status\<lparr>SyncSetStatus :=
                         appendOrUpdateSyncSetObjectStatus (SyncSetStatus status) patched,
                       SyncSetStatusNil := False\<rparr>,
                      (if err \<noteq> None then firstError firstSyncSetErr err
                       else firstSyncSetErr),
                      calls @ patchCalls, None))))"

text \<open>
  One turn of the loop over the SelectorSyncSets (lines 325 to 380).  Its cleanup branch
  reads and prunes \<^verbatim>\<open>cd.Status.SyncSetStatus\<close> (lines 332 and 339); its apply branch
  works on \<^verbatim>\<open>cd.Status.SelectorSyncSetStatus\<close>.
\<close>

definition reconcileSelectorSyncSet ::
  "ReconcileSyncSet \<Rightarrow> Time \<Rightarrow> bytes \<Rightarrow> DynamicClient \<Rightarrow> SelectorSyncSet
     \<Rightarrow> ClusterDeploymentStatus \<Rightarrow> error option
     \<Rightarrow> ClusterDeploymentStatus \<times> error option \<times> Call list \<times> error option" where
  "reconcileSelectorSyncSet r now kubeConfig dynamicClient selectorSyncSet status
     firstSyncSetErr =
     (if metaDeletionTimestamp selectorSyncSet \<noteq> None
         \<and> HasFinalizer (metaFinalizers selectorSyncSet) FinalizerSyncSetCleanup
      then
        (let deleteCalls =
               (if specResourceDeletionPolicy selectorSyncSet \<noteq> OrphanResourceDeletionPolicy
                then fst (deleteSyncSetResources
                            (findSyncSetStatus (metaName selectorSyncSet) (SyncSetStatus status))
                            dynamicClient)
                else []);
             status' = status\<lparr>SyncSetStatus :=
                 removeSyncSetObjectStatus (SyncSetStatus status) (metaName selectorSyncSet)\<rparr>
         in (status', firstSyncSetErr,
             deleteCalls @ [UpdateSelectorSyncSetCall (withoutFinalizer selectorSyncSet)],
             rUpdateSelectorSyncSet r (withoutFinalizer selectorSyncSet)))
      else if \<not> HasFinalizer (metaFinalizers selectorSyncSet) FinalizerSyncSetCleanup
      then (status, firstSyncSetErr,
            [UpdateSelectorSyncSetCall (withFinalizer selectorSyncSet)],
            rUpdateSelectorSyncSet r (withFinalizer selectorSyncSet))
      else
        (let syncSetStatus =
               findSyncSetStatus (metaName selectorSyncSet) (SelectorSyncSetStatus status);
             applier = rApplierBuilder r kubeConfig
         in case applySyncSetResources (rHash r) now (specResourceApplyMode selectorSyncSet)
                   (specResources selectorSyncSet) dynamicClient applier syncSetStatus of
              (applied, calls, Some err) \<Rightarrow>
                (status\<lparr>SelectorSyncSetStatus :=
                    appendOrUpdateSyncSetObjectStatus (SelectorSyncSetStatus status) applied,
                  SelectorSyncSetStatusNil := False\<rparr>,
                 firstError firstSyncSetErr (Some err), calls, None)
            | (applied, calls, None) \<Rightarrow>
                (case applySyncSetPatches (rHash r) now (specPatches selectorSyncSet)
                        (rApplierBuilder r kubeConfig) applied of
                   (patched, patchCalls, err) \<Rightarrow>
                     (status\<lparr>SelectorSyncSetStatus :=
                         appendOrUpdateSyncSetObjectStatus (SelectorSyncSetStatus status)
                           patched,
                       SelectorSyncSetStatusNil := False\<rparr>,
                      (if err \<noteq> None then firstError firstSyncSetErr err
                       else firstSyncSetErr),
                      calls @ patchCalls, None))))"

text \<open>The two loops: a turn that returns from \<^verbatim>\<open>Reconcile\<close> ends the loop.\<close>

fun syncSetsLoop ::
  "ReconcileSyncSet \<Rightarrow> Time \<Rightarrow> bytes \<Rightarrow> DynamicClient \<Rightarrow> SyncSet list
     \<Rightarrow> ClusterDeploymentStatus \<Rightarrow> error option
     \<Rightarrow> ClusterDeploymentStatus \<times> error option \<times> Call list \<times> error option" where
  "syncSetsLoop r now kubeConfig dynamicClient [] status firstSyncSetErr =
     (status, firstSyncSetErr, [], None)"
| "syncSetsLoop r now kubeConfig dynamicClient (syncSet # rest) status firstSyncSetErr =
     (case reconcileSyncSet r now kubeConfig dynamicClient syncSet status firstSyncSetErr of
        (status', firstErr', calls, Some err) \<Rightarrow> (status', firstErr', calls, Some err)
      | (status', firstErr', calls, None) \<Rightarrow>
          (case syncSetsLoop r now kubeConfig dynamicClient rest status' firstErr' of
             (final, finalErr, calls', returned) \<Rightarrow> (final, finalErr, calls @ calls', returned)))"

fun selectorSyncSetsLoop ::
  "ReconcileSyncSet \<Rightarrow> Time \<Rightarrow> bytes \<Rightarrow> DynamicClient \<Rightarrow> SelectorSyncSet list
     \<Rightarrow> ClusterDeploymentStatus \<Rightarrow> error option
     \<Rightarrow> ClusterDeploymentStatus \<times> error option \<times> Call list \<times> error option" where
  "selectorSyncSetsLoop r now kubeConfig dynamicClient [] status firstSyncSetErr =
     (status, firstSyncSetErr, [], None)"
| "selectorSyncSetsLoop r now kubeConfig dynamicClient (selectorSyncSet # rest) status
     firstSyncSetErr =
     (case reconcileSelectorSyncSet r now kubeConfig dynamicClient selectorSyncSet status
             firstSyncSetErr of
        (status', firstErr', calls, Some err) \<Rightarrow> (status', firstErr', calls, Some err)
      | (status', firstErr', calls, None) \<Rightarrow>
          (case selectorSyncSetsLoop r now kubeConfig dynamicClient rest status' firstErr' of
             (final, finalErr, calls', returned) \<Rightarrow> (final, finalErr, calls @ calls', returned)))"

text \<open>
  \<^verbatim>\<open>updateClusterDeploymentStatus\<close> (lines 695 to 706).  \<^verbatim>\<open>reflect.DeepEqual\<close>
  on the two statuses is equality of the records: strings, booleans and times compare by
  value, slices element by element, and the nil slice differs from the empty one, which
  the records carry for \<^verbatim>\<open>Resources\<close> and for the two status lists of the cluster
  deployment.
\<close>

definition updateClusterDeploymentStatus ::
  "ReconcileSyncSet \<Rightarrow> ClusterDeployment \<Rightarrow> ClusterDeployment \<Rightarrow> Call list \<times> error option" where
  "updateClusterDeploymentStatus r cd origCD =
     (if cdStatus cd \<noteq> cdStatus origCD then ([StatusUpdateCall cd], rStatusUpdate r cd)
      else ([], None))"

text \<open>
  \<^verbatim>\<open>Reconcile\<close> from the deep copy on (lines 218 to 390), for a cluster deployment
  that passed the gates.  The result is the status of the working copy when the pass
  ends, the calls, and the returned error.
\<close>

definition reconcileSyncSets ::
  "ReconcileSyncSet \<Rightarrow> Time \<Rightarrow> ClusterDeployment
     \<Rightarrow> ClusterDeploymentStatus \<times> Call list \<times> error option" where
  "reconcileSyncSets r now origCD =
     (case getRelatedSyncSets r origCD of
        Inl err \<Rightarrow> (cdStatus origCD, [], Some err)
      | Inr related \<Rightarrow>
     (case getRelatedSelectorSyncSets r origCD of
        Inl err \<Rightarrow> (cdStatus origCD, [], Some err)
      | Inr relatedSelector \<Rightarrow>
     (case migrateSyncSetPatchTypes r related of (syncSets, calls1, migrateErr1) \<Rightarrow>
     (case migrateSelectorSyncSetPatchTypes r relatedSelector of
        (selectorSyncSets, calls2, migrateErr2) \<Rightarrow>
     (case loadSecretData r (AdminKubeconfigSecret (cdStatus origCD)) (cdNamespace origCD)
             adminKubeConfigKey of
        Inl err \<Rightarrow> (cdStatus origCD, calls1 @ calls2, Some err)
      | Inr secretData \<Rightarrow>
     (case rDynamicClientBuilder r secretData of
        Inl err \<Rightarrow> (cdStatus origCD, calls1 @ calls2, Some err)
      | Inr dynamicClient \<Rightarrow>
     (case syncSetsLoop r now secretData dynamicClient syncSets (cdStatus origCD) None of
        (status1, firstErr1, calls3, Some err) \<Rightarrow> (status1, calls1 @ calls2 @ calls3, Some err)
      | (status1, firstErr1, calls3, None) \<Rightarrow>
     (case selectorSyncSetsLoop r now secretData dynamicClient selectorSyncSets status1
             firstErr1 of
        (status2, firstErr2, calls4, Some err) \<Rightarrow>
          (status2, calls1 @ calls2 @ calls3 @ calls4, Some err)
      | (status2, firstErr2, calls4, None) \<Rightarrow>
     (case updateClusterDeploymentStatus r (origCD\<lparr>cdStatus := status2\<rparr>) origCD of
        (calls5, Some err) \<Rightarrow> (status2, calls1 @ calls2 @ calls3 @ calls4 @ calls5, Some err)
      | (calls5, None) \<Rightarrow>
          (status2, calls1 @ calls2 @ calls3 @ calls4 @ calls5, firstErr2))))))))))"

text \<open>\<^verbatim>\<open>Reconcile\<close> (lines 187 to 390): the calls and the returned error.\<close>

definition Reconcile ::
  "ReconcileSyncSet \<Rightarrow> Time \<Rightarrow> string \<times> string \<Rightarrow> Call list \<times> error option" where
  "Reconcile r now request =
     (case rGet r request of
        Inl err \<Rightarrow> if IsNotFound err then ([], None) else ([], Some err)
      | Inr cd \<Rightarrow>
          if cdDeletionTimestamp cd \<noteq> None then ([], None)
          else if \<not> Installed (cdStatus cd) then ([], None)
          else snd (reconcileSyncSets r now cd))"

section \<open>Patch-type migration in the words of the specification\<close>

text \<open>
  The legacy spellings are the three library constants; each is rewritten to its short
  name.  A bundle is written when it holds a legacy spelling; the writes go in order and
  stop with the first that fails.
\<close>

definition legacyPatchType :: "string \<Rightarrow> bool" where
  "legacyPatchType t =
     (t = JSONPatchType \<or> t = MergePatchType \<or> t = StrategicMergePatchType)"

definition migratedPatchType :: "string \<Rightarrow> string" where
  "migratedPatchType t =
     (if t = JSONPatchType then ''json''
      else if t = MergePatchType then ''merge''
      else if t = StrategicMergePatchType then ''strategic''
      else t)"

definition hasLegacyPatch :: "'a SyncSetCommon_scheme \<Rightarrow> bool" where
  "hasLegacyPatch b = list_ex (\<lambda>p. legacyPatchType (pPatchType p)) (specPatches b)"

definition migratedBundle :: "'a SyncSetCommon_scheme \<Rightarrow> 'a SyncSetCommon_scheme" where
  "migratedBundle b =
     b\<lparr>specPatches := map (\<lambda>p. p\<lparr>pPatchType := migratedPatchType (pPatchType p)\<rparr>)
                          (specPatches b)\<rparr>"

fun updatesUntilFailure :: "('b \<Rightarrow> error option) \<Rightarrow> 'b list \<Rightarrow> 'b list" where
  "updatesUntilFailure update [] = []"
| "updatesUntilFailure update (x # xs) =
     (case update x of Some e \<Rightarrow> [x] | None \<Rightarrow> x # updatesUntilFailure update xs)"

fun firstUpdateError :: "('b \<Rightarrow> error option) \<Rightarrow> 'b list \<Rightarrow> error option" where
  "firstUpdateError update [] = None"
| "firstUpdateError update (x # xs) =
     (case update x of Some e \<Rightarrow> Some e | None \<Rightarrow> firstUpdateError update xs)"

fun itemsAfterMigration ::
  "('a SyncSetCommon_scheme \<Rightarrow> error option) \<Rightarrow> 'a SyncSetCommon_scheme list
     \<Rightarrow> 'a SyncSetCommon_scheme list" where
  "itemsAfterMigration update [] = []"
| "itemsAfterMigration update (b # bs) =
     (if hasLegacyPatch b \<and> update (migratedBundle b) \<noteq> None then migratedBundle b # bs
      else migratedBundle b # itemsAfterMigration update bs)"


section \<open>Cleanup in the words of the specification\<close>

text \<open>
  A bundle is due for cleanup with deletes when it has a deletion timestamp, carries the
  cleanup finalizer and its deletion policy is not orphan.
\<close>

definition cleanupDue :: "'a SyncSetCommon_scheme \<Rightarrow> bool" where
  "cleanupDue b =
     (metaDeletionTimestamp b \<noteq> None
      \<and> HasFinalizer (metaFinalizers b) FinalizerSyncSetCleanup
      \<and> specResourceDeletionPolicy b \<noteq> OrphanResourceDeletionPolicy)"
section \<open>The cluster lifecycle reconciler\<close>

text \<open>
  The second source file, the controller of package \<^verbatim>\<open>clusterdeployment\<close>.  A batch
  job is kept with what \<^verbatim>\<open>generateInstallerJob\<close> sets and what the controller reads:
  its name and namespace, the controller reference (the name of the owning cluster
  deployment), the single container, the volumes, the three limits and the conditions of
  its status.  The condition types and the pull policy are the constants of the
  Kubernetes library.
\<close>

definition installerImage :: string where
  "installerImage = ''registry.svc.ci.openshift.org/openshift/origin-v4.0:installer''"

definition uninstallerImage :: string where
  "uninstallerImage = ''registry.svc.ci.openshift.org/openshift/origin-v4.0:installer''"

definition JobComplete :: string where "JobComplete = ''Complete''"
definition JobFailed :: string where "JobFailed = ''Failed''"
definition PullIfNotPresent :: string where "PullIfNotPresent = ''IfNotPresent''"

record JobCondition =
  jcType :: string
  jcStatus :: string

record EnvVar =
  envName :: string
  envSecretName :: string
  envSecretKey :: string

record Job =
  jobName :: string
  jobNamespace :: string
  jobOwner :: "string option"
  jobImage :: string
  jobImagePullPolicy :: string
  jobEnv :: "EnvVar list"
  jobVolumeMounts :: "(string \<times> string) list"
  jobCommand :: "string list"
  jobVolumes :: "(string \<times> string) list"
  jobDNSPolicy :: string
  jobRestartPolicy :: string
  jobServiceAccountName :: string
  jobCompletions :: int
  jobActiveDeadlineSeconds :: int
  jobBackoffLimit :: int
  jobConditions :: "JobCondition list"

record ConfigMap =
  cmName :: string
  cmNamespace :: string
  cmOwner :: "string option"
  cmData :: "(string \<times> string) list"

text \<open>The zero value of \<^verbatim>\<open>kbatch.Job\<close>, which \<^verbatim>\<open>existingJob\<close> still holds after a
  \<^verbatim>\<open>Get\<close> that found nothing.\<close>

definition emptyJob :: Job where
  "emptyJob =
     \<lparr>jobName = [], jobNamespace = [], jobOwner = None, jobImage = [], jobImagePullPolicy = [],
      jobEnv = [], jobVolumeMounts = [], jobCommand = [], jobVolumes = [], jobDNSPolicy = [],
      jobRestartPolicy = [], jobServiceAccountName = [], jobCompletions = 0,
      jobActiveDeadlineSeconds = 0, jobBackoffLimit = 0, jobConditions = []\<rparr>"

text \<open>
  \<^verbatim>\<open>generateInstallerJob\<close> (lines 258 to 384); \<open>marshal\<close> is \<^verbatim>\<open>yaml.Marshal\<close> on the
  install config, which can fail.  The config map is absent for an uninstall job.
\<close>

definition generateInstallerJob ::
  "(string \<Rightarrow> error + string) \<Rightarrow> string \<Rightarrow> ClusterDeployment \<Rightarrow> string \<Rightarrow> string \<Rightarrow> bool
     \<Rightarrow> string option \<Rightarrow> error + Job \<times> ConfigMap option" where
  "generateInstallerJob marshal name cd containerImage imagePullPolicy uninstall serviceAccount =
     (case marshal (cdConfig cd) of
        Inl err \<Rightarrow> Inl err
      | Inr installConfig \<Rightarrow>
          (let env =
                 (case cdAWSCredentials cd of
                    None \<Rightarrow> []
                  | Some credentials \<Rightarrow>
                      if length credentials > 0 then
                        [\<lparr>envName = ''AWS_ACCESS_KEY_ID'', envSecretName = credentials,
                          envSecretKey = ''awsAccessKeyId''\<rparr>,
                         \<lparr>envName = ''AWS_SECRET_ACCESS_KEY'', envSecretName = credentials,
                          envSecretKey = ''awsSecretAccessKey''\<rparr>]
                      else []);
               cfgMap =
                 (if \<not> uninstall then
                    Some \<lparr>cmName = name, cmNamespace = cdNamespace cd, cmOwner = None,
                          cmData = [(''installconfig.yaml'', installConfig)]\<rparr>
                  else None);
               volumeMounts =
                 (if \<not> uninstall then [(''installconfig'', ''/home/user/installerinput'')]
                  else []);
               volumes = (if \<not> uninstall then [(''installconfig'', name)] else []);
               command =
                 (if uninstall then [''echo'', ''this would have been an uninstall'']
                  else [''cat'', ''/home/user/installerinput/installconfig.yaml''])
           in Inr (\<lparr>jobName = name, jobNamespace = cdNamespace cd, jobOwner = None,
                     jobImage = containerImage, jobImagePullPolicy = imagePullPolicy, jobEnv = env,
                     jobVolumeMounts = volumeMounts, jobCommand = command, jobVolumes = volumes,
                     jobDNSPolicy = ''ClusterFirst'', jobRestartPolicy = ''OnFailure'',
                     jobServiceAccountName =
                       (case serviceAccount of None \<Rightarrow> [] | Some account \<Rightarrow> account),
                     jobCompletions = 1, jobActiveDeadlineSeconds = 24 * 3600,
                     jobBackoffLimit = 123456, jobConditions = []\<rparr>,
                   cfgMap)))"

text \<open>\<^verbatim>\<open>getJobConditionStatus\<close>, \<^verbatim>\<open>isSuccessful\<close> and \<^verbatim>\<open>isFailed\<close> (lines 386 to
  403).\<close>

fun conditionStatusIn :: "JobCondition list \<Rightarrow> string \<Rightarrow> string" where
  "conditionStatusIn [] conditionType = ConditionFalse"
| "conditionStatusIn (condition # rest) conditionType =
     (if jcType condition = conditionType then jcStatus condition
      else conditionStatusIn rest conditionType)"

definition getJobConditionStatus :: "Job \<Rightarrow> string \<Rightarrow> string" where
  "getJobConditionStatus job conditionType = conditionStatusIn (jobConditions job) conditionType"

definition isSuccessful :: "Job \<Rightarrow> bool" where
  "isSuccessful job = (getJobConditionStatus job JobComplete = ConditionTrue)"

definition isFailed :: "Job \<Rightarrow> bool" where
  "isFailed job = (getJobConditionStatus job JobFailed = ConditionTrue)"

text \<open>
  \<^verbatim>\<open>ReconcileClusterDeployment\<close> with the platform client it embeds, the YAML
  encoder, and \<^verbatim>\<open>controllerutil.SetControllerReference\<close> at the two object types,
  which can refuse.
\<close>

record ReconcileClusterDeployment =
  lGet :: "string \<times> string \<Rightarrow> error + ClusterDeployment"
  lGetConfigMap :: "string \<times> string \<Rightarrow> error + ConfigMap"
  lGetJob :: "string \<times> string \<Rightarrow> error + Job"
  lCreateConfigMap :: "ConfigMap \<Rightarrow> error option"
  lCreateJob :: "Job \<Rightarrow> error option"
  lUpdate :: "ClusterDeployment \<Rightarrow> error option"
  lMarshal :: "string \<Rightarrow> error + string"
  lSetJobOwner :: "ClusterDeployment \<Rightarrow> Job \<Rightarrow> error option"
  lSetConfigMapOwner :: "ClusterDeployment \<Rightarrow> ConfigMap \<Rightarrow> error option"

datatype LifecycleCall =
  CreateConfigMapCall ConfigMap
| CreateJobCall Job
| UpdateClusterDeploymentCall ClusterDeployment

text \<open>\<^verbatim>\<open>addClusterDeploymentFinalizer\<close> and \<^verbatim>\<open>removeClusterDeploymentFinalizer\<close>
  (lines 246 to 256): the calls and the returned error.\<close>

definition addClusterDeploymentFinalizer ::
  "ReconcileClusterDeployment \<Rightarrow> ClusterDeployment \<Rightarrow> LifecycleCall list \<times> error option" where
  "addClusterDeploymentFinalizer l cd =
     (let cd' = cd\<lparr>cdFinalizers := AddFinalizer (cdFinalizers cd) FinalizerDeprovision\<rparr>
      in ([UpdateClusterDeploymentCall cd'], lUpdate l cd'))"

definition removeClusterDeploymentFinalizer ::
  "ReconcileClusterDeployment \<Rightarrow> ClusterDeployment \<Rightarrow> LifecycleCall list \<times> error option" where
  "removeClusterDeploymentFinalizer l cd =
     (let cd' = cd\<lparr>cdFinalizers := DeleteFinalizer (cdFinalizers cd) FinalizerDeprovision\<rparr>
      in ([UpdateClusterDeploymentCall cd'], lUpdate l cd'))"

text \<open>\<^verbatim>\<open>syncDeletedClusterDeployment\<close> (lines 206 to 244).\<close>

definition syncDeletedClusterDeployment ::
  "ReconcileClusterDeployment \<Rightarrow> ClusterDeployment \<Rightarrow> LifecycleCall list \<times> error option" where
  "syncDeletedClusterDeployment l cd =
     (case generateInstallerJob (lMarshal l) (cdName cd @ ''-uninstall'') cd installerImage
             PullIfNotPresent True None of
        Inl err \<Rightarrow> ([], Some err)
      | Inr (generated, cfgMap) \<Rightarrow>
     (case lSetJobOwner l cd generated of
        Some err \<Rightarrow> ([], Some err)
      | None \<Rightarrow>
     (let uninstallJob = generated\<lparr>jobOwner := Some (cdName cd)\<rparr> in
      case (case lGetJob l (jobNamespace uninstallJob, jobName uninstallJob) of
              Inl err \<Rightarrow>
                if IsNotFound err then
                  (case lCreateJob l uninstallJob of
                     Some createErr \<Rightarrow> Inl ([CreateJobCall uninstallJob], createErr)
                   | None \<Rightarrow> Inr ([CreateJobCall uninstallJob], emptyJob))
                else Inl ([], err)
            | Inr found \<Rightarrow> Inr ([], found)) of
        Inl (calls, err) \<Rightarrow> (calls, Some err)
      | Inr (calls, existingJob) \<Rightarrow>
          if isSuccessful existingJob then
            (case removeClusterDeploymentFinalizer l cd of
               (updates, err) \<Rightarrow> (calls @ updates, err))
          else (calls, None))))"

text \<open>
  The install branch of \<^verbatim>\<open>Reconcile\<close> (lines 153 to 203): the config map and the
  install job are created when the platform does not find them, the job that exists sets
  \<^verbatim>\<open>Status.Installed\<close>, and the cluster deployment is updated when its status changed.
\<close>

definition installCluster ::
  "ReconcileClusterDeployment \<Rightarrow> ClusterDeployment \<Rightarrow> Job \<Rightarrow> ConfigMap
     \<Rightarrow> LifecycleCall list \<times> error option" where
  "installCluster l cd job cfgMap =
     (case (case lGetConfigMap l (cmNamespace cfgMap, cmName cfgMap) of
              Inl err \<Rightarrow>
                if IsNotFound err then
                  (case lCreateConfigMap l cfgMap of
                     Some createErr \<Rightarrow> Inl ([CreateConfigMapCall cfgMap], createErr)
                   | None \<Rightarrow> Inr [CreateConfigMapCall cfgMap])
                else Inl ([], err)
            | Inr existingCfgMap \<Rightarrow> Inr []) of
        Inl (calls, err) \<Rightarrow> (calls, Some err)
      | Inr calls1 \<Rightarrow>
     (case (case lGetJob l (jobNamespace job, jobName job) of
              Inl err \<Rightarrow>
                if IsNotFound err then
                  (case lCreateJob l job of
                     Some createErr \<Rightarrow> Inl ([CreateJobCall job], createErr)
                   | None \<Rightarrow> Inr ([CreateJobCall job], cdStatus cd))
                else Inl ([], err)
            | Inr existingJob \<Rightarrow>
                Inr ([], (cdStatus cd)\<lparr>Installed := isSuccessful existingJob\<rparr>)) of
        Inl (calls, err) \<Rightarrow> (calls1 @ calls, Some err)
      | Inr (calls2, status) \<Rightarrow>
          if status \<noteq> cdStatus cd then
            (calls1 @ calls2 @ [UpdateClusterDeploymentCall (cd\<lparr>cdStatus := status\<rparr>)],
             lUpdate l (cd\<lparr>cdStatus := status\<rparr>))
          else (calls1 @ calls2, None)))"

text \<open>
  \<^verbatim>\<open>Reconcile\<close> of the lifecycle controller (lines 105 to 204): the calls and the
  returned error.  The install job always comes with its config map, so the case of an
  absent one is never taken.
\<close>

definition ReconcileClusterDeployment ::
  "ReconcileClusterDeployment \<Rightarrow> string \<times> string \<Rightarrow> LifecycleCall list \<times> error option" where
  "ReconcileClusterDeployment l request =
     (case lGet l request of
        Inl err \<Rightarrow> if IsNotFound err then ([], None) else ([], Some err)
      | Inr cd \<Rightarrow>
     (case generateInstallerJob (lMarshal l) (cdName cd @ ''-install'') cd installerImage
             PullIfNotPresent False None of
        Inl err \<Rightarrow> ([], Some err)
      | Inr (job, None) \<Rightarrow> ([], None)
      | Inr (job, Some cfgMap) \<Rightarrow>
     (case lSetJobOwner l cd job of
        Some err \<Rightarrow> ([], Some err)
      | None \<Rightarrow>
     (case lSetConfigMapOwner l cd cfgMap of
        Some err \<Rightarrow> ([], Some err)
      | None \<Rightarrow>
          if cdDeletionTimestamp cd \<noteq> None then
            (if \<not> HasFinalizer (cdFinalizers cd) FinalizerDeprovision then ([], None)
             else syncDeletedClusterDeployment l cd)
          else if \<not> HasFinalizer (cdFinalizers cd) FinalizerDeprovision
            then addClusterDeploymentFinalizer l cd
          else installCluster l cd (job\<lparr>jobOwner := Some (cdName cd)\<rparr>)
                 (cfgMap\<lparr>cmOwner := Some (cdName cd)\<rparr>)))))"

section \<open>The deprovision claim in the words of the specification\<close>

text \<open>
  A call removes the deprovision finalizer when it updates the cluster deployment to a
  version without it.  The uninstall job is complete when the platform returns the job
  \<open><cd>-uninstall\<close> of the namespace and the condition of type Complete in its
  condition list (the first, should there be several) has status True; a job without
  such a condition is not complete.
  A pass is in the deprovision branch with its templates ready when the cluster
  deployment is read, carries a deletion timestamp and the finalizer, and the install and
  uninstall job templates are generated and given their controller reference.
\<close>

definition removesDeprovision :: "LifecycleCall \<Rightarrow> bool" where
  "removesDeprovision call =
     (case call of
        UpdateClusterDeploymentCall cd \<Rightarrow> \<not> HasFinalizer (cdFinalizers cd) FinalizerDeprovision
      | CreateConfigMapCall cfgMap \<Rightarrow> False
      | CreateJobCall job \<Rightarrow> False)"

definition uninstallJobComplete :: "ReconcileClusterDeployment \<Rightarrow> ClusterDeployment \<Rightarrow> bool" where
  "uninstallJobComplete l cd =
     (case lGetJob l (cdNamespace cd, cdName cd @ ''-uninstall'') of
        Inl err \<Rightarrow> False
      | Inr job \<Rightarrow>
          (case find (\<lambda>condition. jcType condition = ''Complete'') (jobConditions job) of
             None \<Rightarrow> False
           | Some condition \<Rightarrow> jcStatus condition = ''True''))"

definition templatesReady :: "ReconcileClusterDeployment \<Rightarrow> ClusterDeployment \<Rightarrow> bool" where
  "templatesReady l cd =
     (case generateInstallerJob (lMarshal l) (cdName cd @ ''-install'') cd installerImage
             PullIfNotPresent False None of
        Inl err \<Rightarrow> False
      | Inr (job, None) \<Rightarrow> False
      | Inr (job, Some cfgMap) \<Rightarrow>
          lSetJobOwner l cd job = None \<and> lSetConfigMapOwner l cd cfgMap = None
          \<and> (case generateInstallerJob (lMarshal l) (cdName cd @ ''-uninstall'') cd
                     installerImage PullIfNotPresent True None of
                Inl err \<Rightarrow> False
              | Inr (uninstallJob, none) \<Rightarrow> lSetJobOwner l cd uninstallJob = None))"

definition deprovisioning :: "ReconcileClusterDeployment \<Rightarrow> string \<times> string \<Rightarrow> bool" where
  "deprovisioning l request =
     (case lGet l request of
        Inl err \<Rightarrow> False
      | Inr cd \<Rightarrow>
          cdDeletionTimestamp cd \<noteq> None
          \<and> HasFinalizer (cdFinalizers cd) FinalizerDeprovision
          \<and> templatesReady l cd \<and> uninstallJobComplete l cd)"

section \<open>A concrete platform for the examples\<close>

text \<open>
  An installed cluster deployment \<open>acme/c1\<close> with label env=prod (a status list
  without entries is nil in it), a platform on which
  every call succeeds (its selector conversion checks the required labels), and the same
  platform with every SyncSet update refused.
\<close>

definition clusterDeployment :: "ClusterDeploymentStatus \<Rightarrow> ClusterDeployment" where
  "clusterDeployment status =
     \<lparr>cdName = ''c1'', cdNamespace = ''acme'', cdLabels = [(''env'', ''prod'')],
      cdDeletionTimestamp = None, cdFinalizers = [FinalizerDeprovision], cdConfig = ''cfg'',
      cdAWSCredentials = Some ''aws-creds'', cdStatus = status\<rparr>"

definition installedStatus ::
  "SyncSetObjectStatus list \<Rightarrow> SyncSetObjectStatus list \<Rightarrow> ClusterDeploymentStatus" where
  "installedStatus syncSetStatus selectorSyncSetStatus =
     \<lparr>Installed = True, AdminKubeconfigSecret = ''c1-admin'', SyncSetStatus = syncSetStatus,
      SyncSetStatusNil = (syncSetStatus = []),
      SelectorSyncSetStatus = selectorSyncSetStatus,
      SelectorSyncSetStatusNil = (selectorSyncSetStatus = [])\<rparr>"

definition platform ::
  "ClusterDeployment \<Rightarrow> SyncSet list \<Rightarrow> SelectorSyncSet list \<Rightarrow> ReconcileSyncSet" where
  "platform cd syncSets selectorSyncSets =
     \<lparr>rGet = (\<lambda>request. Inr cd),
      rListSyncSets = (\<lambda>namespace. Inr syncSets),
      rListSelectorSyncSets = Inr selectorSyncSets,
      rGetSecret = (\<lambda>key. Inr [(''kubeconfig'', ''kubeconfig-bytes'')]),
      rUpdateSyncSet = (\<lambda>syncSet. None),
      rUpdateSelectorSyncSet = (\<lambda>selectorSyncSet. None),
      rStatusUpdate = (\<lambda>cd. None),
      rLabelSelectorAsSelector =
        (\<lambda>selector. Inr (\<lambda>labels. list_all (\<lambda>l. List.member labels l) (fst selector))),
      rApplierBuilder = (\<lambda>kubeConfig. workingApplier),
      rHash = testHash,
      rDynamicClientBuilder = (\<lambda>kubeConfig. Inr workingClient)\<rparr>"

definition conflictingPlatform ::
  "ClusterDeployment \<Rightarrow> SyncSet list \<Rightarrow> SelectorSyncSet list \<Rightarrow> ReconcileSyncSet" where
  "conflictingPlatform cd syncSets selectorSyncSets =
     (platform cd syncSets selectorSyncSets)
       \<lparr>rUpdateSyncSet := (\<lambda>syncSet. Some (OtherError ''conflict''))\<rparr>"

definition patchOf :: "string \<Rightarrow> string \<Rightarrow> string \<Rightarrow> SyncObjectPatch" where
  "patchOf name body patchType =
     \<lparr>pAPIVersion = ''v1'', pKind = ''ConfigMap'', pName = name, pNamespace = ''default'',
      pPatch = body, pPatchType = patchType, pApplyMode = ''always''\<rparr>"

definition syncSetOf ::
  "string \<Rightarrow> Time option \<Rightarrow> string list \<Rightarrow> bytes list \<Rightarrow> SyncObjectPatch list \<Rightarrow> SyncSet" where
  "syncSetOf name deletionTimestamp finalizers resources patches =
     \<lparr>metaName = name, metaNamespace = ''acme'', metaDeletionTimestamp = deletionTimestamp,
      metaFinalizers = finalizers, specResources = resources, specPatches = patches,
      specResourceApplyMode = SyncResourceApplyMode, specResourceDeletionPolicy = ''delete'',
      ClusterDeploymentRefs = [''c1'']\<rparr>"

definition selectorSyncSetOf ::
  "string \<Rightarrow> Time option \<Rightarrow> string list \<Rightarrow> bytes list \<Rightarrow> SyncObjectPatch list
     \<Rightarrow> SelectorSyncSet" where
  "selectorSyncSetOf name deletionTimestamp finalizers resources patches =
     \<lparr>metaName = name, metaNamespace = [], metaDeletionTimestamp = deletionTimestamp,
      metaFinalizers = finalizers, specResources = resources, specPatches = patches,
      specResourceApplyMode = SyncResourceApplyMode, specResourceDeletionPolicy = ''delete'',
      ClusterDeploymentSelector = ([(''env'', ''prod'')], [])\<rparr>"

definition bundleStatus :: "string \<Rightarrow> SyncStatus list \<Rightarrow> SyncSetObjectStatus" where
  "bundleStatus name resources =
     \<lparr>ssosName = name, ssosResources = resources, ssosResourcesNil = False, ssosPatches = [],
      ssosConditions = []\<rparr>"


text \<open>
  For the lifecycle reconciler: the cluster deployment \<open>acme/c1\<close> under deletion with
  the deprovision finalizer, an uninstall job whose Complete condition is True, and a
  platform that returns both and on which every call succeeds; then the same platform
  with a failing YAML encoder, with a controller reference that is refused, and with a
  cluster deployment that is not under deletion.
\<close>

definition deletedClusterDeployment :: ClusterDeployment where
  "deletedClusterDeployment =
     (clusterDeployment (installedStatus [] []))\<lparr>cdDeletionTimestamp := Some 5\<rparr>"

definition completedJob :: Job where
  "completedJob =
     emptyJob\<lparr>jobName := ''c1-uninstall'', jobNamespace := ''acme'',
       jobConditions := [\<lparr>jcType = ''Complete'', jcStatus = ''True''\<rparr>]\<rparr>"

definition lifecyclePlatform :: ReconcileClusterDeployment where
  "lifecyclePlatform =
     \<lparr>lGet = (\<lambda>request. Inr deletedClusterDeployment),
      lGetConfigMap = (\<lambda>key. Inl (NotFoundError ''configmap'')),
      lGetJob = (\<lambda>key. Inr completedJob),
      lCreateConfigMap = (\<lambda>cfgMap. None),
      lCreateJob = (\<lambda>job. None),
      lUpdate = (\<lambda>cd. None),
      lMarshal = (\<lambda>config. Inr config),
      lSetJobOwner = (\<lambda>cd job. None),
      lSetConfigMapOwner = (\<lambda>cd cfgMap. None)\<rparr>"

definition failingEncoder :: ReconcileClusterDeployment where
  "failingEncoder = lifecyclePlatform\<lparr>lMarshal := (\<lambda>config. Inl (OtherError ''yaml''))\<rparr>"

definition refusedOwner :: ReconcileClusterDeployment where
  "refusedOwner =
     lifecyclePlatform\<lparr>lSetJobOwner := (\<lambda>cd job. Some (OtherError ''scheme''))\<rparr>"

definition notUnderDeletion :: ReconcileClusterDeployment where
  "notUnderDeletion =
     lifecyclePlatform\<lparr>lGet := (\<lambda>request. Inr (clusterDeployment (installedStatus [] [])))\<rparr>"

text \<open>The status that a successful patch of the ConfigMap \<open>default/name\<close> with the given
  body leaves when it is applied at the instant \<open>t\<close> with nothing recorded before.\<close>

definition recordedPatch :: "string \<Rightarrow> bytes \<Rightarrow> Time \<Rightarrow> SyncStatus" where
  "recordedPatch name body t =
     \<lparr>APIVersion = ''v1'', Kind = ''ConfigMap'', Resource = [], Name = name,
      Namespace = ''default'', Hash = testHash body,
      Conditions = setApplySyncConditions t [] None\<rparr>"
section \<open>Notions for the idempotence of a reconcile\<close>

text \<open>
  The key of a resource is the four-tuple its info gives, the key of a patch is (name,
  namespace, kind); a recorded status carries the same keys.  A bundle is active when it
  has no deletion timestamp and carries the cleanup finalizer, and well keyed when the
  keys of its resources are pairwise distinct and so are the keys of its patches.  A
  recorded entry is recent at an instant when none of its ApplySuccess probes lies more
  than the reapply interval before it.  \<open>applyBundle\<close> is the apply branch of one turn
  of either bundle loop (resources, then patches unless the resources failed), and
  \<open>applyBundles\<close> is that branch over a list of bundles on one of the two status lists
  of the cluster deployment.  The info probes of a list of bundles are one probe per
  resource, in order.
\<close>

definition resourceKey :: "ResourceInfo \<Rightarrow> string \<times> string \<times> string \<times> string" where
  "resourceKey info = (infoAPIVersion info, infoKind info, infoNamespace info, infoName info)"

definition statusKey :: "SyncStatus \<Rightarrow> string \<times> string \<times> string \<times> string" where
  "statusKey e = (APIVersion e, Kind e, Namespace e, Name e)"

text \<open>
  A status is the record of a resource when it carries its key, plural and hash and no
  ApplyFailure with status True; it is quiet at an instant when, further, no reapply is
  due then.  Likewise a patch is recorded in a list when the first status with its key
  carries the hash of its body and no ApplyFailure with status True.
\<close>

definition quietResource :: "(bytes \<Rightarrow> string) \<Rightarrow> Time \<Rightarrow> bytes \<times> ResourceInfo \<Rightarrow> SyncStatus \<Rightarrow> bool" where
  "quietResource hash now x e =
     (e = (newResourceSyncStatus hash (fst x) (snd x))\<lparr>Conditions := Conditions e\<rparr>
      \<and> \<not> failedLastTime (Conditions e) \<and> \<not> reapplyDue now (Conditions e))"

definition recordedResource :: "(bytes \<Rightarrow> string) \<Rightarrow> bytes \<times> ResourceInfo \<Rightarrow> SyncStatus \<Rightarrow> bool" where
  "recordedResource hash x e =
     (e = (newResourceSyncStatus hash (fst x) (snd x))\<lparr>Conditions := Conditions e\<rparr>
      \<and> \<not> failedLastTime (Conditions e))"

definition resourceKeys :: "Applier \<Rightarrow> bytes list \<Rightarrow> (string \<times> string \<times> string \<times> string) list" where
  "resourceKeys h rs =
     (case gatherInfos h 0 rs of Inl bad \<Rightarrow> [] | Inr infos \<Rightarrow> map resourceKey infos)"

definition patchKey :: "SyncObjectPatch \<Rightarrow> string \<times> string \<times> string" where
  "patchKey p = (pName p, pNamespace p, pKind p)"

definition patchStatusKey :: "SyncStatus \<Rightarrow> string \<times> string \<times> string" where
  "patchStatusKey e = (Name e, Namespace e, Kind e)"

definition patchRecorded :: "(bytes \<Rightarrow> string) \<Rightarrow> SyncStatus list \<Rightarrow> SyncObjectPatch \<Rightarrow> bool" where
  "patchRecorded hash L p =
     (case find (matchesPatch p) L of
        None \<Rightarrow> False
      | Some e \<Rightarrow> Hash e = hash (pPatch p) \<and> \<not> failedLastTime (Conditions e))"

definition applyBundle ::
  "(bytes \<Rightarrow> string) \<Rightarrow> Time \<Rightarrow> DynamicClient \<Rightarrow> Applier \<Rightarrow> 'a SyncSetCommon_scheme
     \<Rightarrow> SyncSetObjectStatus \<Rightarrow> SyncSetObjectStatus \<times> Call list \<times> error option" where
  "applyBundle hash now dc h b s =
     (case applySyncSetResources hash now (specResourceApplyMode b) (specResources b) dc h s of
        (applied, calls, Some err) \<Rightarrow> (applied, calls, Some err)
      | (applied, calls, None) \<Rightarrow>
          (case applySyncSetPatches hash now (specPatches b) h applied of
             (patched, patchCalls, err) \<Rightarrow> (patched, calls @ patchCalls, err)))"

fun applyBundles ::
  "(bytes \<Rightarrow> string) \<Rightarrow> Time \<Rightarrow> DynamicClient \<Rightarrow> Applier \<Rightarrow> 'a SyncSetCommon_scheme list
     \<Rightarrow> SyncSetObjectStatus list \<Rightarrow> error option
     \<Rightarrow> SyncSetObjectStatus list \<times> error option \<times> Call list" where
  "applyBundles hash now dc h [] L firstErr = (L, firstErr, [])"
| "applyBundles hash now dc h (b # rest) L firstErr =
     (case applyBundle hash now dc h b (findSyncSetStatus (metaName b) L) of
        (s, calls, err) \<Rightarrow>
          (case applyBundles hash now dc h rest (appendOrUpdateSyncSetObjectStatus L s)
                  (if err \<noteq> None then firstError firstErr err else firstErr) of
             (L', firstErr', calls') \<Rightarrow> (L', firstErr', calls @ calls')))"

definition infoProbes :: "'a SyncSetCommon_scheme list \<Rightarrow> Call list" where
  "infoProbes bs = concat (map (\<lambda>b. map InfoCall (specResources b)) bs)"

definition active :: "'a SyncSetCommon_scheme \<Rightarrow> bool" where
  "active b =
     (metaDeletionTimestamp b = None \<and> HasFinalizer (metaFinalizers b) FinalizerSyncSetCleanup)"

definition wellKeyed :: "Applier \<Rightarrow> 'a SyncSetCommon_scheme \<Rightarrow> bool" where
  "wellKeyed h b =
     (distinct (resourceKeys h (specResources b)) \<and> distinct (map patchKey (specPatches b)))"

definition recentEntry :: "Time \<Rightarrow> SyncSetObjectStatus \<Rightarrow> bool" where
  "recentEntry now s =
     list_all (\<lambda>e. \<not> reapplyDue now (Conditions e)) (ssosResources s @ ssosPatches s)"

text \<open>
  A bundle is settled in a status list when the list has an entry of its name and the
  apply branch, run on that entry, makes no call but the info probe of each resource,
  returns no error and returns the entry as it is.
\<close>

definition settled ::
  "(bytes \<Rightarrow> string) \<Rightarrow> Time \<Rightarrow> DynamicClient \<Rightarrow> Applier \<Rightarrow> SyncSetObjectStatus list
     \<Rightarrow> 'a SyncSetCommon_scheme \<Rightarrow> bool" where
  "settled hash now dc h L b =
     (metaName b \<in> ssosName ` set L
      \<and> applyBundle hash now dc h b (findSyncSetStatus (metaName b) L)
          = (findSyncSetStatus (metaName b) L, map InfoCall (specResources b), None))"

text \<open>
  The bundles a pass works on and the applier it builds, read off the platform; a
  cluster deployment is steady when all of them are active and well keyed and their
  names are pairwise distinct within each of the two kinds.  A status is recent when
  every entry of its two lists is.  The calls that change the managed cluster or the
  status are apply, patch, delete and the status update; the info probe and the updates
  of bundles are not among them.
\<close>

definition relatedSyncSets :: "ReconcileSyncSet \<Rightarrow> ClusterDeployment \<Rightarrow> SyncSet list" where
  "relatedSyncSets r cd = (case getRelatedSyncSets r cd of Inl err \<Rightarrow> [] | Inr items \<Rightarrow> items)"

definition relatedSelectorSyncSets ::
  "ReconcileSyncSet \<Rightarrow> ClusterDeployment \<Rightarrow> SelectorSyncSet list" where
  "relatedSelectorSyncSets r cd =
     (case getRelatedSelectorSyncSets r cd of Inl err \<Rightarrow> [] | Inr items \<Rightarrow> items)"

definition passApplier :: "ReconcileSyncSet \<Rightarrow> ClusterDeployment \<Rightarrow> Applier" where
  "passApplier r cd =
     rApplierBuilder r
       (case loadSecretData r (AdminKubeconfigSecret (cdStatus cd)) (cdNamespace cd)
               adminKubeConfigKey of
          Inl err \<Rightarrow> []
        | Inr secretData \<Rightarrow> secretData)"

definition steadyBundles :: "Applier \<Rightarrow> 'a SyncSetCommon_scheme list \<Rightarrow> bool" where
  "steadyBundles h bs =
     (list_all (\<lambda>b. active b \<and> wellKeyed h b) bs \<and> distinct (map metaName bs))"

definition steady :: "ReconcileSyncSet \<Rightarrow> ClusterDeployment \<Rightarrow> bool" where
  "steady r cd =
     (steadyBundles (passApplier r cd) (relatedSyncSets r cd)
      \<and> steadyBundles (passApplier r cd) (relatedSelectorSyncSets r cd))"

definition recentStatus :: "Time \<Rightarrow> ClusterDeploymentStatus \<Rightarrow> bool" where
  "recentStatus now status =
     list_all (recentEntry now) (SyncSetStatus status @ SelectorSyncSetStatus status)"

fun isInfoCall :: "Call \<Rightarrow> bool" where
  "isInfoCall (InfoCall raw) = True"
| "isInfoCall (ApplyCall i raw) = False"
| "isInfoCall (PatchCall name kind apiVersion patch patchType) = False"
| "isInfoCall (DeleteCall gvr namespace name) = False"
| "isInfoCall (StatusUpdateCall cd) = False"
| "isInfoCall (UpdateSyncSetCall syncSet) = False"
| "isInfoCall (UpdateSelectorSyncSetCall selectorSyncSet) = False"

fun changesClusterOrStatus :: "Call \<Rightarrow> bool" where
  "changesClusterOrStatus (ApplyCall i raw) = True"
| "changesClusterOrStatus (PatchCall name kind apiVersion patch patchType) = True"
| "changesClusterOrStatus (DeleteCall gvr namespace name) = True"
| "changesClusterOrStatus (StatusUpdateCall cd) = True"
| "changesClusterOrStatus (InfoCall raw) = False"
| "changesClusterOrStatus (UpdateSyncSetCall syncSet) = False"
| "changesClusterOrStatus (UpdateSelectorSyncSetCall selectorSyncSet) = False"

section \<open>Two consecutive reconciles\<close>

text \<open>
  The second of two consecutive reconciles reads the cluster deployment with the status
  that the first one computed (and wrote, when it differed); nothing else changes.
  \<open>statusAfter\<close> is that cluster deployment and \<open>rereading\<close> the platform that
  returns it.  The example bundles carry the cleanup finalizer: one has two patches for
  the same ConfigMap, one has one resource and one patch, and one has neither resources
  nor patches.  \<open>readAsNil\<close> is a cluster deployment as a platform returns it whose
  encoding leaves out empty lists: an empty \<^verbatim>\<open>Resources\<close> comes back nil.
\<close>

fun callKind :: "Call \<Rightarrow> string" where
  "callKind (InfoCall raw) = ''info''"
| "callKind (ApplyCall i raw) = ''apply''"
| "callKind (PatchCall name kind apiVersion patch patchType) = ''patch''"
| "callKind (DeleteCall gvr namespace name) = ''delete''"
| "callKind (StatusUpdateCall cd) = ''status-update''"
| "callKind (UpdateSyncSetCall syncSet) = ''update-syncset''"
| "callKind (UpdateSelectorSyncSetCall selectorSyncSet) = ''update-selectorsyncset''"

definition statusAfter :: "ReconcileSyncSet \<Rightarrow> Time \<Rightarrow> ClusterDeployment \<Rightarrow> ClusterDeployment" where
  "statusAfter r now cd = cd\<lparr>cdStatus := fst (reconcileSyncSets r now cd)\<rparr>"

definition rereading ::
  "ReconcileSyncSet \<Rightarrow> string \<times> string \<Rightarrow> ClusterDeployment \<Rightarrow> ReconcileSyncSet" where
  "rereading r request cd = r\<lparr>rGet := (rGet r)(request := Inr cd)\<rparr>"

definition twoPatches :: SyncSet where
  "twoPatches =
     syncSetOf ''b1'' None [FinalizerSyncSetCleanup] []
       [patchOf ''x'' ''a: 1'' ''merge'', patchOf ''x'' ''b: 2'' ''merge'']"

definition oneOfEach :: SyncSet where
  "oneOfEach =
     syncSetOf ''b1'' None [FinalizerSyncSetCleanup] [''cm-a'']
       [patchOf ''x'' ''a: 1'' ''merge'']"

definition cd0 :: ClusterDeployment where
  "cd0 = clusterDeployment (installedStatus [] [])"


definition noResources :: SyncSet where
  "noResources = syncSetOf ''b1'' None [FinalizerSyncSetCleanup] [] []"

definition nilIfEmpty :: "SyncSetObjectStatus \<Rightarrow> SyncSetObjectStatus" where
  "nilIfEmpty s = s\<lparr>ssosResourcesNil := (ssosResources s = [])\<rparr>"

definition readAsNil :: "ClusterDeployment \<Rightarrow> ClusterDeployment" where
  "readAsNil cd =
     cd\<lparr>cdStatus := (cdStatus cd)
          \<lparr>SyncSetStatus := map nilIfEmpty (SyncSetStatus (cdStatus cd)),
           SelectorSyncSetStatus := map nilIfEmpty (SelectorSyncSetStatus (cdStatus cd))\<rparr>\<rparr>"
section \<open>Facts about the condition utilities\<close>

lemma condition_constants_distinct:
  "ConditionTrue \<noteq> ConditionFalse" "ConditionFalse \<noteq> ConditionTrue"
  "ApplySuccessSyncCondition \<noteq> ApplyFailureSyncCondition"
  "ApplyFailureSyncCondition \<noteq> ApplySuccessSyncCondition"
  "ApplySuccessSyncCondition \<noteq> DeletionFailedSyncCondition"
  "DeletionFailedSyncCondition \<noteq> ApplySuccessSyncCondition"
  "ApplyFailureSyncCondition \<noteq> DeletionFailedSyncCondition"
  "DeletionFailedSyncCondition \<noteq> ApplyFailureSyncCondition"
  by (simp_all add: ConditionTrue_def ConditionFalse_def ApplySuccessSyncCondition_def
      ApplyFailureSyncCondition_def DeletionFailedSyncCondition_def)

lemma Type_updateCondition [simp]:
  "Type (updateCondition now c status reason message chk) = Type c"
  by (simp add: updateCondition_def)

lemma Status_updateCondition [simp]:
  "Status (updateCondition now c status reason message chk) = status"
  by (auto simp: updateCondition_def shouldUpdateCondition_def)

lemma Message_updateCondition_always [simp]:
  "Message (updateCondition now c status reason message UpdateConditionAlways) = message"
  by (simp add: updateCondition_def shouldUpdateCondition_def)

lemma Message_updateCondition_change [simp]:
  "Message (updateCondition now c status reason message UpdateConditionIfReasonOrMessageChange)
     = message"
  by (auto simp: updateCondition_def shouldUpdateCondition_def)

lemma Find_Set_other:
  "t' \<noteq> t \<Longrightarrow>
   FindSyncCondition (SetSyncCondition now cs t status reason message chk) t'
     = FindSyncCondition cs t'"
  by (induction cs) auto

lemma Find_Set_same:
  "\<exists>c. FindSyncCondition (SetSyncCondition now cs t status reason message chk) t = Some c
       \<and> Type c = t \<and> Status c = status"
  by (induction cs) auto

lemma conditionStatus_Set_same:
  "conditionStatus (SetSyncCondition now cs t status reason message chk) t = Some status"
  using Find_Set_same [of now cs t status reason message chk]
  by (auto simp: conditionStatus_def)

lemma conditionStatus_Set_other:
  "t' \<noteq> t \<Longrightarrow>
   conditionStatus (SetSyncCondition now cs t status reason message chk) t'
     = conditionStatus cs t'"
  by (simp add: conditionStatus_def Find_Set_other)



section \<open>Claims\<close>


section \<open>The resource loop\<close>

lemma failedLastTime_conditionStatus:
  "failedLastTime cs = (conditionStatus cs ApplyFailureSyncCondition = Some ConditionTrue)"
  by (auto simp: failedLastTime_def conditionStatus_def split: option.splits)

lemma resourceLookup_spec:
  "(case resourceLookup now prior (newResourceSyncStatus hash raw info) of
      (cs, found, different, shouldReApply) \<Rightarrow> \<not> found \<or> different \<or> shouldReApply)
   = specReapplyResource hash now prior raw info"
  by (induction prior)
     (auto simp: specReapplyResource_def matchesResource_def newResourceSyncStatus_def
        failedLastTime_conditionStatus reapplyDue_def split: option.splits)

lemma loop_call_index:
  "ApplyCall n raw \<in> set (fst (snd (applyResourcesLoop hash h now ex k xs)))
     \<Longrightarrow> k \<le> n"
proof (induction xs arbitrary: k)
  case Nil then show ?case by simp
next
  case (Cons x xs)
  obtain r i where x: "x = (r, i)" by (cases x)
  obtain l c e where rec: "applyResourcesLoop hash h now ex (Suc k) xs = (l, c, e)"
    by (cases "applyResourcesLoop hash h now ex (Suc k) xs")
  from Cons.IH [of "Suc k"] rec have ih: "ApplyCall n raw \<in> set c \<Longrightarrow> Suc k \<le> n" by simp
  from Cons.prems show ?case unfolding x
    by (auto simp: Let_def rec split: prod.splits if_splits option.splits dest: ih)
qed

lemma loop_calls:
  "i < length xs \<Longrightarrow>
   (ApplyCall (k + i) (fst (xs ! i)) \<in> set (fst (snd (applyResourcesLoop hash h now ex k xs))))
   \<longleftrightarrow>
   (specReapplyResource hash now ex (fst (xs ! i)) (snd (xs ! i))
    \<and> (\<forall>j<i. ApplyCall (k + j) (fst (xs ! j))
                \<in> set (fst (snd (applyResourcesLoop hash h now ex k xs)))
              \<longrightarrow> Apply h (fst (xs ! j)) = None))"
proof (induction xs arbitrary: k i)
  case Nil then show ?case by simp
next
  case (Cons x xs)
  obtain r inf where x: "x = (r, inf)" by (cases x)
  obtain l c e where rec: "applyResourcesLoop hash h now ex (Suc k) xs = (l, c, e)"
    by (cases "applyResourcesLoop hash h now ex (Suc k) xs")
  have idx: "ApplyCall n raw \<in> set c \<Longrightarrow> Suc k \<le> n" for n raw
    using loop_call_index [of n raw hash h now ex "Suc k" xs] rec by simp
  obtain cs f d s where lk: "resourceLookup now ex (newResourceSyncStatus hash r inf) = (cs, f, d, s)"
    by (cases "resourceLookup now ex (newResourceSyncStatus hash r inf)")
  have dec: "specReapplyResource hash now ex r inf = (\<not> f \<or> d \<or> s)"
    using resourceLookup_spec [of now ex hash r inf] lk by simp
  show ?case
  proof (cases i)
    case 0
    show ?thesis unfolding x 0
      by (auto simp: Let_def rec lk dec split: option.splits dest: idx)
  next
    case (Suc i')
    with Cons.prems have i': "i' < length xs" by simp
    note ih = Cons.IH [OF i', of "Suc k", unfolded rec, simplified]
    show ?thesis
    proof (cases "\<not> f \<or> d \<or> s")
      case False
      then show ?thesis unfolding x Suc
        using ih by (auto simp: Let_def rec lk dec All_less_Suc2 dest: idx)
    next
      case True
      show ?thesis
      proof (cases "Apply h r")
        case None
        with True show ?thesis unfolding x Suc
          using ih by (auto simp: Let_def rec lk dec All_less_Suc2 dest: idx)
      next
        case (Some a)
        with True show ?thesis unfolding x Suc
          by (auto simp: Let_def rec lk dec All_less_Suc2)
      qed
    qed
  qed
qed


lemma infoCalls_all: "gatherInfos h i rs = Inr infos \<Longrightarrow> infoCalls h rs = map InfoCall rs"
  by (induction rs arbitrary: i infos) (auto split: sum.splits)

lemma gatherInfos_length:
  "gatherInfos h k rs = Inr infos \<Longrightarrow> length infos = length rs"
  by (induction rs arbitrary: k infos) (auto split: sum.splits)

lemma deleteLoop_no_apply:
  "ApplyCall n raw \<notin> set (fst (snd (deleteLoop now dc ds ex)))"
proof (induction ds arbitrary: ex)
  case Nil then show ?case by simp
next
  case (Cons d ds)
  obtain st ix where d: "d = (st, ix)" by (cases d)
  show ?case
  proof (cases "ParseGroupVersion (APIVersion st)")
    case (Inl e)
    then show ?thesis unfolding d by simp
  next
    case (Inr gv)
    obtain g v where gv: "gv = (g, v)" by (cases gv)
    define marked where "marked =
       (case Delete dc (g, v, Resource st) (Namespace st) (Name st) of
          None \<Rightarrow> ex
        | Some e \<Rightarrow>
            if \<not> IsNotFound e then
              ex[ix := (ex ! ix)\<lparr>Conditions := setDeletionFailedSyncCondition now
                           (Conditions (ex ! ix)) (Some e)\<rparr>]
            else ex)"
    obtain f c e where rec: "deleteLoop now dc ds marked = (f, c, e)"
      by (cases "deleteLoop now dc ds marked")
    from Cons.IH [of marked] rec have "ApplyCall n raw \<notin> set c" by simp
    then show ?thesis unfolding d
      using Inr gv rec by (simp add: Let_def marked_def [symmetric])
  qed
qed

lemma reconcileDeleted_no_apply:
  "ApplyCall n raw \<notin> set (fst (snd (snd
      (reconcileDeletedSyncSetResources now mode dc ex new err))))"
  using deleteLoop_no_apply [of n raw now dc "deletionCandidates 0 ex new" ex]
  by (auto simp: reconcileDeletedSyncSetResources_def Let_def split: prod.splits option.splits)

lemma applyCalls_loop:
  assumes "gatherInfos h 0 ssResources = Inr infos"
  shows "ApplyCall n raw \<in> set (applyCalls hash now mode ssResources dc h st)
     \<longleftrightarrow> ApplyCall n raw \<in> set (fst (snd (applyResourcesLoop hash h now (ssosResources st) 0
                                  (zip ssResources infos))))"
proof -
  obtain l c e where lp: "applyResourcesLoop hash h now (ssosResources st) 0
       (zip ssResources infos) = (l, c, e)"
    by (cases "applyResourcesLoop hash h now (ssosResources st) 0 (zip ssResources infos)")
  obtain a b dcalls de where rd:
    "reconcileDeletedSyncSetResources now mode dc (ssosResources st) l e = (a, b, dcalls, de)"
    by (cases "reconcileDeletedSyncSetResources now mode dc (ssosResources st) l e")
  have "ApplyCall n raw \<notin> set dcalls"
    using reconcileDeleted_no_apply [of n raw now mode dc "ssosResources st" l e] rd by simp
  then show ?thesis
    using assms by (auto simp: applyCalls_def applySyncSetResources_def Let_def lp rd
        infoCalls_all [OF assms] split: option.splits)
qed

text \<open>
  C1 (amended).  For a bundle whose info probes all succeed, \<^verbatim>\<open>Apply\<close> is invoked for
  the resource at index \<open>i\<close> if and only if the reapply decision of the specification
  holds for it (no recorded status with its four-tuple, or a different hash, or
  ApplyFailure True, or ApplySuccess probed more than two hours before \<open>now\<close>) and no
  \<^verbatim>\<open>Apply\<close> invoked for an earlier resource of the bundle failed.  In particular a
  resource whose decision is negative is never applied.
\<close>

theorem C1_apply_iff_reapply_when_reached:
  assumes "gatherInfos h 0 ssResources = Inr infos" and "i < length ssResources"
  shows "ApplyCall i (ssResources ! i)
           \<in> set (applyCalls hash now applyMode ssResources dynamicClient h syncSetStatus)
         \<longleftrightarrow>
         (specReapplyResource hash now (ssosResources syncSetStatus) (ssResources ! i) (infos ! i)
          \<and> (\<forall>j<i. ApplyCall j (ssResources ! j)
                      \<in> set (applyCalls hash now applyMode ssResources dynamicClient h
                               syncSetStatus)
                    \<longrightarrow> Apply h (ssResources ! j) = None))"
proof -
  have len: "length infos = length ssResources"
    using assms(1) by (rule gatherInfos_length)
  with assms(2) have i: "i < length (zip ssResources infos)" by simp
  have nth: "j < length ssResources \<Longrightarrow> fst (zip ssResources infos ! j) = ssResources ! j
               \<and> snd (zip ssResources infos ! j) = infos ! j" for j
    using len by simp
  show ?thesis
    using loop_calls [OF i, of 0 hash h now "ssosResources syncSetStatus"] assms(2)
    by (simp add: applyCalls_loop [OF assms(1)] nth)
qed

text \<open>The theorem at a bundle of two new resources, both applied.\<close>

theorem C1_apply_iff_reapply_witness:
  "gatherInfos workingApplier 0 [''a'', ''b''] =
     Inr [\<lparr>infoName = ''a'', infoNamespace = ''default'', infoAPIVersion = ''v1'',
           infoKind = ''ConfigMap'', infoResource = ''configmaps''\<rparr>,
          \<lparr>infoName = ''b'', infoNamespace = ''default'', infoAPIVersion = ''v1'',
           infoKind = ''ConfigMap'', infoResource = ''configmaps''\<rparr>]
   \<and> (1::nat) < length [''a'', ''b'']
   \<and> ApplyCall 1 ''b''
          \<in> set (applyCalls testHash 0 UpsertResourceApplyMode [''a'', ''b''] workingClient
                   workingApplier (emptyStatus ''bundle''))"
proof -
  let ?infos = "[\<lparr>infoName = ''a'', infoNamespace = ''default'', infoAPIVersion = ''v1'',
           infoKind = ''ConfigMap'', infoResource = ''configmaps''\<rparr>,
          \<lparr>infoName = ''b'', infoNamespace = ''default'', infoAPIVersion = ''v1'',
           infoKind = ''ConfigMap'', infoResource = ''configmaps''\<rparr>]"
  have g: "gatherInfos workingApplier 0 [''a'', ''b''] = Inr ?infos"
    by (simp add: workingApplier_def configMapInfo_def)
  have l: "(1::nat) < length [''a'', ''b'']" by simp
  have s: "specReapplyResource testHash 0 (ssosResources (emptyStatus ''bundle''))
             ([''a'', ''b''] ! 1) (?infos ! 1)"
    by (simp add: specReapplyResource_def emptyStatus_def)
  have a: "Apply workingApplier x = None" for x by (simp add: workingApplier_def)
  from C1_apply_iff_reapply_when_reached [OF g l, where hash = testHash and now = 0
      and applyMode = UpsertResourceApplyMode and dynamicClient = workingClient
      and syncSetStatus = "emptyStatus ''bundle''"] s a g
  show ?thesis by simp
qed

text \<open>
  C1 as stated fails behind a failed apply: of two new resources, neither recorded, the
  second is not applied when applying the first fails, although no recorded status
  matches it.
\<close>

theorem C1_later_resource_not_applied:
  "\<not> (ApplyCall 1 ''b''
          \<in> set (applyCalls testHash 0 UpsertResourceApplyMode [''a'', ''b''] workingClient
                   failingApplier (emptyStatus ''bundle''))
        \<longleftrightarrow> specReapplyResource testHash 0 (ssosResources (emptyStatus ''bundle'')) ''b''
              \<lparr>infoName = ''b'', infoNamespace = ''default'', infoAPIVersion = ''v1'',
               infoKind = ''ConfigMap'', infoResource = ''configmaps''\<rparr>)"
  by (simp add: applyCalls_def applySyncSetResources_def failingApplier_def configMapInfo_def
      emptyStatus_def specReapplyResource_def newResourceSyncStatus_def
      reconcileDeletedSyncSetResources_def Let_def)

section \<open>The deletion pass\<close>

lemma foundInNew_list_ex: "foundInNew e new = list_ex (sameResource e) new"
  by (induction new) (auto simp: sameResource_def)

lemma deletionCandidates_stale:
  "map fst (deletionCandidates k ex new) = staleCandidates ex new"
  by (induction ex arbitrary: k) (auto simp: staleCandidates_def foundInNew_list_ex)

lemma deleteLoop_calls:
  "fst (snd (deleteLoop now dc ds ex)) = deletesUntilUnparsable (map fst ds)
   \<and> snd (snd (deleteLoop now dc ds ex)) = firstParseError (map fst ds)"
proof (induction ds arbitrary: ex)
  case Nil then show ?case by simp
next
  case (Cons d ds)
  obtain st ix where d: "d = (st, ix)" by (cases d)
  show ?case
  proof (cases "ParseGroupVersion (APIVersion st)")
    case (Inl e)
    then show ?thesis unfolding d by simp
  next
    case (Inr gv)
    obtain g v where gv: "gv = (g, v)" by (cases gv)
    define marked where "marked =
       (case Delete dc (g, v, Resource st) (Namespace st) (Name st) of
          None \<Rightarrow> ex
        | Some e \<Rightarrow>
            if \<not> IsNotFound e then
              ex[ix := (ex ! ix)\<lparr>Conditions := setDeletionFailedSyncCondition now
                           (Conditions (ex ! ix)) (Some e)\<rparr>]
            else ex)"
    obtain f c e where rec: "deleteLoop now dc ds marked = (f, c, e)"
      by (cases "deleteLoop now dc ds marked")
    from Cons.IH [of marked] rec
    have "c = deletesUntilUnparsable (map fst ds)" "e = firstParseError (map fst ds)"
      by simp_all
    then show ?thesis unfolding d
      using Inr gv rec by (simp add: Let_def marked_def [symmetric])
  qed
qed

lemma deleteLoop_accepted:
  "list_all (deleteAccepted dc) (fst (snd (deleteLoop now dc ds ex)))
   \<Longrightarrow> fst (deleteLoop now dc ds ex) = ex"
proof (induction ds arbitrary: ex)
  case Nil then show ?case by simp
next
  case (Cons d ds)
  obtain st ix where d: "d = (st, ix)" by (cases d)
  show ?case
  proof (cases "ParseGroupVersion (APIVersion st)")
    case (Inl e)
    then show ?thesis unfolding d by simp
  next
    case (Inr gv)
    obtain g v where gv: "gv = (g, v)" by (cases gv)
    define marked where "marked =
       (case Delete dc (g, v, Resource st) (Namespace st) (Name st) of
          None \<Rightarrow> ex
        | Some e \<Rightarrow>
            if \<not> IsNotFound e then
              ex[ix := (ex ! ix)\<lparr>Conditions := setDeletionFailedSyncCondition now
                           (Conditions (ex ! ix)) (Some e)\<rparr>]
            else ex)"
    obtain f c e where rec: "deleteLoop now dc ds marked = (f, c, e)"
      by (cases "deleteLoop now dc ds marked")
    have unfold: "deleteLoop now dc (d # ds) ex
        = (f, DeleteCall (g, v, Resource st) (Namespace st) (Name st) # c, e)"
      unfolding d using Inr gv rec by (simp add: Let_def marked_def [symmetric])
    from Cons.prems unfold
    have ok: "deleteAccepted dc (DeleteCall (g, v, Resource st) (Namespace st) (Name st))"
      and rest: "list_all (deleteAccepted dc) c" by simp_all
    from ok have m: "marked = ex"
      by (auto simp: marked_def deleteAccepted_def split: option.splits)
    from Cons.IH [of marked] rec rest have "f = marked" by simp
    with m unfold show ?thesis by simp
  qed
qed

text \<open>
  C2 (amended).  With apply mode empty or upsert the returned list is the new list, no
  delete is issued and no error is returned.  In any other mode (sync) the candidates are
  the recorded statuses without a four-tuple match in the new list; after an apply error
  no delete is issued and the new list is returned with all candidates appended;
  otherwise the candidates are deleted in order through the dynamic client, up to the
  first candidate whose recorded apiVersion does not parse, and then the pass returns
  that parse error and no list.  NotFound counts as success: when every candidate parses
  and every delete returns no error or NotFound, the new list is returned without error,
  and deletes that return no error or NotFound write no condition into the recorded
  statuses.  What is returned when all candidates parse and a delete fails otherwise is
  not stated here.
\<close>

theorem C2_deletion_pass:
  "deleteCalls now applyMode dynamicClient existingStatusList newStatusList err =
     (if applyMode = [] \<or> applyMode = UpsertResourceApplyMode \<or> err \<noteq> None then []
      else deletesUntilUnparsable (staleCandidates existingStatusList newStatusList))
   \<and> (applyMode = [] \<or> applyMode = UpsertResourceApplyMode \<longrightarrow>
        returnedList now applyMode dynamicClient existingStatusList newStatusList err
          = newStatusList
        \<and> returnedError now applyMode dynamicClient existingStatusList newStatusList err
          = None)
   \<and> (applyMode \<noteq> [] \<and> applyMode \<noteq> UpsertResourceApplyMode \<and> err \<noteq> None \<longrightarrow>
        returnedList now applyMode dynamicClient existingStatusList newStatusList err
          = newStatusList @ staleCandidates existingStatusList newStatusList
        \<and> returnedError now applyMode dynamicClient existingStatusList newStatusList err
          = None)
   \<and> (applyMode \<noteq> [] \<and> applyMode \<noteq> UpsertResourceApplyMode \<and> err = None
        \<and> firstParseError (staleCandidates existingStatusList newStatusList) \<noteq> None
        \<longrightarrow>
        returnedList now applyMode dynamicClient existingStatusList newStatusList err = []
        \<and> returnedError now applyMode dynamicClient existingStatusList newStatusList err
          = firstParseError (staleCandidates existingStatusList newStatusList))
   \<and> (applyMode \<noteq> [] \<and> applyMode \<noteq> UpsertResourceApplyMode \<and> err = None
        \<and> firstParseError (staleCandidates existingStatusList newStatusList) = None
        \<and> list_all (deleteAccepted dynamicClient)
              (deleteCalls now applyMode dynamicClient existingStatusList newStatusList err)
        \<longrightarrow>
        returnedList now applyMode dynamicClient existingStatusList newStatusList err
          = newStatusList
        \<and> returnedError now applyMode dynamicClient existingStatusList newStatusList err
          = None)
   \<and> (list_all (deleteAccepted dynamicClient)
          (deleteCalls now applyMode dynamicClient existingStatusList newStatusList err)
        \<longrightarrow>
        existingAfter now applyMode dynamicClient existingStatusList newStatusList err
          = existingStatusList)"
proof -
  obtain f c e where dl:
    "deleteLoop now dynamicClient (deletionCandidates 0 existingStatusList newStatusList)
       existingStatusList = (f, c, e)"
    by (cases "deleteLoop now dynamicClient
                 (deletionCandidates 0 existingStatusList newStatusList) existingStatusList")
  from deleteLoop_calls [of now dynamicClient
      "deletionCandidates 0 existingStatusList newStatusList" existingStatusList] dl
  have "c = deletesUntilUnparsable (staleCandidates existingStatusList newStatusList)"
       "e = firstParseError (staleCandidates existingStatusList newStatusList)"
    by (simp_all add: deletionCandidates_stale)
  moreover
  from deleteLoop_accepted [of dynamicClient now
      "deletionCandidates 0 existingStatusList newStatusList" existingStatusList] dl
  have "list_all (deleteAccepted dynamicClient) c \<Longrightarrow> f = existingStatusList" by simp
  ultimately show ?thesis
    by (auto simp: returnedList_def deleteCalls_def returnedError_def existingAfter_def
        reconcileDeletedSyncSetResources_def Let_def dl deletionCandidates_stale
        split: option.splits)
qed

text \<open>The theorem in upsert mode, in sync mode after an apply error, in sync mode with
  a recorded apiVersion that does not parse, and in sync mode with a dynamic client that
  answers NotFound to every delete; one ConfigMap is recorded and the new list is
  empty.\<close>

theorem C2_deletion_pass_witness:
  "returnedList 0 UpsertResourceApplyMode goneClient [recordedConfigMap ''v1'' ''b''] [] None
     = []
   \<and> deleteCalls 0 UpsertResourceApplyMode goneClient [recordedConfigMap ''v1'' ''b''] [] None
     = []
   \<and> returnedList 0 SyncResourceApplyMode goneClient [recordedConfigMap ''v1'' ''b''] []
        (Some (OtherError ''connection refused''))
     = [recordedConfigMap ''v1'' ''b'']
   \<and> deleteCalls 0 SyncResourceApplyMode goneClient [recordedConfigMap ''v1'' ''b''] []
        (Some (OtherError ''connection refused''))
     = []
   \<and> returnedList 0 SyncResourceApplyMode goneClient [recordedConfigMap ''a/b/c'' ''b''] []
        None
     = []
   \<and> returnedError 0 SyncResourceApplyMode goneClient [recordedConfigMap ''a/b/c'' ''b''] []
        None
     = Some (OtherError ''unexpected GroupVersion string: a/b/c'')
   \<and> list_all (deleteAccepted goneClient)
        (deleteCalls 0 SyncResourceApplyMode goneClient [recordedConfigMap ''v1'' ''b''] [] None)
   \<and> deleteCalls 0 SyncResourceApplyMode goneClient [recordedConfigMap ''v1'' ''b''] [] None
     = [DeleteCall ([], ''v1'', ''configmaps'') ''default'' ''b'']
   \<and> returnedList 0 SyncResourceApplyMode goneClient [recordedConfigMap ''v1'' ''b''] [] None
     = []
   \<and> returnedError 0 SyncResourceApplyMode goneClient [recordedConfigMap ''v1'' ''b''] [] None
     = None
   \<and> existingAfter 0 SyncResourceApplyMode goneClient [recordedConfigMap ''v1'' ''b''] [] None
     = [recordedConfigMap ''v1'' ''b'']"
proof -
  let ?ex = "[recordedConfigMap ''v1'' ''b'']"
  let ?bad = "[recordedConfigMap ''a/b/c'' ''b'']"
  have modes: "SyncResourceApplyMode \<noteq> []" "SyncResourceApplyMode \<noteq> UpsertResourceApplyMode"
    by (simp_all add: SyncResourceApplyMode_def UpsertResourceApplyMode_def)
  have stale: "staleCandidates ?ex [] = ?ex" "staleCandidates ?bad [] = ?bad"
    by (simp_all add: staleCandidates_def)
  have parse: "firstParseError ?ex = None"
    "deletesUntilUnparsable ?ex = [DeleteCall ([], ''v1'', ''configmaps'') ''default'' ''b'']"
    "firstParseError ?bad = Some (OtherError ''unexpected GroupVersion string: a/b/c'')"
    by (simp_all add: recordedConfigMap_def ParseGroupVersion_def)
  have ok: "deleteAccepted goneClient (DeleteCall ([], ''v1'', ''configmaps'') ''default'' ''b'')"
    by (simp add: deleteAccepted_def goneClient_def)
  note upsert = C2_deletion_pass [where now = 0 and applyMode = UpsertResourceApplyMode
      and dynamicClient = goneClient and existingStatusList = ?ex and newStatusList = "[]"
      and err = None]
  note failed = C2_deletion_pass [where now = 0 and applyMode = SyncResourceApplyMode
      and dynamicClient = goneClient and existingStatusList = ?ex and newStatusList = "[]"
      and err = "Some (OtherError ''connection refused'')"]
  note unparsable = C2_deletion_pass [where now = 0 and applyMode = SyncResourceApplyMode
      and dynamicClient = goneClient and existingStatusList = ?bad and newStatusList = "[]"
      and err = None]
  note sync = C2_deletion_pass [where now = 0 and applyMode = SyncResourceApplyMode
      and dynamicClient = goneClient and existingStatusList = ?ex and newStatusList = "[]"
      and err = None]
  from upsert
  have 1: "returnedList 0 UpsertResourceApplyMode goneClient ?ex [] None = []"
    "deleteCalls 0 UpsertResourceApplyMode goneClient ?ex [] None = []"
    by simp_all
  from failed modes stale
  have 2: "returnedList 0 SyncResourceApplyMode goneClient ?ex []
        (Some (OtherError ''connection refused'')) = ?ex"
    and 3: "deleteCalls 0 SyncResourceApplyMode goneClient ?ex []
        (Some (OtherError ''connection refused'')) = []"
    by simp_all
  from unparsable modes stale parse
  have 4: "returnedList 0 SyncResourceApplyMode goneClient ?bad [] None = []"
    and 5: "returnedError 0 SyncResourceApplyMode goneClient ?bad [] None
              = Some (OtherError ''unexpected GroupVersion string: a/b/c'')"
    by simp_all
  from sync modes stale parse
  have 6: "deleteCalls 0 SyncResourceApplyMode goneClient ?ex [] None
     = [DeleteCall ([], ''v1'', ''configmaps'') ''default'' ''b'']"
    by simp
  with ok have 7: "list_all (deleteAccepted goneClient)
        (deleteCalls 0 SyncResourceApplyMode goneClient ?ex [] None)"
    by simp
  from sync modes stale parse 7
  have 8: "returnedList 0 SyncResourceApplyMode goneClient ?ex [] None = []"
    and 9: "returnedError 0 SyncResourceApplyMode goneClient ?ex [] None = None"
    and 10: "existingAfter 0 SyncResourceApplyMode goneClient ?ex [] None = ?ex"
    by simp_all
  from 1 2 3 4 5 6 7 8 9 10 show ?thesis by simp
qed


text \<open>
  C2 as stated fails at a candidate behind one with an unparsable apiVersion: it is a
  candidate and no delete is issued for it.
\<close>

theorem C2_unparsable_candidate_stops_deletes:
  "recordedConfigMap ''v1'' ''b'' \<in> set (staleCandidates [recordedConfigMap ''a/b/c'' ''a'', recordedConfigMap ''v1'' ''b''] [])
   \<and> DeleteCall ([], ''v1'', ''configmaps'') ''default'' ''b''
        \<notin> set (deleteCalls 0 SyncResourceApplyMode workingClient
                  [recordedConfigMap ''a/b/c'' ''a'', recordedConfigMap ''v1'' ''b''] [] None)"
  by (simp add: staleCandidates_def deleteCalls_def reconcileDeletedSyncSetResources_def
      UpsertResourceApplyMode_def SyncResourceApplyMode_def recordedConfigMap_def ParseGroupVersion_def
      Let_def)

text \<open>
  C3.  The code at a stale candidate whose delete fails with an error other than
  NotFound: the DeletionFailed condition is written into the caller's old array (second
  component), and the returned list (first component) is the new list, here empty, so the
  candidate is not retained.
\<close>

theorem C3_failed_delete_not_retained:
  "reconcileDeletedSyncSetResources 7 SyncResourceApplyMode failingClient
     [recordedConfigMap ''v1'' ''b''] [] None
   = ([],
      [(recordedConfigMap ''v1'' ''b'')\<lparr>Conditions :=
          [\<lparr>Type = DeletionFailedSyncCondition, Status = ConditionTrue,
            Reason = deletionFailedReason, Message = ''Failed to delete resource: forbidden'',
            LastProbeTime = 7, LastTransitionTime = 7\<rparr>]\<rparr>],
      [DeleteCall ([], ''v1'', ''configmaps'') ''default'' ''b''], None)"
  by (simp add: reconcileDeletedSyncSetResources_def
      UpsertResourceApplyMode_def SyncResourceApplyMode_def recordedConfigMap_def ParseGroupVersion_def
      failingClient_def setDeletionFailedSyncCondition_def Let_def)

section \<open>The patch loop\<close>

lemma patchLookup_spec:
  "patchLookup now (pApplyMode p) recorded (newPatchSyncStatus hash p) = (cs, f, d, s)
   \<Longrightarrow> cs = matchedConditions recorded p \<and> (\<not> f \<or> d \<or> s) = specReapplyPatch hash now recorded p"
  by (induction recorded)
     (auto simp: specReapplyPatch_def matchesPatch_def newPatchSyncStatus_def
        matchedConditions_def failedLastTime_conditionStatus reapplyDue_def
        split: option.splits if_splits)

lemma upsert_replaces_first:
  "matchesPatch p e
   \<Longrightarrow> appendOrUpdateSyncStatus recorded e =
       (if list_ex (matchesPatch p) recorded
        then takeWhile (\<lambda>e. \<not> matchesPatch p e) recorded
             @ e # tl (dropWhile (\<lambda>e. \<not> matchesPatch p e) recorded)
        else recorded @ [e])"
  by (induction recorded) (auto simp: matchesPatch_def)

lemma find_after_upsert:
  "matchesPatch p e \<Longrightarrow> find (matchesPatch p) (appendOrUpdateSyncStatus recorded e) = Some e"
  by (induction recorded) (auto simp: matchesPatch_def)

lemma patchStatus_code:
  "patchStatus hash p cs = (newPatchSyncStatus hash p)\<lparr>Conditions := cs\<rparr>"
  by (simp add: patchStatus_def newPatchSyncStatus_def)

lemma matchesPatch_patchStatus: "matchesPatch p (patchStatus hash p cs)"
  by (simp add: matchesPatch_def patchStatus_def)

lemma recordPatch_code:
  "recordPatch hash h now recorded p =
     appendOrUpdateSyncStatus recorded
       ((newPatchSyncStatus hash p)
          \<lparr>Conditions := setApplySyncConditions now (matchedConditions recorded p)
                           (patchOutcome h p)\<rparr>)"
  unfolding recordPatch_def Let_def
  using upsert_replaces_first [OF matchesPatch_patchStatus, where recorded = recorded]
  by (simp add: patchStatus_code)

lemma applyPatchesLoop_step:
  "applyPatchesLoop hash h now (p # ps) recorded =
     (if specReapplyPatch hash now recorded p then
        (case patchOutcome h p of
           Some e \<Rightarrow> (recordPatch hash h now recorded p, [patchCall p], Some e)
         | None \<Rightarrow>
             (case applyPatchesLoop hash h now ps (recordPatch hash h now recorded p) of
                (final, calls, err) \<Rightarrow> (final, patchCall p # calls, err)))
      else applyPatchesLoop hash h now ps recorded)"
proof -
  obtain cs f d s where lk:
    "patchLookup now (pApplyMode p) recorded (newPatchSyncStatus hash p) = (cs, f, d, s)"
    by (cases "patchLookup now (pApplyMode p) recorded (newPatchSyncStatus hash p)")
  from patchLookup_spec [OF lk]
  have cs: "cs = matchedConditions recorded p"
    and dec: "(\<not> f \<or> d \<or> s) = specReapplyPatch hash now recorded p" by simp_all
  show ?thesis
    using dec by (auto simp: Let_def lk cs recordPatch_code patchOutcome_def
        split: option.splits prod.splits)
qed

lemma find_matchesPatch_map:
  "find (matchesPatch p) (map (\<lambda>e. e\<lparr>APIVersion := f e\<rparr>) recorded)
     = map_option (\<lambda>e. e\<lparr>APIVersion := f e\<rparr>) (find (matchesPatch p) recorded)"
  by (induction recorded) (auto simp: matchesPatch_def)

lemma specReapplyPatch_apiVersion:
  "specReapplyPatch hash now (map (\<lambda>e. e\<lparr>APIVersion := f e\<rparr>) recorded) (p\<lparr>pAPIVersion := v\<rparr>)
     = specReapplyPatch hash now recorded p"
proof -
  have m: "matchesPatch (p\<lparr>pAPIVersion := v\<rparr>) = matchesPatch p"
    by (rule ext) (simp add: matchesPatch_def)
  show ?thesis
    by (cases "find (matchesPatch p) recorded")
       (simp_all add: specReapplyPatch_def m find_matchesPatch_map)
qed

text \<open>
  C4 (amended).  One turn of the patch loop, at the patch statuses \<open>recorded\<close> in the
  bundle when the patch \<open>p\<close> is reached, which are the prior statuses with those that
  the patches applied earlier in the same pass have written: \<^verbatim>\<open>Patch\<close> is invoked
  exactly when the reapply decision of the specification holds on them (no status matches
  by name, namespace and kind, or the hash of the body differs from the hash of the first
  match, or that match has ApplyFailure True, or the mode is not once and ApplySuccess
  was probed more than two hours before \<open>now\<close>); the patch is then recorded at once,
  and the status found for it afterwards carries its apiVersion; a failing call ends the
  loop and its error is returned; otherwise the loop goes on with the remaining patches.
  The decision is the same whatever apiVersion the recorded statuses and the patch carry.
\<close>

theorem C4_patch_reapply:
  "applyPatchesLoop hash h now (p # ps) recorded =
     (if specReapplyPatch hash now recorded p then
        (case patchOutcome h p of
           Some e \<Rightarrow>
             (recordPatch hash h now recorded p,
              [PatchCall (pNamespace p, pName p) (pKind p) (pAPIVersion p) (pPatch p)
                 (pPatchType p)],
              Some e)
         | None \<Rightarrow>
             (case applyPatchesLoop hash h now ps (recordPatch hash h now recorded p) of
                (final, calls, err) \<Rightarrow>
                  (final,
                   PatchCall (pNamespace p, pName p) (pKind p) (pAPIVersion p) (pPatch p)
                     (pPatchType p) # calls,
                   err)))
      else applyPatchesLoop hash h now ps recorded)
   \<and> applyPatchesLoop hash h now [] recorded = (recorded, [], None)
   \<and> find (matchesPatch p) (recordPatch hash h now recorded p)
       = Some \<lparr>APIVersion = pAPIVersion p, Kind = pKind p, Resource = [], Name = pName p,
               Namespace = pNamespace p, Hash = hash (pPatch p),
               Conditions = setApplySyncConditions now (matchedConditions recorded p)
                              (patchOutcome h p)\<rparr>
   \<and> specReapplyPatch hash now (map (\<lambda>e. e\<lparr>APIVersion := f e\<rparr>) recorded)
        (p\<lparr>pAPIVersion := v\<rparr>)
      = specReapplyPatch hash now recorded p"
proof -
  have "find (matchesPatch p) (recordPatch hash h now recorded p)
       = Some (patchStatus hash p (setApplySyncConditions now (matchedConditions recorded p)
                              (patchOutcome h p)))"
    unfolding recordPatch_code patchStatus_code [symmetric]
    by (rule find_after_upsert) (rule matchesPatch_patchStatus)
  then show ?thesis
    using applyPatchesLoop_step [where hash = hash and h = h and now = now and p = p
        and ps = ps and recorded = recorded, unfolded patchCall_def]
      specReapplyPatch_apiVersion [where hash = hash and now = now and f = f
        and recorded = recorded and p = p and v = v]
    by (simp add: patchStatus_def del: applyPatchesLoop.simps(2))
qed

text \<open>The theorem at one new patch on a working applier: it is applied and recorded.\<close>

theorem C4_patch_reapply_witness:
  "applyPatchesLoop testHash workingApplier 9 [patchOf ''x'' ''{}'' ''merge''] []
     = ([recordedPatch ''x'' ''{}'' 9],
        [PatchCall (''default'', ''x'') ''ConfigMap'' ''v1'' ''{}'' ''merge''], None)"
proof -
  let ?p = "patchOf ''x'' ''{}'' ''merge''"
  have d: "specReapplyPatch testHash 9 [] ?p" by (simp add: specReapplyPatch_def)
  have o: "patchOutcome workingApplier ?p = None"
    by (simp add: patchOutcome_def workingApplier_def)
  from C4_patch_reapply [where hash = testHash and h = workingApplier and now = 9
      and p = ?p and ps = "[]" and recorded = "[]"]
  have step: "applyPatchesLoop testHash workingApplier 9 [?p] []
          = (recordPatch testHash workingApplier 9 [] ?p,
             [PatchCall (pNamespace ?p, pName ?p) (pKind ?p) (pAPIVersion ?p) (pPatch ?p)
                (pPatchType ?p)], None)"
    by (simp only: d o if_True option.case applyPatchesLoop.simps(1) prod.case)
  have r: "recordPatch testHash workingApplier 9 [] ?p = [recordedPatch ''x'' ''{}'' 9]"
    by (simp add: recordPatch_def matchedConditions_def o)
       (simp add: patchStatus_def patchOf_def recordedPatch_def)
  have f: "pNamespace ?p = ''default''" "pName ?p = ''x''" "pKind ?p = ''ConfigMap''"
    "pAPIVersion ?p = ''v1''" "pPatch ?p = ''{}''" "pPatchType ?p = ''merge''"
    by (simp_all add: patchOf_def)
  from step show ?thesis by (simp only: r f)
qed

text \<open>
  C4 as stated fails when two patches of a bundle have the same name, namespace and kind:
  the prior status of the bundle records the body of the second patch, applied with
  success a nanosecond ago, so the decision on the prior status is not to patch it; but
  the first patch, applied in this pass, has replaced that record when the second is
  reached, and both are patched.
\<close>

theorem C4_decision_on_status_rewritten_in_pass:
  "\<not> specReapplyPatch testHash 1 [recordedPatch ''x'' ''b: 2'' 0]
       (patchOf ''x'' ''b: 2'' ''merge'')
   \<and> fst (snd (applySyncSetPatches testHash 1
                 [patchOf ''x'' ''a: 1'' ''merge'', patchOf ''x'' ''b: 2'' ''merge'']
                 workingApplier
                 ((emptyStatus ''b1'')\<lparr>ssosPatches := [recordedPatch ''x'' ''b: 2'' 0]\<rparr>)))
       = [PatchCall (''default'', ''x'') ''ConfigMap'' ''v1'' ''a: 1'' ''merge'',
          PatchCall (''default'', ''x'') ''ConfigMap'' ''v1'' ''b: 2'' ''merge'']"
  by code_simp
section \<open>Patch-type migration\<close>

lemma patch_type_constants:
  "JSONPatchType \<noteq> MergePatchType" "JSONPatchType \<noteq> StrategicMergePatchType"
  "MergePatchType \<noteq> StrategicMergePatchType"
  "MergePatchType \<noteq> JSONPatchType" "StrategicMergePatchType \<noteq> JSONPatchType"
  "StrategicMergePatchType \<noteq> MergePatchType"
  by (simp_all add: JSONPatchType_def MergePatchType_def StrategicMergePatchType_def)

lemma oldPatchTypes_spec:
  "oldPatchTypes t = (if legacyPatchType t then Some (migratedPatchType t) else None)"
  by (auto simp: oldPatchTypes_def legacyPatchType_def migratedPatchType_def patch_type_constants)

lemma migratedPatchType_not_legacy: "\<not> legacyPatchType (migratedPatchType t)"
  by (auto simp: legacyPatchType_def migratedPatchType_def JSONPatchType_def
      MergePatchType_def StrategicMergePatchType_def)

lemma migratedPatchType_id: "\<not> legacyPatchType t \<Longrightarrow> migratedPatchType t = t"
  by (auto simp: legacyPatchType_def migratedPatchType_def)

lemma migratePatches_spec:
  "migratePatches ps =
     (map (\<lambda>p. p\<lparr>pPatchType := migratedPatchType (pPatchType p)\<rparr>) ps,
      list_ex (\<lambda>p. legacyPatchType (pPatchType p)) ps)"
  by (induction ps) (auto simp: oldPatchTypes_spec migratedPatchType_id split: prod.splits)

lemma migratedBundle_no_patches:
  "specPatches b = [] \<Longrightarrow> migratedBundle b = b"
  by (simp add: migratedBundle_def)

lemma hasLegacy_no_patches: "specPatches b = [] \<Longrightarrow> \<not> hasLegacyPatch b"
  by (simp add: hasLegacyPatch_def)

lemma hasLegacy_migrated: "\<not> hasLegacyPatch (migratedBundle b)"
  by (simp add: hasLegacyPatch_def migratedBundle_def list_ex_iff migratedPatchType_not_legacy)

lemma migratedBundle_idem: "\<not> hasLegacyPatch b \<Longrightarrow> migratedBundle b = b"
proof -
  assume a: "\<not> hasLegacyPatch b"
  have "map (\<lambda>p. p\<lparr>pPatchType := migratedPatchType (pPatchType p)\<rparr>) (specPatches b)
          = specPatches b"
    using a by (intro map_idI) (auto simp: hasLegacyPatch_def list_ex_iff migratedPatchType_id)
  then show ?thesis by (simp add: migratedBundle_def)
qed

lemma migratePatchTypes_updates:
  "fst (snd (migratePatchTypes update items))
     = updatesUntilFailure update (map migratedBundle (filter hasLegacyPatch items))
   \<and> snd (snd (migratePatchTypes update items))
     = firstUpdateError update (map migratedBundle (filter hasLegacyPatch items))"
proof (induction items)
  case Nil then show ?case by simp
next
  case (Cons b items)
  obtain i u e where rec: "migratePatchTypes update items = (i, u, e)"
    by (cases "migratePatchTypes update items")
  with Cons.IH have ih:
    "u = updatesUntilFailure update (map migratedBundle (filter hasLegacyPatch items))"
    "e = firstUpdateError update (map migratedBundle (filter hasLegacyPatch items))"
    by simp_all
  show ?case
    by (auto simp: rec ih migratePatches_spec hasLegacy_no_patches
        hasLegacyPatch_def [of b] migratedBundle_def [of b] Let_def split: option.splits)
qed

lemma migratePatchTypes_items:
  "fst (migratePatchTypes update items) = itemsAfterMigration update items"
proof (induction items)
  case Nil then show ?case by simp
next
  case (Cons b items)
  obtain i u e where rec: "migratePatchTypes update items = (i, u, e)"
    by (cases "migratePatchTypes update items")
  with Cons.IH have ih: "i = itemsAfterMigration update items" by simp
  show ?case
    by (auto simp: rec ih migratePatches_spec migratedBundle_no_patches hasLegacy_no_patches
        hasLegacyPatch_def [of b] migratedBundle_def [of b] Let_def split: option.splits)
qed

lemma itemsAfterMigration_settled:
  "\<forall>b \<in> set items. \<not> hasLegacyPatch b \<Longrightarrow> itemsAfterMigration update items = items"
  by (induction items) (auto simp: migratedBundle_idem)

lemma migratePatchTypes_settled:
  "\<forall>b \<in> set items. \<not> hasLegacyPatch b
   \<Longrightarrow> migratePatchTypes update items = (items, [], None)"
proof -
  assume a: "\<forall>b \<in> set items. \<not> hasLegacyPatch b"
  then have f: "filter hasLegacyPatch items = []" by (induction items) auto
  from migratePatchTypes_updates [of update items] f
  have u: "fst (snd (migratePatchTypes update items)) = []"
    and e: "snd (snd (migratePatchTypes update items)) = None" by simp_all
  from migratePatchTypes_items [of update items] itemsAfterMigration_settled [OF a]
  have "fst (migratePatchTypes update items) = items" by simp
  with u e show ?thesis by (cases "migratePatchTypes update items") simp
qed

lemma migrateSyncSetPatchTypes_parts:
  "fst (migrateSyncSetPatchTypes r xs) = fst (migratePatchTypes (rUpdateSyncSet r) xs)"
  "fst (snd (migrateSyncSetPatchTypes r xs))
     = map UpdateSyncSetCall (fst (snd (migratePatchTypes (rUpdateSyncSet r) xs)))"
  "snd (snd (migrateSyncSetPatchTypes r xs)) = snd (snd (migratePatchTypes (rUpdateSyncSet r) xs))"
  by (simp_all add: migrateSyncSetPatchTypes_def split: prod.splits)

lemma migrateSelectorSyncSetPatchTypes_parts:
  "fst (migrateSelectorSyncSetPatchTypes r xs)
     = fst (migratePatchTypes (rUpdateSelectorSyncSet r) xs)"
  "fst (snd (migrateSelectorSyncSetPatchTypes r xs))
     = map UpdateSelectorSyncSetCall
         (fst (snd (migratePatchTypes (rUpdateSelectorSyncSet r) xs)))"
  "snd (snd (migrateSelectorSyncSetPatchTypes r xs))
     = snd (snd (migratePatchTypes (rUpdateSelectorSyncSet r) xs))"
  by (simp_all add: migrateSelectorSyncSetPatchTypes_def split: prod.splits)

text \<open>
  C9 (amended).  For both bundle types: the persisting updates of a migration run are the
  bundles that held a legacy spelling, each with every legacy patch type rewritten to
  json, merge or strategic, in order and up to and including the first update that fails;
  the error the run returns is the error of that first failing update, and none when
  every update is accepted; the items after the run are rewritten up to that bundle and
  untouched behind it.  On
  bundles that are migrated already the run writes nothing, changes nothing and returns
  no error, whatever the platform answers; a bundle without a legacy spelling is never
  among the updates.
\<close>

theorem C9_migration:
  "fst (snd (migrateSyncSetPatchTypes r syncSets))
     = map UpdateSyncSetCall
         (updatesUntilFailure (rUpdateSyncSet r)
            (map migratedBundle (filter hasLegacyPatch syncSets)))
   \<and> fst (snd (migrateSelectorSyncSetPatchTypes r selectorSyncSets))
     = map UpdateSelectorSyncSetCall
         (updatesUntilFailure (rUpdateSelectorSyncSet r)
            (map migratedBundle (filter hasLegacyPatch selectorSyncSets)))
   \<and> snd (snd (migrateSyncSetPatchTypes r syncSets))
     = firstUpdateError (rUpdateSyncSet r)
         (map migratedBundle (filter hasLegacyPatch syncSets))
   \<and> snd (snd (migrateSelectorSyncSetPatchTypes r selectorSyncSets))
     = firstUpdateError (rUpdateSelectorSyncSet r)
         (map migratedBundle (filter hasLegacyPatch selectorSyncSets))
   \<and> fst (migrateSyncSetPatchTypes r syncSets)
     = itemsAfterMigration (rUpdateSyncSet r) syncSets
   \<and> fst (migrateSelectorSyncSetPatchTypes r selectorSyncSets)
     = itemsAfterMigration (rUpdateSelectorSyncSet r) selectorSyncSets
   \<and> migrateSyncSetPatchTypes r' (map migratedBundle syncSets)
     = (map migratedBundle syncSets, [], None)
   \<and> migrateSelectorSyncSetPatchTypes r' (map migratedBundle selectorSyncSets)
     = (map migratedBundle selectorSyncSets, [], None)"
proof -
  have s: "migratePatchTypes update (map migratedBundle items)
             = (map migratedBundle items, [], None)" for update
    and items :: "'z SyncSetCommon_scheme list"
    by (rule migratePatchTypes_settled) (simp add: hasLegacy_migrated)
  have a: "migrateSyncSetPatchTypes r' (map migratedBundle syncSets)
     = (map migratedBundle syncSets, [], None)"
    by (simp add: migrateSyncSetPatchTypes_def s)
  have b: "migrateSelectorSyncSetPatchTypes r' (map migratedBundle selectorSyncSets)
     = (map migratedBundle selectorSyncSets, [], None)"
    by (simp add: migrateSelectorSyncSetPatchTypes_def s)
  show ?thesis
    by (simp add: migrateSyncSetPatchTypes_parts migrateSelectorSyncSetPatchTypes_parts
        migratePatchTypes_updates migratePatchTypes_items a b)
qed


text \<open>
  C9 as stated fails behind an update that is refused: of two SyncSets with a legacy
  spelling each, only the first is rewritten and sent; the second keeps its legacy
  spelling and is not written.
\<close>

theorem C9_refused_update_stops_migration:
  "migrateSyncSetPatchTypes (conflictingPlatform (clusterDeployment (installedStatus [] [])) [] [])
     [syncSetOf ''b1'' None [] [] [patchOf ''x'' ''{}'' MergePatchType],
      syncSetOf ''b2'' None [] [] [patchOf ''y'' ''{}'' JSONPatchType]]
   = ([syncSetOf ''b1'' None [] [] [patchOf ''x'' ''{}'' ''merge''],
       syncSetOf ''b2'' None [] [] [patchOf ''y'' ''{}'' JSONPatchType]],
      [UpdateSyncSetCall (syncSetOf ''b1'' None [] [] [patchOf ''x'' ''{}'' ''merge''])],
      Some (OtherError ''conflict''))"
  by (simp add: migrateSyncSetPatchTypes_def conflictingPlatform_def platform_def syncSetOf_def
      patchOf_def oldPatchTypes_def JSONPatchType_def MergePatchType_def
      StrategicMergePatchType_def Let_def)

section \<open>Cleanup of deleted bundles\<close>

lemma HasFinalizer_set: "HasFinalizer fs f = (f \<in> set fs)"
  by (induction fs) auto

lemma HasFinalizer_Delete: "\<not> HasFinalizer (DeleteFinalizer fs f) f"
  by (simp add: HasFinalizer_set DeleteFinalizer_def)

lemma removeSyncSetObjectStatus_filter:
  "removeSyncSetObjectStatus xs name = filter (\<lambda>s. ssosName s \<noteq> name) xs"
  by (induction xs) auto

lemma deleteRecorded_error:
  "snd (deleteRecorded dynamicClient rs) = firstParseError rs
   \<and> fst (deleteRecorded dynamicClient rs) = deletesUntilUnparsable rs"
proof (induction rs)
  case Nil then show ?case by simp
next
  case (Cons x rs)
  obtain c e where rec: "deleteRecorded dynamicClient rs = (c, e)"
    by (cases "deleteRecorded dynamicClient rs")
  with Cons.IH show ?case
    by (auto simp: Let_def split: sum.splits prod.splits option.splits)
qed

text \<open>
  C10 (amended).  For a SyncSet due for cleanup (deletion timestamp, cleanup finalizer,
  deletion policy other than orphan): \<^const>\<open>deleteSyncSetResources\<close> returns an error
  only for a recorded apiVersion that does not parse, whatever the deletes return, and it
  returns no status, so no condition is recorded; the turn of the loop then drops every
  status entry of the bundle from the SyncSet status list and sends the SyncSet without
  the cleanup finalizer to the platform.  Neither depends on the dynamic client or on the
  error of \<^const>\<open>deleteSyncSetResources\<close>; the turn only ends the reconcile when that
  finalizer update itself fails.  For a SelectorSyncSet due for cleanup the turn likewise
  ends, whatever the dynamic client answers, with the update that removes the cleanup
  finalizer, and returns what that update returns; what it does to the status lists is
  not stated here.
\<close>

theorem C10_cleanup_not_blocked:
  assumes "cleanupDue syncSet" and "cleanupDue selectorSyncSet"
  shows "snd (deleteSyncSetResources syncSetStatus dynamicClient)
           = firstParseError (ssosResources syncSetStatus)
     \<and> reconcileSyncSet r now kubeConfig dynamicClient syncSet status firstSyncSetErr
         = (status\<lparr>SyncSetStatus :=
               filter (\<lambda>s. ssosName s \<noteq> metaName syncSet) (SyncSetStatus status)\<rparr>,
            firstSyncSetErr,
            deletesUntilUnparsable
              (ssosResources (findSyncSetStatus (metaName syncSet) (SyncSetStatus status)))
              @ [UpdateSyncSetCall (withoutFinalizer syncSet)],
            rUpdateSyncSet r (withoutFinalizer syncSet))
     \<and> \<not> HasFinalizer (metaFinalizers (withoutFinalizer syncSet)) FinalizerSyncSetCleanup
     \<and> last (fst (snd (snd (reconcileSelectorSyncSet r now kubeConfig dynamicClient
                               selectorSyncSet status firstSyncSetErr))))
         = UpdateSelectorSyncSetCall (withoutFinalizer selectorSyncSet)
     \<and> snd (snd (reconcileSelectorSyncSet r now kubeConfig dynamicClient selectorSyncSet status
                    firstSyncSetErr))
         = (fst (snd (snd (reconcileSelectorSyncSet r now kubeConfig dynamicClient
                             selectorSyncSet status firstSyncSetErr))),
            rUpdateSelectorSyncSet r (withoutFinalizer selectorSyncSet))
     \<and> fst (snd (reconcileSelectorSyncSet r now kubeConfig dynamicClient selectorSyncSet status
                    firstSyncSetErr))
         = firstSyncSetErr
     \<and> \<not> HasFinalizer (metaFinalizers (withoutFinalizer selectorSyncSet))
           FinalizerSyncSetCleanup"
  using assms
  by (simp add: cleanupDue_def reconcileSyncSet_def reconcileSelectorSyncSet_def
      deleteSyncSetResources_def deleteRecorded_error
      removeSyncSetObjectStatus_filter withoutFinalizer_def HasFinalizer_Delete)

text \<open>The theorem at a deleted SyncSet with one recorded resource, a deleted
  SelectorSyncSet, and a dynamic client that refuses every delete: the SyncSet status
  list is left without entries (and not nil).\<close>

theorem C10_cleanup_not_blocked_witness:
  "cleanupDue (syncSetOf ''b1'' (Some 5) [FinalizerSyncSetCleanup] [] [])
   \<and> cleanupDue (selectorSyncSetOf ''sel'' (Some 5) [FinalizerSyncSetCleanup] [] [])
   \<and> reconcileSyncSet (platform (clusterDeployment (installedStatus [] [])) [] []) 9 ''kubeconfig-bytes'' failingClient
         (syncSetOf ''b1'' (Some 5) [FinalizerSyncSetCleanup] [] [])
         (installedStatus [bundleStatus ''b1'' [recordedConfigMap ''v1'' ''b'']] []) None
       = ((installedStatus [bundleStatus ''b1'' [recordedConfigMap ''v1'' ''b'']] [])
            \<lparr>SyncSetStatus := []\<rparr>,
          None,
          [DeleteCall ([], ''v1'', ''configmaps'') ''default'' ''b'',
           UpdateSyncSetCall (syncSetOf ''b1'' (Some 5) [] [] [])],
          None)
   \<and> last (fst (snd (snd (reconcileSelectorSyncSet
         (platform (clusterDeployment (installedStatus [] [])) [] []) 9 ''kubeconfig-bytes''
         failingClient (selectorSyncSetOf ''sel'' (Some 5) [FinalizerSyncSetCleanup] [] [])
         (installedStatus [bundleStatus ''b1'' [recordedConfigMap ''v1'' ''b'']] []) None))))
       = UpdateSelectorSyncSetCall (selectorSyncSetOf ''sel'' (Some 5) [] [] [])"
proof -
  let ?ss = "syncSetOf ''b1'' (Some 5) [FinalizerSyncSetCleanup] [] []"
  let ?sel = "selectorSyncSetOf ''sel'' (Some 5) [FinalizerSyncSetCleanup] [] []"
  have 1: "cleanupDue ?ss"
    by (simp add: cleanupDue_def syncSetOf_def OrphanResourceDeletionPolicy_def)
  have 2: "cleanupDue ?sel"
    by (simp add: cleanupDue_def selectorSyncSetOf_def OrphanResourceDeletionPolicy_def)
  from C10_cleanup_not_blocked [OF 1 2, where r = "platform (clusterDeployment (installedStatus [] [])) [] []" and now = 9
      and kubeConfig = "''kubeconfig-bytes''" and dynamicClient = failingClient
      and status = "installedStatus [bundleStatus ''b1'' [recordedConfigMap ''v1'' ''b'']] []"
      and firstSyncSetErr = None]
  have "reconcileSyncSet (platform (clusterDeployment (installedStatus [] [])) [] []) 9 ''kubeconfig-bytes'' failingClient ?ss
         (installedStatus [bundleStatus ''b1'' [recordedConfigMap ''v1'' ''b'']] []) None
       = ((installedStatus [bundleStatus ''b1'' [recordedConfigMap ''v1'' ''b'']] [])
            \<lparr>SyncSetStatus := []\<rparr>,
          None,
          [DeleteCall ([], ''v1'', ''configmaps'') ''default'' ''b'',
           UpdateSyncSetCall (syncSetOf ''b1'' (Some 5) [] [] [])],
          None)"
    and "last (fst (snd (snd (reconcileSelectorSyncSet
         (platform (clusterDeployment (installedStatus [] [])) [] []) 9 ''kubeconfig-bytes''
         failingClient ?sel
         (installedStatus [bundleStatus ''b1'' [recordedConfigMap ''v1'' ''b'']] []) None))))
       = UpdateSelectorSyncSetCall (selectorSyncSetOf ''sel'' (Some 5) [] [] [])"
    by (simp_all add: installedStatus_def bundleStatus_def recordedConfigMap_def syncSetOf_def
        selectorSyncSetOf_def platform_def withoutFinalizer_def DeleteFinalizer_def
        ParseGroupVersion_def)
  with 1 2 show ?thesis by simp
qed

text \<open>
  C10 as stated fails for a SelectorSyncSet: with a deletion timestamp, the cleanup
  finalizer and deletion policy delete, and a dynamic client that refuses every delete,
  the entry of the bundle is still in the SelectorSyncSetStatus list of the cluster
  deployment when the finalizer is removed.
\<close>

theorem C10_selector_status_entry_kept:
  "cleanupDue (selectorSyncSetOf ''sel'' (Some 5) [FinalizerSyncSetCleanup] [] [])
   \<and> SelectorSyncSetStatus
         (fst (reconcileSelectorSyncSet
                 (platform (clusterDeployment (installedStatus [] [])) [] []) 9
                 ''kubeconfig-bytes'' failingClient
                 (selectorSyncSetOf ''sel'' (Some 5) [FinalizerSyncSetCleanup] [] [])
                 (installedStatus [] [bundleStatus ''sel'' [recordedConfigMap ''v1'' ''b'']])
                 None))
       = [bundleStatus ''sel'' [recordedConfigMap ''v1'' ''b'']]
   \<and> last (fst (snd (snd (reconcileSelectorSyncSet
                 (platform (clusterDeployment (installedStatus [] [])) [] []) 9
                 ''kubeconfig-bytes'' failingClient
                 (selectorSyncSetOf ''sel'' (Some 5) [FinalizerSyncSetCleanup] [] [])
                 (installedStatus [] [bundleStatus ''sel'' [recordedConfigMap ''v1'' ''b'']])
                 None))))
       = UpdateSelectorSyncSetCall (selectorSyncSetOf ''sel'' (Some 5) [] [] [])"
  by (simp add: cleanupDue_def reconcileSelectorSyncSet_def platform_def selectorSyncSetOf_def
      installedStatus_def deleteSyncSetResources_def withoutFinalizer_def DeleteFinalizer_def
      OrphanResourceDeletionPolicy_def)

text \<open>
  C5.  The code at a deleted SelectorSyncSet \<open>sel\<close> with the cleanup finalizer and
  deletion policy delete, whose recorded status (one ConfigMap) is in the
  SelectorSyncSetStatus list of the cluster deployment: the turn looks the bundle up in
  the SyncSetStatus list, finds nothing, issues no delete, prunes the SyncSetStatus list,
  and removes the finalizer.  The recorded entry stays in SelectorSyncSetStatus and the
  ConfigMap stays on the managed cluster.
\<close>

theorem C5_selector_cleanup_reads_syncset_status:
  "reconcileSelectorSyncSet (platform (clusterDeployment (installedStatus [] [])) [] []) 9 ''kubeconfig-bytes'' workingClient
     (selectorSyncSetOf ''sel'' (Some 5) [FinalizerSyncSetCleanup] [] [])
     (installedStatus [] [bundleStatus ''sel'' [recordedConfigMap ''v1'' ''b'']]) None
   = (installedStatus [] [bundleStatus ''sel'' [recordedConfigMap ''v1'' ''b'']], None,
      [UpdateSelectorSyncSetCall (selectorSyncSetOf ''sel'' (Some 5) [] [] [])], None)"
  by (simp add: reconcileSelectorSyncSet_def platform_def selectorSyncSetOf_def
      installedStatus_def deleteSyncSetResources_def withoutFinalizer_def DeleteFinalizer_def
      OrphanResourceDeletionPolicy_def)

section \<open>The lifecycle reconciler\<close>

lemma HasFinalizer_Add: "HasFinalizer (AddFinalizer fs f) f"
proof -
  have "finite (insert f (set fs))" by simp
  then have "set (sorted_list_of_set (insert f (set fs))) = insert f (set fs)"
    by (rule set_sorted_list_of_set)
  then show ?thesis by (simp only: HasFinalizer_set AddFinalizer_def) simp
qed

lemma emptyJob_not_successful: "\<not> isSuccessful emptyJob"
  by (simp add: isSuccessful_def getJobConditionStatus_def emptyJob_def
      ConditionTrue_def ConditionFalse_def)

lemma emptyJob_not_complete: "getJobConditionStatus emptyJob JobComplete \<noteq> ConditionTrue"
  using emptyJob_not_successful by (simp add: isSuccessful_def)

lemma conditionStatusIn_find:
  "conditionStatusIn cs t =
     (case find (\<lambda>condition. jcType condition = t) cs of
        None \<Rightarrow> ConditionFalse
      | Some condition \<Rightarrow> jcStatus condition)"
  by (induction cs) simp_all

lemma isSuccessful_find:
  "isSuccessful job \<longleftrightarrow>
     (case find (\<lambda>condition. jcType condition = ''Complete'') (jobConditions job) of
        None \<Rightarrow> False
      | Some condition \<Rightarrow> jcStatus condition = ''True'')"
  by (simp add: isSuccessful_def getJobConditionStatus_def conditionStatusIn_find
      JobComplete_def ConditionTrue_def ConditionFalse_def split: option.splits)

lemma uninstallJobComplete_isSuccessful:
  "uninstallJobComplete l cd =
     (case lGetJob l (cdNamespace cd, cdName cd @ ''-uninstall'') of
        Inl err \<Rightarrow> False
      | Inr job \<Rightarrow> isSuccessful job)"
  by (simp add: uninstallJobComplete_def isSuccessful_find split: sum.splits)

lemma add_never_removes:
  "\<not> list_ex removesDeprovision (fst (addClusterDeploymentFinalizer l cd))"
  by (simp add: addClusterDeploymentFinalizer_def removesDeprovision_def HasFinalizer_Add Let_def)

lemma install_never_removes:
  "HasFinalizer (cdFinalizers cd) FinalizerDeprovision
   \<Longrightarrow> \<not> list_ex removesDeprovision (fst (installCluster l cd job cfgMap))"
  by (auto simp: installCluster_def removesDeprovision_def
      split: sum.splits option.splits if_splits prod.splits)

lemma generate_name:
  "generateInstallerJob marshal name cd img pol un sa = Inr (job, cm)
   \<Longrightarrow> jobName job = name \<and> jobNamespace job = cdNamespace cd"
  by (auto simp: generateInstallerJob_def Let_def split: sum.splits)

lemma deleted_removes:
  "list_ex removesDeprovision (fst (syncDeletedClusterDeployment l cd))
   \<longleftrightarrow>
   (case generateInstallerJob (lMarshal l) (cdName cd @ ''-uninstall'') cd
           installerImage PullIfNotPresent True None of
      Inl err \<Rightarrow> False
    | Inr (uninstallJob, none) \<Rightarrow> lSetJobOwner l cd uninstallJob = None)
   \<and> uninstallJobComplete l cd"
proof (cases "generateInstallerJob (lMarshal l) (cdName cd @ ''-uninstall'') cd
           installerImage PullIfNotPresent True None")
  case (Inl e)
  then show ?thesis by (simp add: syncDeletedClusterDeployment_def)
next
  case (Inr p)
  obtain g c where p: "p = (g, c)" by (cases p)
  from generate_name [OF Inr [unfolded p]]
  have n: "jobName g = cdName cd @ ''-uninstall''" "jobNamespace g = cdNamespace cd"
    by simp_all
  show ?thesis
    using Inr p n
    by (auto simp: syncDeletedClusterDeployment_def uninstallJobComplete_isSuccessful
        removeClusterDeploymentFinalizer_def removesDeprovision_def HasFinalizer_Delete
        emptyJob_not_successful Let_def
        split: sum.splits option.splits if_splits prod.splits)
qed

text \<open>
  C7 (amended).  A pass of the lifecycle reconciler sends an update that removes the
  deprovision finalizer if and only if it reaches the check of the uninstall job (the
  cluster deployment is read with a deletion timestamp and the finalizer, and the install
  and uninstall job templates are generated and given their controller reference without
  error) and the uninstall job is read from the platform with a Complete condition of
  status True.  A job that is not found and created in the same pass, or a job without a
  Complete condition, is not complete; the branch that adds the finalizer and the install
  branch never send such an update.
\<close>

theorem C7_deprovision_finalizer:
  "list_ex removesDeprovision (fst (ReconcileClusterDeployment l request))
   \<longleftrightarrow> deprovisioning l request"
proof (cases "lGet l request")
  case (Inl e)
  then show ?thesis by (simp add: ReconcileClusterDeployment_def deprovisioning_def)
next
  case (Inr cd)
  show ?thesis
    using Inr deleted_removes [of l cd] add_never_removes [of l cd]
      install_never_removes [of cd l]
    by (auto simp: ReconcileClusterDeployment_def deprovisioning_def templatesReady_def
        split: sum.splits option.splits prod.splits)
qed


text \<open>
  C7 as stated fails when the pass does not reach the check of the uninstall job.  The
  uninstall job is read with Complete True throughout.  With the cluster deployment under
  deletion and carrying the finalizer, the pass returns the error of the encoder of the
  install config, or of the controller reference, before it looks at the job, and sends
  no update; with both working the same pass removes the finalizer.  With a cluster
  deployment that is not under deletion the pass takes the install branch, which does not
  remove the finalizer either.
\<close>

theorem C7_complete_job_template_failure:
  "lGetJob failingEncoder (''acme'', ''c1-uninstall'') = Inr completedJob
   \<and> lGetJob refusedOwner (''acme'', ''c1-uninstall'') = Inr completedJob
   \<and> lGetJob notUnderDeletion (''acme'', ''c1-uninstall'') = Inr completedJob
   \<and> jobConditions completedJob = [\<lparr>jcType = ''Complete'', jcStatus = ''True''\<rparr>]
   \<and> ReconcileClusterDeployment failingEncoder (''acme'', ''c1'')
       = ([], Some (OtherError ''yaml''))
   \<and> ReconcileClusterDeployment refusedOwner (''acme'', ''c1'')
       = ([], Some (OtherError ''scheme''))
   \<and> \<not> list_ex removesDeprovision
         (fst (ReconcileClusterDeployment notUnderDeletion (''acme'', ''c1'')))
   \<and> fst (ReconcileClusterDeployment lifecyclePlatform (''acme'', ''c1''))
       = [UpdateClusterDeploymentCall (deletedClusterDeployment\<lparr>cdFinalizers := []\<rparr>)]"
  by code_simp
section \<open>Idempotence of a reconcile\<close>

text \<open>
  A pass without error leaves, for every resource, a status that is its record; on such
  statuses, when they are recent and the keys are distinct, the loop finds each resource
  at its own status and applies nothing.
\<close>

lemma apply_success_not_failed: "\<not> failedLastTime (setApplySyncConditions now cs None)"
  by (simp add: failedLastTime_conditionStatus setApplySyncConditions_def
      conditionStatus_Set_same conditionStatus_Set_other condition_constants_distinct)

lemma resourceLookup_quiet:
  "resourceLookup now ex rs = (cs, True, False, False)
   \<Longrightarrow> \<not> failedLastTime cs"
  by (induction ex) (auto split: if_splits)

lemma loop_recorded:
  "applyResourcesLoop hash h now ex k xs = (es, calls, None)
   \<Longrightarrow> list_all2 (recordedResource hash) xs es"
proof (induction xs arbitrary: k es calls)
  case Nil then show ?case by simp
next
  case (Cons x xs)
  obtain raw info where x: "x = (raw, info)" by (cases x)
  obtain l c e where rec: "applyResourcesLoop hash h now ex (Suc k) xs = (l, c, e)"
    by (cases "applyResourcesLoop hash h now ex (Suc k) xs")
  obtain cs f d s where lk:
    "resourceLookup now ex (newResourceSyncStatus hash raw info) = (cs, f, d, s)"
    by (cases "resourceLookup now ex (newResourceSyncStatus hash raw info)")
  show ?case
  proof (cases "\<not> f \<or> d \<or> s")
    case True
    with Cons.prems x rec lk have a: "Apply h raw = None" "e = None"
      "es = (newResourceSyncStatus hash raw info)
              \<lparr>Conditions := setApplySyncConditions now cs None\<rparr> # l"
      by (auto simp: Let_def split: option.splits)
    from Cons.IH [of "Suc k" l c] rec a have t: "list_all2 (recordedResource hash) xs l" by simp
    have "recordedResource hash x ((newResourceSyncStatus hash raw info)
              \<lparr>Conditions := setApplySyncConditions now cs None\<rparr>)"
      using x by (simp add: recordedResource_def apply_success_not_failed)
    with t a show ?thesis by simp
  next
    case False
    with Cons.prems x rec lk have a: "e = None"
      "es = (newResourceSyncStatus hash raw info)\<lparr>Conditions := cs\<rparr> # l"
      by (auto simp: Let_def)
    from False lk have "\<not> failedLastTime cs"
      using resourceLookup_quiet [of now ex "newResourceSyncStatus hash raw info" cs] by simp
    then have "recordedResource hash x ((newResourceSyncStatus hash raw info)\<lparr>Conditions := cs\<rparr>)"
      using x by (simp add: recordedResource_def)
    moreover from Cons.IH [of "Suc k" l c] rec a have "list_all2 (recordedResource hash) xs l"
      by simp
    ultimately show ?thesis using a by simp
  qed
qed

lemma resourceLookup_skip:
  "\<forall>p \<in> set pre. statusKey p \<noteq> statusKey rs
   \<Longrightarrow> resourceLookup now (pre @ post) rs = resourceLookup now post rs"
  by (induction pre) (auto simp: statusKey_def)

lemma statusKey_new [simp]:
  "statusKey ((newResourceSyncStatus hash raw info)\<lparr>Conditions := cs\<rparr>) = resourceKey info"
  "statusKey (newResourceSyncStatus hash raw info) = resourceKey info"
  by (simp_all add: statusKey_def resourceKey_def newResourceSyncStatus_def)

lemma loop_quiet:
  "list_all2 (quietResource hash now) xs es
   \<Longrightarrow> distinct (map (resourceKey \<circ> snd) xs)
   \<Longrightarrow> \<forall>p \<in> set pre. statusKey p \<notin> set (map (resourceKey \<circ> snd) xs)
   \<Longrightarrow> applyResourcesLoop hash h now (pre @ es) k xs = (es, [], None)"
proof (induction xs es arbitrary: pre k rule: list_all2_induct)
  case Nil then show ?case by simp
next
  case (Cons x xs e es)
  obtain raw info where x: "x = (raw, info)" by (cases x)
  from Cons.hyps(1) x
  obtain cs where e: "e = (newResourceSyncStatus hash raw info)\<lparr>Conditions := cs\<rparr>"
    and q: "\<not> failedLastTime cs" "\<not> reapplyDue now cs"
    by (auto simp: quietResource_def)
  have key: "statusKey e = resourceKey info" unfolding e by simp
  have skip: "\<forall>p \<in> set pre. statusKey p \<noteq> statusKey (newResourceSyncStatus hash raw info)"
    using Cons.prems(2) x by auto
  have lk: "resourceLookup now (pre @ e # es) (newResourceSyncStatus hash raw info)
              = (cs, True, False, False)"
    unfolding resourceLookup_skip [OF skip] e
    using q by (simp add: newResourceSyncStatus_def)
  have pre': "\<forall>p \<in> set (pre @ [e]). statusKey p \<notin> set (map (resourceKey \<circ> snd) xs)"
    using Cons.prems x key by auto
  from Cons.IH [OF _ pre', of "Suc k"] Cons.prems(1)
  have rec: "applyResourcesLoop hash h now (pre @ e # es) (Suc k) xs = (es, [], None)" by simp
  show ?case
    unfolding x using lk rec e by (simp add: Let_def)
qed

text \<open>The conditions of the bundle and the deletion pass do not move either.\<close>

lemma Set_never_idem:
  "SetSyncCondition now' (SetSyncCondition now cs t st r m chk) t st r' m' UpdateConditionNever
     = SetSyncCondition now cs t st r m chk"
  by (induction cs) (auto simp: updateCondition_def shouldUpdateCondition_def)

lemma setUnknown_idem:
  "setUnknownObjectSyncCondition now' (setUnknownObjectSyncCondition now cs None k) None k'
     = setUnknownObjectSyncCondition now cs None k"
  by (simp add: setUnknownObjectSyncCondition_def Set_never_idem)

lemma foundInNew_self: "e \<in> set l \<Longrightarrow> foundInNew e l"
  by (induction l) auto

lemma deletionCandidates_self:
  "set ex \<subseteq> set l \<Longrightarrow> deletionCandidates k ex l = []"
  by (induction ex arbitrary: k) (auto simp: foundInNew_self)

lemma deletion_pass_quiet:
  "reconcileDeletedSyncSetResources now mode dc l l None = (l, l, [], None)"
  by (simp add: reconcileDeletedSyncSetResources_def deletionCandidates_self Let_def)

lemma deletion_pass_no_error:
  "reconcileDeletedSyncSetResources now mode dc ex new None = (res, ex', dcs, None)
   \<Longrightarrow> res = new"
  by (auto simp: reconcileDeletedSyncSetResources_def Let_def
      split: if_splits prod.splits option.splits)

lemma deletion_pass_error_free:
  "reconcileDeletedSyncSetResources now mode dc ex new (Some e) = (res, ex', dcs, de)
   \<Longrightarrow> de = None"
  by (auto simp: reconcileDeletedSyncSetResources_def Let_def split: if_splits)

lemma resources_run1:
  assumes "applySyncSetResources hash now mode rs dc h s0 = (s1, calls, None)"
  obtains infos l c where "gatherInfos h 0 rs = Inr infos"
    and "applyResourcesLoop hash h now (ssosResources s0) 0 (zip rs infos) = (l, c, None)"
    and "s1 = s0\<lparr>ssosConditions := setUnknownObjectSyncCondition now (ssosConditions s0) None 0,
                  ssosResources := l, ssosResourcesNil := False\<rparr>"
proof (cases "gatherInfos h 0 rs")
  case (Inl bad)
  with assms show ?thesis
    by (auto simp: applySyncSetResources_def split: prod.splits)
next
  case (Inr infos)
  obtain l c e where lp:
    "applyResourcesLoop hash h now (ssosResources s0) 0 (zip rs infos) = (l, c, e)"
    by (cases "applyResourcesLoop hash h now (ssosResources s0) 0 (zip rs infos)")
  obtain res ex' dcs de where rd:
    "reconcileDeletedSyncSetResources now mode dc (ssosResources s0) l e = (res, ex', dcs, de)"
    by (cases "reconcileDeletedSyncSetResources now mode dc (ssosResources s0) l e")
  from assms Inr lp rd have de: "de = None" and e: "e = None"
    and s1: "s1 = s0\<lparr>ssosConditions :=
                 setUnknownObjectSyncCondition now (ssosConditions s0) None 0,
               ssosResources := res, ssosResourcesNil := False\<rparr>"
    by (auto simp: applySyncSetResources_def Let_def split: option.splits)
  from deletion_pass_no_error [OF rd [unfolded e de]] have "res = l" .
  with that [OF Inr lp [unfolded e]] s1 show ?thesis by simp
qed

lemma list_all2_with_set:
  "list_all2 P xs ys \<Longrightarrow> \<forall>y \<in> set ys. Q y \<Longrightarrow> list_all2 (\<lambda>x y. P x y \<and> Q y) xs ys"
  by (induction xs ys rule: list_all2_induct) auto

lemma quietResource_recorded:
  "quietResource hash now = (\<lambda>x e. recordedResource hash x e \<and> \<not> reapplyDue now (Conditions e))"
  by (intro ext) (auto simp: quietResource_def recordedResource_def)

lemma resources_idempotent:
  assumes run1: "applySyncSetResources hash now1 mode rs dc h s0 = (s1, calls, None)"
    and dist: "distinct (resourceKeys h rs)"
    and recent: "\<forall>e \<in> set (ssosResources s1). \<not> reapplyDue now2 (Conditions e)"
  shows "applySyncSetResources hash now2 mode rs dc h s1 = (s1, map InfoCall rs, None)"
proof -
  from run1 obtain infos l c where g: "gatherInfos h 0 rs = Inr infos"
    and lp: "applyResourcesLoop hash h now1 (ssosResources s0) 0 (zip rs infos) = (l, c, None)"
    and s1: "s1 = s0\<lparr>ssosConditions :=
                 setUnknownObjectSyncCondition now1 (ssosConditions s0) None 0,
               ssosResources := l, ssosResourcesNil := False\<rparr>"
    by (rule resources_run1)
  have len: "length infos = length rs" using g by (rule gatherInfos_length)
  from loop_recorded [OF lp] have rec: "list_all2 (recordedResource hash) (zip rs infos) l" .
  from recent s1 have rc: "\<forall>e \<in> set l. \<not> reapplyDue now2 (Conditions e)" by simp
  have q: "list_all2 (quietResource hash now2) (zip rs infos) l"
    unfolding quietResource_recorded using rec rc by (rule list_all2_with_set)
  have d: "distinct (map (resourceKey \<circ> snd) (zip rs infos))"
    using dist g len by (simp add: resourceKeys_def map_snd_zip flip: map_map)
  from loop_quiet [OF q d, of "[]" h 0]
  have lp2: "applyResourcesLoop hash h now2 l 0 (zip rs infos) = (l, [], None)" by simp
  show ?thesis
    by (simp add: applySyncSetResources_def g s1 setUnknown_idem lp2 deletion_pass_quiet
        infoCalls_all [OF g])
qed

text \<open>
  Patches: with distinct keys, the status that a patch leaves is still the first match
  of its key when the loop ends, so a second loop finds every patch recorded.
\<close>

lemma matchesPatch_key: "matchesPatch p e = (patchStatusKey e = patchKey p)"
  by (auto simp: matchesPatch_def patchStatusKey_def patchKey_def)

lemma find_appendOrUpdate_same:
  "patchStatusKey e = patchKey p
   \<Longrightarrow> find (matchesPatch p) (appendOrUpdateSyncStatus L e) = Some e"
  by (induction L) (auto simp: matchesPatch_def patchStatusKey_def patchKey_def)

lemma find_appendOrUpdate_other:
  "patchStatusKey e \<noteq> patchKey p
   \<Longrightarrow> find (matchesPatch p) (appendOrUpdateSyncStatus L e) = find (matchesPatch p) L"
  by (induction L) (auto simp: matchesPatch_def patchStatusKey_def patchKey_def)

lemma recordPatch_key:
  "patchStatusKey ((newPatchSyncStatus hash q)\<lparr>Conditions := cs\<rparr>) = patchKey q"
  by (simp add: patchStatusKey_def patchKey_def newPatchSyncStatus_def)

lemma find_recordPatch_other:
  "patchKey q \<noteq> patchKey p
   \<Longrightarrow> find (matchesPatch p) (recordPatch hash h now L q) = find (matchesPatch p) L"
  unfolding recordPatch_code
  by (rule find_appendOrUpdate_other) (simp add: recordPatch_key)

lemma find_recordPatch_same:
  "find (matchesPatch p) (recordPatch hash h now L p)
     = Some ((newPatchSyncStatus hash p)
               \<lparr>Conditions := setApplySyncConditions now (matchedConditions L p)
                                (patchOutcome h p)\<rparr>)"
  unfolding recordPatch_code
  by (rule find_appendOrUpdate_same) (simp add: recordPatch_key)

lemma loop_preserves_find:
  "patchKey p \<notin> set (map patchKey qs)
   \<Longrightarrow> find (matchesPatch p) (fst (applyPatchesLoop hash h now qs L)) = find (matchesPatch p) L"
proof (induction qs arbitrary: L)
  case Nil then show ?case by simp
next
  case (Cons q qs)
  from Cons.prems have k: "patchKey q \<noteq> patchKey p" and r: "patchKey p \<notin> set (map patchKey qs)"
    by auto
  note ih = Cons.IH [OF r]
  show ?case
    unfolding applyPatchesLoop_step
    using ih [of L] ih [of "recordPatch hash h now L q"] find_recordPatch_other [OF k]
    by (auto split: option.splits prod.splits)
qed

lemma patches_run1:
  "applyPatchesLoop hash h now ps L = (L1, calls, None)
   \<Longrightarrow> distinct (map patchKey ps)
   \<Longrightarrow> \<forall>p \<in> set ps. patchRecorded hash L1 p"
proof (induction ps arbitrary: L calls)
  case Nil then show ?case by simp
next
  case (Cons p ps)
  from Cons.prems(2) have fresh: "patchKey p \<notin> set (map patchKey ps)"
    and d: "distinct (map patchKey ps)" by simp_all
  show ?case
  proof (cases "specReapplyPatch hash now L p")
    case True
    let ?L' = "recordPatch hash h now L p"
    obtain f c e where rec: "applyPatchesLoop hash h now ps ?L' = (f, c, e)"
      by (cases "applyPatchesLoop hash h now ps ?L'")
    from Cons.prems(1) True rec have ok: "patchOutcome h p = None" and e: "e = None"
      and f: "f = L1"
      by (auto simp: applyPatchesLoop_step simp del: applyPatchesLoop.simps(2)
          split: option.splits)
    from Cons.IH [OF rec [unfolded e f] d] have rest: "\<forall>q \<in> set ps. patchRecorded hash L1 q" .
    from loop_preserves_find [OF fresh, of hash h now ?L'] rec f
    have "find (matchesPatch p) L1 = find (matchesPatch p) ?L'" by simp
    then have "patchRecorded hash L1 p"
      by (simp add: patchRecorded_def find_recordPatch_same ok newPatchSyncStatus_def
          apply_success_not_failed)
    with rest show ?thesis by simp
  next
    case False
    with Cons.prems(1) have rec: "applyPatchesLoop hash h now ps L = (L1, calls, None)"
      by (simp add: applyPatchesLoop_step del: applyPatchesLoop.simps(2))
    from Cons.IH [OF rec d] have rest: "\<forall>q \<in> set ps. patchRecorded hash L1 q" .
    from loop_preserves_find [OF fresh, of hash h now L] rec
    have "find (matchesPatch p) L1 = find (matchesPatch p) L" by simp
    with False have "patchRecorded hash L1 p"
      by (auto simp: patchRecorded_def specReapplyPatch_def failedLastTime_conditionStatus
          split: option.splits)
    with rest show ?thesis by simp
  qed
qed

lemma patches_run2:
  "\<forall>p \<in> set ps. \<not> specReapplyPatch hash now L p
   \<Longrightarrow> applyPatchesLoop hash h now ps L = (L, [], None)"
  by (induction ps) (simp_all add: applyPatchesLoop_step del: applyPatchesLoop.simps(2))

lemma recorded_recent_quiet:
  assumes "patchRecorded hash L p" and "\<forall>e \<in> set L. \<not> reapplyDue now (Conditions e)"
  shows "\<not> specReapplyPatch hash now L p"
proof -
  from assms(1) obtain e where f: "find (matchesPatch p) L = Some e"
    and h: "Hash e = hash (pPatch p)" and nf: "\<not> failedLastTime (Conditions e)"
    by (auto simp: patchRecorded_def split: option.splits)
  from f have "e \<in> set L" by (auto simp: find_Some_iff)
  with assms(2) have "\<not> reapplyDue now (Conditions e)" by simp
  with f h nf show ?thesis
    by (auto simp: specReapplyPatch_def failedLastTime_conditionStatus reapplyDue_def
        split: option.splits)
qed

lemma patches_idempotent:
  assumes run1: "applySyncSetPatches hash now1 ps h s1 = (s2, calls, None)"
    and dist: "distinct (map patchKey ps)"
    and recent: "\<forall>e \<in> set (ssosPatches s2). \<not> reapplyDue now2 (Conditions e)"
  shows "applySyncSetPatches hash now2 ps h s2 = (s2, [], None)"
proof -
  obtain L1 c e where lp: "applyPatchesLoop hash h now1 ps (ssosPatches s1) = (L1, c, e)"
    by (cases "applyPatchesLoop hash h now1 ps (ssosPatches s1)")
  with run1 have e: "e = None" and s2: "s2 = s1\<lparr>ssosPatches := L1\<rparr>"
    by (simp_all add: applySyncSetPatches_def)
  from patches_run1 [OF lp [unfolded e] dist] have a: "\<forall>p \<in> set ps. patchRecorded hash L1 p" .
  from recent s2 have b: "\<forall>e \<in> set L1. \<not> reapplyDue now2 (Conditions e)" by simp
  have "\<forall>p \<in> set ps. \<not> specReapplyPatch hash now2 L1 p"
  proof
    fix p assume "p \<in> set ps"
    with a have "patchRecorded hash L1 p" by simp
    then show "\<not> specReapplyPatch hash now2 L1 p" using b by (rule recorded_recent_quiet)
  qed
  from patches_run2 [OF this, of h]
  show ?thesis by (simp add: applySyncSetPatches_def s2)
qed

text \<open>One bundle, then a list of bundles with distinct names on one status list.\<close>

lemma resources_frame:
  "applySyncSetResources hash now mode rs dc h (s\<lparr>ssosPatches := P\<rparr>)
     = (case applySyncSetResources hash now mode rs dc h s of
          (a, c, e) \<Rightarrow> (a\<lparr>ssosPatches := P\<rparr>, c, e))"
  by (simp add: applySyncSetResources_def Let_def split: sum.splits prod.splits option.splits)

lemma patches_fields:
  "applySyncSetPatches hash now ps h s = (s', c, e)
   \<Longrightarrow> \<exists>P. s' = s\<lparr>ssosPatches := P\<rparr>"
  by (auto simp: applySyncSetPatches_def split: prod.splits)

lemma bundle_idempotent:
  assumes run1: "applyBundle hash now1 dc h b s0 = (s2, calls, None)"
    and keys: "wellKeyed h b"
    and recent: "recentEntry now2 s2"
  shows "applyBundle hash now2 dc h b s2 = (s2, map InfoCall (specResources b), None)"
proof -
  obtain s1 c1 e1 where r1:
    "applySyncSetResources hash now1 (specResourceApplyMode b) (specResources b) dc h s0
       = (s1, c1, e1)"
    by (cases "applySyncSetResources hash now1 (specResourceApplyMode b) (specResources b)
                 dc h s0")
  obtain s2' c2 e2 where p1: "applySyncSetPatches hash now1 (specPatches b) h s1 = (s2', c2, e2)"
    by (cases "applySyncSetPatches hash now1 (specPatches b) h s1")
  from run1 r1 p1 have e1: "e1 = None" and e2: "e2 = None" and s2: "s2' = s2"
    by (auto simp: applyBundle_def split: option.splits)
  from patches_fields [OF p1] s2 obtain P where sp: "s2 = s1\<lparr>ssosPatches := P\<rparr>" by auto
  from recent sp have rr: "\<forall>e \<in> set (ssosResources s1). \<not> reapplyDue now2 (Conditions e)"
    and rp: "\<forall>e \<in> set (ssosPatches s2). \<not> reapplyDue now2 (Conditions e)"
    by (auto simp: recentEntry_def list_all_iff)
  from resources_idempotent [OF r1 [unfolded e1] _ rr] keys
  have "applySyncSetResources hash now2 (specResourceApplyMode b) (specResources b) dc h s1
          = (s1, map InfoCall (specResources b), None)"
    by (simp add: wellKeyed_def)
  then have a: "applySyncSetResources hash now2 (specResourceApplyMode b) (specResources b)
                  dc h s2 = (s2, map InfoCall (specResources b), None)"
    by (simp add: sp resources_frame)
  from patches_idempotent [OF p1 [unfolded e2 s2] _ rp] keys
  have "applySyncSetPatches hash now2 (specPatches b) h s2 = (s2, [], None)"
    by (simp add: wellKeyed_def)
  with a show ?thesis by (simp add: applyBundle_def)
qed

lemma applyBundle_name:
  "applyBundle hash now dc h b s = (s', c, e) \<Longrightarrow> ssosName s' = ssosName s"
  by (auto simp: applyBundle_def applySyncSetResources_def applySyncSetPatches_def Let_def
      split: sum.splits prod.splits option.splits)

lemma findSyncSetStatus_name [simp]: "ssosName (findSyncSetStatus n L) = n"
  by (induction L) auto

lemma find_appendOrUpdate_status_same:
  "ssosName s = n \<Longrightarrow> findSyncSetStatus n (appendOrUpdateSyncSetObjectStatus L s) = s"
  by (induction L) auto

lemma find_appendOrUpdate_status_other:
  "ssosName s \<noteq> n
   \<Longrightarrow> findSyncSetStatus n (appendOrUpdateSyncSetObjectStatus L s) = findSyncSetStatus n L"
  by (induction L) auto

lemma names_appendOrUpdate:
  "ssosName ` set (appendOrUpdateSyncSetObjectStatus L s) = insert (ssosName s) (ssosName ` set L)"
  by (induction L) auto

lemma appendOrUpdate_found:
  "n \<in> ssosName ` set L
   \<Longrightarrow> appendOrUpdateSyncSetObjectStatus L (findSyncSetStatus n L) = L"
  by (induction L) auto

lemma findSyncSetStatus_member:
  "n \<in> ssosName ` set L \<Longrightarrow> findSyncSetStatus n L \<in> set L"
  by (induction L) auto

lemma applyBundles_first_error:
  "applyBundles hash now dc h bs L fe = (L', None, calls) \<Longrightarrow> fe = None"
proof (induction bs arbitrary: L fe calls L')
  case Nil then show ?case by simp
next
  case (Cons b bs)
  obtain s c e where ab:
    "applyBundle hash now dc h b (findSyncSetStatus (metaName b) L) = (s, c, e)"
    by (cases "applyBundle hash now dc h b (findSyncSetStatus (metaName b) L)")
  obtain L2 fe2 c2 where rec:
    "applyBundles hash now dc h bs (appendOrUpdateSyncSetObjectStatus L s)
       (if e \<noteq> None then firstError fe e else fe) = (L2, fe2, c2)"
    by (cases "applyBundles hash now dc h bs (appendOrUpdateSyncSetObjectStatus L s)
                 (if e \<noteq> None then firstError fe e else fe)")
  from Cons.prems ab rec have "fe2 = None" by simp
  with Cons.IH [OF rec [unfolded this]] show ?case
    by (auto simp: firstError_def split: if_splits)
qed

lemma applyBundles_preserves:
  "n \<notin> set (map metaName bs)
   \<Longrightarrow> findSyncSetStatus n (fst (applyBundles hash now dc h bs L fe)) = findSyncSetStatus n L
       \<and> (n \<in> ssosName ` set L \<longrightarrow> n \<in> ssosName ` set (fst (applyBundles hash now dc h bs L fe)))"
proof (induction bs arbitrary: L fe)
  case Nil then show ?case by simp
next
  case (Cons b bs)
  obtain s c e where ab:
    "applyBundle hash now dc h b (findSyncSetStatus (metaName b) L) = (s, c, e)"
    by (cases "applyBundle hash now dc h b (findSyncSetStatus (metaName b) L)")
  from applyBundle_name [OF ab] have sn: "ssosName s = metaName b" by simp
  from Cons.prems have nb: "metaName b \<noteq> n" and r: "n \<notin> set (map metaName bs)" by auto
  define fe' where "fe' = (if e \<noteq> None then firstError fe e else fe)"
  obtain L2 fe2 c2 where rec:
    "applyBundles hash now dc h bs (appendOrUpdateSyncSetObjectStatus L s) fe' = (L2, fe2, c2)"
    by (cases "applyBundles hash now dc h bs (appendOrUpdateSyncSetObjectStatus L s) fe'")
  from Cons.IH [OF r, of "appendOrUpdateSyncSetObjectStatus L s" fe'] rec
  have "findSyncSetStatus n L2 = findSyncSetStatus n (appendOrUpdateSyncSetObjectStatus L s)"
    and "n \<in> ssosName ` set (appendOrUpdateSyncSetObjectStatus L s)
           \<longrightarrow> n \<in> ssosName ` set L2"
    by simp_all
  moreover have "fst (applyBundles hash now dc h (b # bs) L fe) = L2"
    using ab rec by (simp add: fe'_def)
  ultimately show ?case
    using nb sn by (simp add: find_appendOrUpdate_status_other names_appendOrUpdate)
qed

lemma applyBundles_run1:
  "applyBundles hash now1 dc h bs L0 None = (L1, None, calls)
   \<Longrightarrow> distinct (map metaName bs)
   \<Longrightarrow> \<forall>b \<in> set bs. wellKeyed h b
   \<Longrightarrow> \<forall>s \<in> set L1. recentEntry now2 s
   \<Longrightarrow> \<forall>b \<in> set bs. settled hash now2 dc h L1 b"
proof (induction bs arbitrary: L0 calls)
  case Nil then show ?case by simp
next
  case (Cons b bs)
  let ?n = "metaName b"
  obtain s c e where ab: "applyBundle hash now1 dc h b (findSyncSetStatus ?n L0) = (s, c, e)"
    by (cases "applyBundle hash now1 dc h b (findSyncSetStatus ?n L0)")
  let ?L = "appendOrUpdateSyncSetObjectStatus L0 s"
  obtain L2 fe2 c2 where rec:
    "applyBundles hash now1 dc h bs ?L (if e \<noteq> None then firstError None e else None)
       = (L2, fe2, c2)"
    by (cases "applyBundles hash now1 dc h bs ?L (if e \<noteq> None then firstError None e else None)")
  from Cons.prems(1) ab rec have L2: "L2 = L1" and fe2: "fe2 = None" by simp_all
  from applyBundles_first_error [OF rec [unfolded fe2]] have e: "e = None"
    by (auto simp: firstError_def split: if_splits)
  from rec e L2 fe2 have rec': "applyBundles hash now1 dc h bs ?L None = (L1, None, c2)" by simp
  from Cons.prems(2) have fresh: "?n \<notin> set (map metaName bs)" and d: "distinct (map metaName bs)"
    by simp_all
  from Cons.IH [OF rec' d] Cons.prems(3,4)
  have rest: "\<forall>b \<in> set bs. settled hash now2 dc h L1 b" by simp
  from applyBundle_name [OF ab] have sn: "ssosName s = ?n" by simp
  from applyBundles_preserves [OF fresh, of hash now1 dc h ?L None] rec'
  have f: "findSyncSetStatus ?n L1 = s" and m: "?n \<in> ssosName ` set L1"
    by (simp_all add: find_appendOrUpdate_status_same [OF sn] names_appendOrUpdate sn)
  from findSyncSetStatus_member [OF m] f Cons.prems(4) have "recentEntry now2 s" by auto
  from bundle_idempotent [OF ab [unfolded e] _ this] Cons.prems(3)
  have "applyBundle hash now2 dc h b s = (s, map InfoCall (specResources b), None)" by simp
  with f m have "settled hash now2 dc h L1 b" by (simp add: settled_def)
  with rest show ?case by simp
qed

lemma applyBundles_run2:
  "\<forall>b \<in> set bs. settled hash now dc h L b
   \<Longrightarrow> applyBundles hash now dc h bs L fe = (L, fe, infoProbes bs)"
  by (induction bs) (simp_all add: settled_def appendOrUpdate_found infoProbes_def)

lemma applyBundles_idempotent:
  assumes "applyBundles hash now1 dc h bs L0 None = (L1, None, calls)"
    and "distinct (map metaName bs)"
    and "\<forall>b \<in> set bs. wellKeyed h b"
    and "\<forall>s \<in> set L1. recentEntry now2 s"
  shows "applyBundles hash now2 dc h bs L1 None = (L1, None, infoProbes bs)"
  using applyBundles_run1 [OF assms] by (rule applyBundles_run2)

text \<open>
  On active bundles the two loops of the reconciler are \<^const>\<open>applyBundles\<close> on the
  SyncSet and on the SelectorSyncSet status list; the migration keeps names, activity
  and keys.
\<close>

lemma turn_active:
  "active b \<Longrightarrow>
   reconcileSyncSet r now kc dc b st fe =
     (case applyBundle (rHash r) now dc (rApplierBuilder r kc) b
             (findSyncSetStatus (metaName b) (SyncSetStatus st)) of
        (s, calls, err) \<Rightarrow>
          (st\<lparr>SyncSetStatus := appendOrUpdateSyncSetObjectStatus (SyncSetStatus st) s,
              SyncSetStatusNil := False\<rparr>,
           (if err \<noteq> None then firstError fe err else fe), calls, None))"
  by (auto simp: active_def reconcileSyncSet_def applyBundle_def Let_def
      split: prod.splits option.splits)

lemma selector_turn_active:
  "active b \<Longrightarrow>
   reconcileSelectorSyncSet r now kc dc b st fe =
     (case applyBundle (rHash r) now dc (rApplierBuilder r kc) b
             (findSyncSetStatus (metaName b) (SelectorSyncSetStatus st)) of
        (s, calls, err) \<Rightarrow>
          (st\<lparr>SelectorSyncSetStatus :=
                appendOrUpdateSyncSetObjectStatus (SelectorSyncSetStatus st) s,
              SelectorSyncSetStatusNil := False\<rparr>,
           (if err \<noteq> None then firstError fe err else fe), calls, None))"
  by (auto simp: active_def reconcileSelectorSyncSet_def applyBundle_def Let_def
      split: prod.splits option.splits)

lemma loop_active:
  "\<forall>b \<in> set bs. active b \<Longrightarrow>
   syncSetsLoop r now kc dc bs st fe =
     (case applyBundles (rHash r) now dc (rApplierBuilder r kc) bs (SyncSetStatus st) fe of
        (L, fe', calls) \<Rightarrow>
          (st\<lparr>SyncSetStatus := L, SyncSetStatusNil := (SyncSetStatusNil st \<and> bs = [])\<rparr>,
           fe', calls, None))"
proof (induction bs arbitrary: st fe)
  case Nil then show ?case by simp
next
  case (Cons b bs)
  from Cons.prems have a: "active b" and r: "\<forall>b \<in> set bs. active b" by simp_all
  show ?case
    by (simp add: turn_active [OF a] Cons.IH [OF r] split: prod.splits)
qed

lemma selector_loop_active:
  "\<forall>b \<in> set bs. active b \<Longrightarrow>
   selectorSyncSetsLoop r now kc dc bs st fe =
     (case applyBundles (rHash r) now dc (rApplierBuilder r kc) bs (SelectorSyncSetStatus st) fe of
        (L, fe', calls) \<Rightarrow>
          (st\<lparr>SelectorSyncSetStatus := L,
              SelectorSyncSetStatusNil := (SelectorSyncSetStatusNil st \<and> bs = [])\<rparr>,
           fe', calls, None))"
proof (induction bs arbitrary: st fe)
  case Nil then show ?case by simp
next
  case (Cons b bs)
  from Cons.prems have a: "active b" and r: "\<forall>b \<in> set bs. active b" by simp_all
  show ?case
    by (simp add: selector_turn_active [OF a] Cons.IH [OF r] split: prod.splits)
qed

lemma migrated_names: "map metaName (itemsAfterMigration u xs) = map metaName xs"
  by (induction xs) (auto simp: migratedBundle_def)

lemma migrated_all:
  "\<forall>a \<in> set xs. P a \<Longrightarrow> (\<And>a. P (migratedBundle a) = P a)
   \<Longrightarrow> \<forall>b \<in> set (itemsAfterMigration u xs). P b"
  by (induction xs) auto

lemma active_migrated: "active (migratedBundle a) = active a"
  by (simp add: active_def migratedBundle_def)

lemma wellKeyed_migrated: "wellKeyed h (migratedBundle a) = wellKeyed h a"
proof -
  have "patchKey \<circ> (\<lambda>p. p\<lparr>pPatchType := migratedPatchType (pPatchType p)\<rparr>) = patchKey"
    by (rule ext) (simp add: patchKey_def)
  then show ?thesis by (simp add: wellKeyed_def migratedBundle_def)
qed

lemma steadyBundles_migrated:
  "steadyBundles h xs \<Longrightarrow> steadyBundles h (itemsAfterMigration u xs)"
proof -
  assume s: "steadyBundles h xs"
  then have "\<forall>a \<in> set xs. active a \<and> wellKeyed h a"
    by (simp add: steadyBundles_def list_all_iff)
  then have "\<forall>b \<in> set (itemsAfterMigration u xs). active b \<and> wellKeyed h b"
    by (rule migrated_all) (simp add: active_migrated wellKeyed_migrated)
  with s show ?thesis by (simp add: steadyBundles_def list_all_iff migrated_names)
qed

lemma infoProbes_migrated: "infoProbes (itemsAfterMigration u xs) = infoProbes xs"
  by (induction xs) (auto simp: infoProbes_def migratedBundle_def)

lemma migration_calls_harmless:
  "filter changesClusterOrStatus (fst (snd (migrateSyncSetPatchTypes r xs))) = []"
  "filter changesClusterOrStatus (fst (snd (migrateSelectorSyncSetPatchTypes r ys))) = []"
  by (simp_all add: migrateSyncSetPatchTypes_parts migrateSelectorSyncSetPatchTypes_parts
      filter_map comp_def)

lemma migration_calls_no_info:
  "filter isInfoCall (fst (snd (migrateSyncSetPatchTypes r xs))) = []"
  "filter isInfoCall (fst (snd (migrateSelectorSyncSetPatchTypes r ys))) = []"
  by (simp_all add: migrateSyncSetPatchTypes_parts migrateSelectorSyncSetPatchTypes_parts
      filter_map comp_def)

lemma infoProbes_filter:
  "filter isInfoCall (infoProbes bs) = infoProbes bs"
  "filter changesClusterOrStatus (infoProbes bs) = []"
  by (induction bs) (simp_all add: infoProbes_def filter_map comp_def)

lemma related_status_update:
  "getRelatedSyncSets r (cd\<lparr>cdStatus := s\<rparr>) = getRelatedSyncSets r cd"
  "getRelatedSelectorSyncSets r (cd\<lparr>cdStatus := s\<rparr>) = getRelatedSelectorSyncSets r cd"
  by (simp_all add: getRelatedSyncSets_def getRelatedSelectorSyncSets_def
      split: sum.splits)

lemma second_pass_quiet:
  assumes run1: "reconcileSyncSets r now1 cd = (st1, calls1, None)"
    and steady: "steady r cd"
    and recent: "recentStatus now2 st1"
  shows "reconcileSyncSets r now2 (cd\<lparr>cdStatus := st1\<rparr>)
           = (st1, fst (snd (migrateSyncSetPatchTypes r (relatedSyncSets r cd)))
                   @ fst (snd (migrateSelectorSyncSetPatchTypes r
                                 (relatedSelectorSyncSets r cd)))
                   @ infoProbes (relatedSyncSets r cd)
                   @ infoProbes (relatedSelectorSyncSets r cd), None)"
    and "Installed st1 = Installed (cdStatus cd)"
proof -
  let ?cd' = "cd\<lparr>cdStatus := st1\<rparr>"
  from run1 obtain xs where gx: "getRelatedSyncSets r cd = Inr xs"
    by (cases "getRelatedSyncSets r cd") (auto simp: reconcileSyncSets_def)
  from run1 gx obtain ys where gy: "getRelatedSelectorSyncSets r cd = Inr ys"
    by (cases "getRelatedSelectorSyncSets r cd") (auto simp: reconcileSyncSets_def)
  obtain xs' m1 me1 where mx: "migrateSyncSetPatchTypes r xs = (xs', m1, me1)"
    by (cases "migrateSyncSetPatchTypes r xs")
  obtain ys' m2 me2 where my: "migrateSelectorSyncSetPatchTypes r ys = (ys', m2, me2)"
    by (cases "migrateSelectorSyncSetPatchTypes r ys")
  from run1 gx gy mx my obtain kc where
    sec: "loadSecretData r (AdminKubeconfigSecret (cdStatus cd)) (cdNamespace cd)
            adminKubeConfigKey = Inr kc"
    by (cases "loadSecretData r (AdminKubeconfigSecret (cdStatus cd)) (cdNamespace cd)
                 adminKubeConfigKey") (auto simp: reconcileSyncSets_def)
  from run1 gx gy mx my sec obtain dc where dyn: "rDynamicClientBuilder r kc = Inr dc"
    by (cases "rDynamicClientBuilder r kc") (auto simp: reconcileSyncSets_def)
  let ?h = "rApplierBuilder r kc"
  have h: "passApplier r cd = ?h" by (simp add: passApplier_def sec)
  have xs'_def: "xs' = itemsAfterMigration (rUpdateSyncSet r) xs"
    using mx migrateSyncSetPatchTypes_parts(1) [of r xs] by (simp add: migratePatchTypes_items)
  have ys'_def: "ys' = itemsAfterMigration (rUpdateSelectorSyncSet r) ys"
    using my migrateSelectorSyncSetPatchTypes_parts(1) [of r ys]
    by (simp add: migratePatchTypes_items)
  from steady gx gy h have sx: "steadyBundles ?h xs'" and sy: "steadyBundles ?h ys'"
    by (simp_all add: steady_def relatedSyncSets_def relatedSelectorSyncSets_def
        xs'_def ys'_def steadyBundles_migrated)
  then have ax: "\<forall>b \<in> set xs'. active b" and ay: "\<forall>b \<in> set ys'. active b"
    and kx: "\<forall>b \<in> set xs'. wellKeyed ?h b" and ky: "\<forall>b \<in> set ys'. wellKeyed ?h b"
    and dx: "distinct (map metaName xs')" and dy: "distinct (map metaName ys')"
    by (simp_all add: steadyBundles_def list_all_iff)
  let ?st0 = "cdStatus cd"
  obtain LA feA cA where la:
    "applyBundles (rHash r) now1 dc ?h xs' (SyncSetStatus ?st0) None = (LA, feA, cA)"
    by (cases "applyBundles (rHash r) now1 dc ?h xs' (SyncSetStatus ?st0) None")
  obtain LB feB cB where lb:
    "applyBundles (rHash r) now1 dc ?h ys' (SelectorSyncSetStatus ?st0) feA = (LB, feB, cB)"
    by (cases "applyBundles (rHash r) now1 dc ?h ys' (SelectorSyncSetStatus ?st0) feA")
  from run1 have st1: "st1 = ?st0\<lparr>SyncSetStatus := LA,
        SyncSetStatusNil := (SyncSetStatusNil ?st0 \<and> xs' = []), SelectorSyncSetStatus := LB,
        SelectorSyncSetStatusNil := (SelectorSyncSetStatusNil ?st0 \<and> ys' = [])\<rparr>"
    and feB: "feB = None"
    by (auto simp: reconcileSyncSets_def gx gy mx my sec dyn loop_active [OF ax]
        selector_loop_active [OF ay] la lb updateClusterDeploymentStatus_def
        split: if_splits option.splits)
  from applyBundles_first_error [OF lb [unfolded feB]] have feA: "feA = None" .
  from recent st1 have ra: "\<forall>s \<in> set LA. recentEntry now2 s"
    and rb: "\<forall>s \<in> set LB. recentEntry now2 s"
    by (simp_all add: recentStatus_def list_all_iff)
  from applyBundles_idempotent [OF la [unfolded feA] dx kx ra]
  have qa: "applyBundles (rHash r) now2 dc ?h xs' LA None = (LA, None, infoProbes xs')" .
  from applyBundles_idempotent [OF lb [unfolded feA feB] dy ky rb]
  have qb: "applyBundles (rHash r) now2 dc ?h ys' LB None = (LB, None, infoProbes ys')" .
  have g': "getRelatedSyncSets r ?cd' = Inr xs" "getRelatedSelectorSyncSets r ?cd' = Inr ys"
    using gx gy by (simp_all add: related_status_update)
  have sec': "loadSecretData r (AdminKubeconfigSecret st1) (cdNamespace cd)
            adminKubeConfigKey = Inr kc"
    using sec by (simp add: st1)
  have same: "st1\<lparr>SyncSetStatus := LA,
                 SyncSetStatusNil := (SyncSetStatusNil st1 \<and> xs' = [])\<rparr> = st1"
    "st1\<lparr>SelectorSyncSetStatus := LB,
        SelectorSyncSetStatusNil := (SelectorSyncSetStatusNil st1 \<and> ys' = [])\<rparr> = st1"
    by (auto simp: st1)
  have f: "SyncSetStatus st1 = LA" "SelectorSyncSetStatus st1 = LB"
    by (simp_all add: st1)
  have pr: "infoProbes xs' = infoProbes xs" "infoProbes ys' = infoProbes ys"
    by (simp_all add: xs'_def ys'_def infoProbes_migrated)
  have "reconcileSyncSets r now2 ?cd' = (st1, m1 @ m2 @ infoProbes xs @ infoProbes ys, None)"
    by (simp add: reconcileSyncSets_def g' mx my sec' dyn loop_active [OF ax]
        selector_loop_active [OF ay] f qa qb same updateClusterDeploymentStatus_def pr)
  then show "reconcileSyncSets r now2 (cd\<lparr>cdStatus := st1\<rparr>)
           = (st1, fst (snd (migrateSyncSetPatchTypes r (relatedSyncSets r cd)))
                   @ fst (snd (migrateSelectorSyncSetPatchTypes r
                                 (relatedSelectorSyncSets r cd)))
                   @ infoProbes (relatedSyncSets r cd)
                   @ infoProbes (relatedSelectorSyncSets r cd), None)"
    using mx my gx gy by (simp add: relatedSyncSets_def relatedSelectorSyncSets_def)
  show "Installed st1 = Installed (cdStatus cd)" by (simp add: st1)
qed

section \<open>The second of two consecutive reconciles\<close>

lemma turn_rGet:
  "reconcileSyncSet (r\<lparr>rGet := g\<rparr>) now kc dc b st fe = reconcileSyncSet r now kc dc b st fe"
  "reconcileSelectorSyncSet (r\<lparr>rGet := g\<rparr>) now kc dc c st fe
     = reconcileSelectorSyncSet r now kc dc c st fe"
  by (simp_all add: reconcileSyncSet_def reconcileSelectorSyncSet_def)

lemma loops_rGet:
  "syncSetsLoop (r\<lparr>rGet := g\<rparr>) now kc dc bs st fe = syncSetsLoop r now kc dc bs st fe"
  "selectorSyncSetsLoop (r\<lparr>rGet := g\<rparr>) now kc dc cs st fe
     = selectorSyncSetsLoop r now kc dc cs st fe"
  by (induction bs arbitrary: st fe, simp_all add: turn_rGet)
     (induction cs arbitrary: st fe, simp_all add: turn_rGet)

lemma parts_rGet:
  "getRelatedSyncSets (r\<lparr>rGet := g\<rparr>) cd = getRelatedSyncSets r cd"
  "getRelatedSelectorSyncSets (r\<lparr>rGet := g\<rparr>) cd = getRelatedSelectorSyncSets r cd"
  "migrateSyncSetPatchTypes (r\<lparr>rGet := g\<rparr>) xs = migrateSyncSetPatchTypes r xs"
  "migrateSelectorSyncSetPatchTypes (r\<lparr>rGet := g\<rparr>) ys = migrateSelectorSyncSetPatchTypes r ys"
  "loadSecretData (r\<lparr>rGet := g\<rparr>) n ns k = loadSecretData r n ns k"
  "updateClusterDeploymentStatus (r\<lparr>rGet := g\<rparr>) cd' cd = updateClusterDeploymentStatus r cd' cd"
  by (simp_all add: getRelatedSyncSets_def getRelatedSelectorSyncSets_def
      migrateSyncSetPatchTypes_def migrateSelectorSyncSetPatchTypes_def loadSecretData_def
      updateClusterDeploymentStatus_def cong: sum.case_cong)

lemma reconcileSyncSets_rGet:
  "reconcileSyncSets (r\<lparr>rGet := g\<rparr>) now cd = reconcileSyncSets r now cd"
  by (simp add: reconcileSyncSets_def parts_rGet loops_rGet
      cong: sum.case_cong prod.case_cong option.case_cong)

text \<open>
  C8 (amended).  Let a reconcile of an installed cluster deployment, not being deleted,
  return no error, and let every bundle that applies to it be active (cleanup finalizer,
  no deletion timestamp) and well keyed (resources with pairwise distinct (apiVersion,
  kind, namespace, name), patches with pairwise distinct (name, namespace, kind)), with
  pairwise distinct names among the SyncSets and among the SelectorSyncSets.  Then the
  next reconcile, which reads the status exactly as the first left it (an empty resource
  list read as empty, not as nil) and finds no recorded ApplySuccess probe older than two
  hours, issues no apply, no patch, no delete and no status update, and returns no error:
  the status it computes equals the one it read.  Its calls to the Applier are the info
  probes, one per resource of every bundle.
\<close>

theorem C8_second_reconcile_quiet:
  assumes get: "rGet r request = Inr cd"
    and gates: "cdDeletionTimestamp cd = None" "Installed (cdStatus cd)"
    and first: "snd (Reconcile r now1 request) = None"
    and steady: "steady r cd"
    and recent: "recentStatus now2 (cdStatus (statusAfter r now1 cd))"
  shows "filter changesClusterOrStatus
           (fst (Reconcile (rereading r request (statusAfter r now1 cd)) now2 request)) = []
         \<and> filter isInfoCall
           (fst (Reconcile (rereading r request (statusAfter r now1 cd)) now2 request))
           = infoProbes (relatedSyncSets r cd) @ infoProbes (relatedSelectorSyncSets r cd)
         \<and> snd (Reconcile (rereading r request (statusAfter r now1 cd)) now2 request) = None"
proof -
  obtain st1 calls1 e1 where run1: "reconcileSyncSets r now1 cd = (st1, calls1, e1)"
    by (cases "reconcileSyncSets r now1 cd")
  from first get gates run1 have e1: "e1 = None" by (simp add: Reconcile_def)
  have sa: "statusAfter r now1 cd = cd\<lparr>cdStatus := st1\<rparr>"
    by (simp add: statusAfter_def run1)
  from recent have rc: "recentStatus now2 st1" by (simp add: sa)
  note main = second_pass_quiet [OF run1 [unfolded e1] steady rc]
  from main(2) gates(2) have inst: "Installed st1" by simp
  show ?thesis
    using main(1) gates inst
    by (simp add: Reconcile_def rereading_def sa reconcileSyncSets_rGet
        migration_calls_harmless migration_calls_no_info infoProbes_filter)
qed


text \<open>The theorem at a SyncSet with one resource and one patch, reconciled at the
  instants 0 and 1.\<close>

lemma steady_example_facts:
  "rGet (platform cd0 [oneOfEach] []) (''acme'', ''c1'') = Inr cd0"
  "cdDeletionTimestamp cd0 = None" "Installed (cdStatus cd0)"
  "snd (Reconcile (platform cd0 [oneOfEach] []) 0 (''acme'', ''c1'')) = None"
  "steady (platform cd0 [oneOfEach] []) cd0"
  "recentStatus 1 (cdStatus (statusAfter (platform cd0 [oneOfEach] []) 0 cd0))"
  by code_simp+

theorem C8_second_reconcile_quiet_witness:
  "filter changesClusterOrStatus
     (fst (Reconcile
             (rereading (platform cd0 [oneOfEach] []) (''acme'', ''c1'')
                (statusAfter (platform cd0 [oneOfEach] []) 0 cd0))
             1 (''acme'', ''c1''))) = []
   \<and> filter isInfoCall
     (fst (Reconcile
             (rereading (platform cd0 [oneOfEach] []) (''acme'', ''c1'')
                (statusAfter (platform cd0 [oneOfEach] []) 0 cd0))
             1 (''acme'', ''c1'')))
     = infoProbes (relatedSyncSets (platform cd0 [oneOfEach] []) cd0)
       @ infoProbes (relatedSelectorSyncSets (platform cd0 [oneOfEach] []) cd0)
   \<and> snd (Reconcile
             (rereading (platform cd0 [oneOfEach] []) (''acme'', ''c1'')
                (statusAfter (platform cd0 [oneOfEach] []) 0 cd0))
             1 (''acme'', ''c1'')) = None"
  by (rule C8_second_reconcile_quiet [OF steady_example_facts])

text \<open>
  C8 as stated fails in three ways, each after a first reconcile without error and one
  nanosecond later.  For a bundle with two patches for the same object the status keeps
  one entry per (name, namespace, kind), so the second reconcile finds the hash of the
  other patch recorded each time, applies both patches again and writes the status.  For
  a bundle with one resource and one patch the second reconcile calls the Applier for the
  info probe of the resource, and nothing else.  For a bundle without resources the pass
  assigns the empty list of line 407 to \<^verbatim>\<open>Resources\<close>: read back exactly, the second
  reconcile is quiet, but read back as nil the status differs from what the pass
  computes, and it is written again.
\<close>

theorem C8_second_reconcile_not_quiet:
  "snd (Reconcile (platform cd0 [twoPatches] []) 0 (''acme'', ''c1'')) = None
   \<and> recentStatus 1 (cdStatus (statusAfter (platform cd0 [twoPatches] []) 0 cd0))
   \<and> map callKind
         (fst (Reconcile
                 (rereading (platform cd0 [twoPatches] []) (''acme'', ''c1'')
                    (statusAfter (platform cd0 [twoPatches] []) 0 cd0))
                 1 (''acme'', ''c1'')))
       = [''patch'', ''patch'', ''status-update'']
   \<and> map callKind
         (fst (Reconcile
                 (rereading (platform cd0 [oneOfEach] []) (''acme'', ''c1'')
                    (statusAfter (platform cd0 [oneOfEach] []) 0 cd0))
                 1 (''acme'', ''c1'')))
       = [''info'']
   \<and> snd (Reconcile (platform cd0 [noResources] []) 0 (''acme'', ''c1'')) = None
   \<and> map callKind
         (fst (Reconcile
                 (rereading (platform cd0 [noResources] []) (''acme'', ''c1'')
                    (statusAfter (platform cd0 [noResources] []) 0 cd0))
                 1 (''acme'', ''c1'')))
       = []
   \<and> map callKind
         (fst (Reconcile
                 (rereading (platform cd0 [noResources] []) (''acme'', ''c1'')
                    (readAsNil (statusAfter (platform cd0 [noResources] []) 0 cd0)))
                 1 (''acme'', ''c1'')))
       = [''status-update'']"
  by code_simp

end
